theory Spec2Isabelle
  imports Complex_Main "HOL-Library.AList"
begin

section \<open>Exceptions\<close>

text \<open>
  Every \<^verbatim>\<open>throw\<close> of the TypeScript sources is a value of this type. \<open>TypeError\<close> is
  the exception the JavaScript runtime raises by itself (a property read on
  \<^verbatim>\<open>undefined\<close> or \<^verbatim>\<open>null\<close>, an assignment to a property of a primitive in strict mode).
  \<open>CdpError code message\<close> is a rejected CDP command.
\<close>

datatype exn =
    InvalidArgumentException string
  | Error string
  | NoSuchFrameException string
  | TypeError
  | CdpError int string

section \<open>Input: the tick decomposition of \<^verbatim>\<open>input.performActions\<close>\<close>

text \<open>
  \<^verbatim>\<open>browsingContextProcessor.ts\<close>, \<^verbatim>\<open>#getActionsByTick\<close> (lines 446-484). The
  parameter list is a list of source-action records; the items of a source are kept
  abstract (\<open>'a\<close>), the function only moves them.
\<close>

datatype SourceActionsType = NoneSource | Key | Pointer | Wheel

datatype PointerType = Mouse | Pen | Touch

fun pointerType_str :: "PointerType \<Rightarrow> string" where
  "pointerType_str Mouse = ''mouse''"
| "pointerType_str Pen = ''pen''"
| "pointerType_str Touch = ''touch''"

record PointerParameters =
  pointerType :: "PointerType option"

record 'a SourceActions =
  type_sa :: SourceActionsType
  id_sa :: string
  parameters :: "PointerParameters option"
  actions :: "'a list"

record 'a ActionOption =
  id_ao :: string
  action :: 'a

text \<open>
  What \<^verbatim>\<open>inputState.getOrCreate\<close> hands back: the stored source, of which the
  function reads \<^verbatim>\<open>subtype\<close> only.
\<close>

record InputSource =
  subtype :: "PointerType option"

text \<open>
  \<^verbatim>\<open>action.parameters ??= {pointerType: Mouse}; action.parameters.pointerType ??= Mouse\<close>:
  the pointer type after both defaults.
\<close>

definition defaultedPointerType :: "PointerParameters option \<Rightarrow> PointerType" where
  "defaultedPointerType p =
     (case p of
        None \<Rightarrow> Mouse
      | Some q \<Rightarrow> (case pointerType q of None \<Rightarrow> Mouse | Some t \<Rightarrow> t))"

text \<open>
  The inner loop
  \<^verbatim>\<open>for (let i = 0; i < actions.length; i++) {
     if (actionsByTick.length === i) actionsByTick.push([]);
     actionsByTick[i]!.push(actions[i]!); }\<close>
  from index \<open>i\<close> on, the first argument being \<^verbatim>\<open>actions[i..]\<close>. Where
  \<^verbatim>\<open>actionsByTick[i]\<close> is \<^verbatim>\<open>undefined\<close> the call of \<^verbatim>\<open>push\<close> on it raises.
\<close>

fun pushByTick :: "nat \<Rightarrow> 'b list \<Rightarrow> 'b list list \<Rightarrow> exn + 'b list list" where
  "pushByTick i [] actionsByTick = Inr actionsByTick"
| "pushByTick i (a # rest) actionsByTick =
     (let abt = (if length actionsByTick = i then actionsByTick @ [[]] else actionsByTick)
      in if i < length abt
         then pushByTick (Suc i) rest (abt[i := abt ! i @ [a]])
         else Inl TypeError)"

text \<open>
  One round of \<^verbatim>\<open>for (const action of params.actions)\<close>. The input state module is
  not part of the sources at hand: \<open>getOrCreate\<close> is a parameter, a function from the
  state, the source id, the source type and the optional pointer subtype to the stored
  source and the new state, or to the exception it throws.
\<close>

definition sourceStep ::
  "('st \<Rightarrow> string \<Rightarrow> SourceActionsType \<Rightarrow> PointerType option \<Rightarrow> exn + (InputSource \<times> 'st))
   \<Rightarrow> 'a SourceActions \<Rightarrow> 'a ActionOption list list \<times> 'st
   \<Rightarrow> exn + ('a ActionOption list list \<times> 'st)" where
  "sourceStep getOrCreate act acc =
     (case acc of (actionsByTick, inputState) \<Rightarrow>
       (case
          (if type_sa act = Pointer
           then (let pt = defaultedPointerType (parameters act)
                 in case getOrCreate inputState (id_sa act) Pointer (Some pt) of
                      Inl e \<Rightarrow> Inl e
                    | Inr (source, st') \<Rightarrow>
                        if subtype source \<noteq> Some pt
                        then Inl (InvalidArgumentException
                               (''Expected input source '' @ id_sa act @ '' to be ''
                                @ (case subtype source of
                                     None \<Rightarrow> ''undefined''
                                   | Some t \<Rightarrow> pointerType_str t)
                                @ ''; got '' @ pointerType_str pt @ ''.''))
                        else Inr st')
           else (case getOrCreate inputState (id_sa act) (type_sa act) None of
                   Inl e \<Rightarrow> Inl e
                 | Inr (source, st') \<Rightarrow> Inr st'))
        of
          Inl e \<Rightarrow> Inl e
        | Inr st' \<Rightarrow>
            (case pushByTick 0
                    (map (\<lambda>item. \<lparr>id_ao = id_sa act, action = item\<rparr>) (actions act))
                    actionsByTick of
               Inl e \<Rightarrow> Inl e
             | Inr abt \<Rightarrow> Inr (abt, st'))))"

fun sourceLoop ::
  "('st \<Rightarrow> string \<Rightarrow> SourceActionsType \<Rightarrow> PointerType option \<Rightarrow> exn + (InputSource \<times> 'st))
   \<Rightarrow> 'a SourceActions list \<Rightarrow> 'a ActionOption list list \<times> 'st
   \<Rightarrow> exn + ('a ActionOption list list \<times> 'st)" where
  "sourceLoop getOrCreate [] acc = Inr acc"
| "sourceLoop getOrCreate (act # rest) acc =
     (case sourceStep getOrCreate act acc of
        Inl e \<Rightarrow> Inl e
      | Inr acc' \<Rightarrow> sourceLoop getOrCreate rest acc')"

definition getActionsByTick ::
  "('st \<Rightarrow> string \<Rightarrow> SourceActionsType \<Rightarrow> PointerType option \<Rightarrow> exn + (InputSource \<times> 'st))
   \<Rightarrow> 'a SourceActions list \<Rightarrow> 'st
   \<Rightarrow> exn + ('a ActionOption list list \<times> 'st)" where
  "getActionsByTick getOrCreate params_actions inputState =
     sourceLoop getOrCreate params_actions ([], inputState)"

text \<open>
  The decomposition in the words of the specification: tick \<open>i\<close> holds one action,
  tagged with its source id, of every source whose sequence is longer than \<open>i\<close>, in the
  order of the request; there are as many ticks as the longest sequence has actions.
\<close>

definition tickOf :: "'a SourceActions list \<Rightarrow> nat \<Rightarrow> 'a ActionOption list" where
  "tickOf srcs i =
     map (\<lambda>s. \<lparr>id_ao = id_sa s, action = actions s ! i\<rparr>)
         (filter (\<lambda>s. i < length (actions s)) srcs)"

definition maxLength :: "'a SourceActions list \<Rightarrow> nat" where
  "maxLength srcs = foldr (\<lambda>s m. max (length (actions s)) m) srcs 0"

text \<open>A state module for the examples: every source is created with the subtype asked for.\<close>

definition freshGetOrCreate ::
  "unit \<Rightarrow> string \<Rightarrow> SourceActionsType \<Rightarrow> PointerType option \<Rightarrow> exn + (InputSource \<times> unit)" where
  "freshGetOrCreate st sid ty sub = Inr (\<lparr>subtype = sub\<rparr>, st)"

section \<open>JSON values\<close>

text \<open>
  The values \<^verbatim>\<open>JSON.parse\<close> produces. An object is the list of its properties in
  insertion order; \<^verbatim>\<open>undefined\<close> is no JSON value, a value that may be
  \<^verbatim>\<open>undefined\<close> has type \<open>json option\<close>. A finite number is the rational it is
  (so \<^verbatim>\<open>-0\<close> is \<open>0\<close>); a literal beyond the range of the doubles is read by
  \<^verbatim>\<open>JSON.parse\<close> as \<^verbatim>\<open>Infinity\<close> or \<^verbatim>\<open>-Infinity\<close>, numbers that are no rationals.
\<close>

datatype json =
    JNull
  | JBool bool
  | JNum rat
  | JInfinity
  | JNegInfinity
  | JStr string
  | JArr "json list"
  | JObj "(string \<times> json) list"

text \<open>Reading a property of a parsed message object: \<^verbatim>\<open>messageObject.id\<close>.\<close>

fun getProperty :: "json \<Rightarrow> string \<Rightarrow> json option" where
  "getProperty (JObj props) k = map_of props k"
| "getProperty v k = None"

text \<open>\<^verbatim>\<open>'id' in messageObj\<close>, for a value whose JSON type is \<^verbatim>\<open>object\<close>.\<close>

fun hasProperty :: "json \<Rightarrow> string \<Rightarrow> bool" where
  "hasProperty (JObj props) k = (k \<in> fst ` set props)"
| "hasProperty v k = False"

section \<open>The BiDi transport of the mapper tab: envelope validation\<close>

text \<open>
  \<^verbatim>\<open>bidiTab.ts\<close>, class \<^verbatim>\<open>WindowBidiTransport\<close> (lines 117-261).
  \<^verbatim>\<open>JSON.parse\<close> belongs to the runtime: it is the parameter \<open>JSON_parse\<close>, with
  \<open>None\<close> where it throws.
\<close>

fun getJsonType :: "json option \<Rightarrow> string" where
  "getJsonType None = ''undefined''"
| "getJsonType (Some JNull) = ''null''"
| "getJsonType (Some (JArr xs)) = ''array''"
| "getJsonType (Some (JBool b)) = ''boolean''"
| "getJsonType (Some (JNum n)) = ''number''"
| "getJsonType (Some JInfinity) = ''number''"
| "getJsonType (Some JNegInfinity) = ''number''"
| "getJsonType (Some (JStr s)) = ''string''"
| "getJsonType (Some (JObj props)) = ''object''"

text \<open>
  \<^verbatim>\<open>Number.isInteger(id)\<close> and \<^verbatim>\<open>id < 0\<close>; the source evaluates the second only
  for a number.
\<close>

fun Number_isInteger :: "json option \<Rightarrow> bool" where
  "Number_isInteger (Some (JNum n)) = (frac n = 0)"
| "Number_isInteger v = False"

fun lessThanZero :: "json option \<Rightarrow> bool" where
  "lessThanZero (Some (JNum n)) = (n < 0)"
| "lessThanZero (Some JNegInfinity) = True"
| "lessThanZero v = False"

text \<open>
  The parsed envelope. Its fields hold the JSON values of the payload as they are;
  the checks of \<^verbatim>\<open>#parseBidiMessage\<close> fix their kinds.
\<close>

record RawCommandRequest =
  id_rq :: "json option"
  method_rq :: "json option"
  params_rq :: "json option"
  channel_rq :: "json option"

definition parseBidiMessage :: "(string \<Rightarrow> json option) \<Rightarrow> string \<Rightarrow> exn + RawCommandRequest" where
  "parseBidiMessage JSON_parse messageStr =
     (case JSON_parse messageStr of
        None \<Rightarrow> Inl (Error ''Cannot parse data as JSON'')
      | Some messageObject \<Rightarrow>
          let parsedType = getJsonType (Some messageObject) in
          if parsedType \<noteq> ''object''
          then Inl (Error (''Expected JSON object but got '' @ parsedType))
          else
            let id = getProperty messageObject ''id'';
                method = getProperty messageObject ''method'';
                params = getProperty messageObject ''params'';
                idType = getJsonType id
            in
            if idType \<noteq> ''number'' \<or> \<not> Number_isInteger id \<or> lessThanZero id
            then Inl (Error (''Expected unsigned integer but got '' @ idType))
            else
              let methodType = getJsonType method in
              if methodType \<noteq> ''string''
              then Inl (Error (''Expected string method but got '' @ methodType))
              else
                let paramsType = getJsonType params in
                if paramsType \<noteq> ''object''
                then Inl (Error (''Expected object params but got '' @ paramsType))
                else
                  let channel = getProperty messageObject ''channel'' in
                  if channel \<noteq> None
                  then
                    (let channelType = getJsonType channel in
                     if channelType \<noteq> ''string''
                     then Inl (Error (''Expected string channel but got '' @ channelType))
                     else Inr \<lparr>id_rq = id, method_rq = method, params_rq = params,
                               channel_rq = (if channel = Some (JStr '''') then None else channel)\<rparr>)
                  else Inr \<lparr>id_rq = id, method_rq = method, params_rq = params,
                            channel_rq = channel\<rparr>)"

text \<open>
  The object \<^verbatim>\<open>#getErrorResponse\<close> builds; a field that is \<^verbatim>\<open>undefined\<close> is
  \<open>None\<close>.
\<close>

record ErrorResponse =
  id_er :: "json option"
  error_er :: string
  message_er :: string
  channel_er :: "string option"

definition getErrorResponse ::
  "(string \<Rightarrow> json option) \<Rightarrow> string \<Rightarrow> string \<Rightarrow> string \<Rightarrow> ErrorResponse" where
  "getErrorResponse JSON_parse messageStr errorCode errorMessage =
     (let messageId =
            (case JSON_parse messageStr of
               None \<Rightarrow> None
             | Some messageObj \<Rightarrow>
                 if getJsonType (Some messageObj) = ''object'' \<and> hasProperty messageObj ''id''
                 then getProperty messageObj ''id''
                 else None)
      in \<lparr>id_er = messageId, error_er = errorCode, message_er = errorMessage,
          channel_er = None\<rparr>)"

text \<open>
  \<^verbatim>\<open>sendMessage\<close> hands \<^verbatim>\<open>JSON.stringify(message)\<close> to the host: a text, taken
  here as the JSON value it denotes. \<^verbatim>\<open>JSON.stringify\<close> writes a number that is not
  finite as \<^verbatim>\<open>null\<close>, wherever it stands in the value, and leaves out the properties
  whose value is \<^verbatim>\<open>undefined\<close>. \<open>stringified\<close> is the value written for a value, and
  \<open>wire\<close> is the object that goes out.
\<close>

primrec stringified :: "json \<Rightarrow> json" where
  "stringified JNull = JNull"
| "stringified (JBool b) = JBool b"
| "stringified (JNum n) = JNum n"
| "stringified JInfinity = JNull"
| "stringified JNegInfinity = JNull"
| "stringified (JStr s) = JStr s"
| "stringified (JArr xs) = JArr (map stringified xs)"
| "stringified (JObj props) = JObj (map (map_prod id stringified) props)"

definition wire :: "ErrorResponse \<Rightarrow> json" where
  "wire r =
     JObj ((case id_er r of None \<Rightarrow> [] | Some v \<Rightarrow> [(''id'', stringified v)])
           @ [(''error'', JStr (error_er r)), (''message'', JStr (message_er r))]
           @ (case channel_er r of None \<Rightarrow> [] | Some c \<Rightarrow> [(''channel'', JStr c)]))"

text \<open>
  \<^verbatim>\<open>#respondWithError\<close>: the messages sent. \<^verbatim>\<open>if (channel)\<close> is false for
  \<^verbatim>\<open>null\<close> and for the empty string.
\<close>

definition respondWithError ::
  "(string \<Rightarrow> json option) \<Rightarrow> string \<Rightarrow> string \<Rightarrow> string \<Rightarrow> string option \<Rightarrow> json list" where
  "respondWithError JSON_parse plainCommandData errorCode errorMessage channel =
     (let errorResponse = getErrorResponse JSON_parse plainCommandData errorCode errorMessage
      in case channel of
           None \<Rightarrow> [wire errorResponse]
         | Some c \<Rightarrow>
             if c = '''' then [wire errorResponse]
             else [wire (errorResponse\<lparr>channel_er := Some c\<rparr>)])"

text \<open>
  Modelled from the spec: the value of \<^verbatim>\<open>Message.ErrorCode.InvalidArgument\<close>, declared
  in \<^verbatim>\<open>protocol.ts\<close>, which is not among the sources; section 6 of the specification
  gives the wire code \<^verbatim>\<open>invalid argument\<close>.
\<close>

definition ErrorCode_InvalidArgument :: string where
  "ErrorCode_InvalidArgument = ''invalid argument''"

text \<open>\<^verbatim>\<open>e.message\<close> of a caught exception.\<close>

fun message_of :: "exn \<Rightarrow> string" where
  "message_of (Error m) = m"
| "message_of (InvalidArgumentException m) = m"
| "message_of (NoSuchFrameException m) = m"
| "message_of (CdpError c m) = m"
| "message_of TypeError = ''TypeError''"

text \<open>
  The handler the constructor installs as \<^verbatim>\<open>window.onBidiMessage\<close>: what it sends
  to the client and what it passes on to \<^verbatim>\<open>#onMessage\<close> (when one is set).
\<close>

record Handled =
  sent :: "json list"
  passedOn :: "RawCommandRequest option"

definition onBidiMessage :: "(string \<Rightarrow> json option) \<Rightarrow> string \<Rightarrow> Handled" where
  "onBidiMessage JSON_parse messageStr =
     (case parseBidiMessage JSON_parse messageStr of
        Inl e \<Rightarrow>
          \<lparr>sent = respondWithError JSON_parse messageStr ErrorCode_InvalidArgument
                    (message_of e) None,
           passedOn = None\<rparr>
      | Inr messageObject \<Rightarrow> \<lparr>sent = [], passedOn = Some messageObject\<rparr>)"

text \<open>A parser for the examples: a table of payloads and what they parse to.\<close>

definition parseTable :: "string \<Rightarrow> json option" where
  \<open>parseTable =
     map_of
       [(''{"id":"abc","method":"x","params":{}}'',
           JObj [(''id'', JStr ''abc''), (''method'', JStr ''x''), (''params'', JObj [])]),
        (''{"id":1.5,"method":"x","params":{}}'',
           JObj [(''id'', JNum (3/2)), (''method'', JStr ''x''), (''params'', JObj [])]),
        (''{"id":1e400,"method":"x","params":{}}'',
           JObj [(''id'', JInfinity), (''method'', JStr ''x''), (''params'', JObj [])]),
        (''{"id":[-1e400,{"a":1e400}],"method":"x","params":{}}'',
           JObj [(''id'', JArr [JNegInfinity, JObj [(''a'', JInfinity)]]), (''method'', JStr ''x''),
                 (''params'', JObj [])]),
        (''{"method":"x","params":{}}'',
           JObj [(''method'', JStr ''x''), (''params'', JObj [])]),
        (''{"id":7,"method":"x","params":[]}'',
           JObj [(''id'', JNum 7), (''method'', JStr ''x''), (''params'', JArr [])]),
        (''[1]'', JArr [JNum 1])]\<close>

section \<open>Realm: from CDP deep-serialized values to BiDi remote values\<close>

text \<open>
  \<^verbatim>\<open>realm.ts\<close>, \<^verbatim>\<open>Realm.deepSerializedToBiDi\<close> (lines 133-187). The method takes its
  argument as \<^verbatim>\<open>any\<close>, changes it in place and returns it; the model takes a JSON
  value and returns the changed value, \<open>None\<close> standing for the \<^verbatim>\<open>TypeError\<close> the
  runtime raises (\<^verbatim>\<open>Object.hasOwn\<close> of \<^verbatim>\<open>null\<close> or \<^verbatim>\<open>undefined\<close>, an element read
  on \<^verbatim>\<open>null\<close>, an assignment to an index of a string in strict mode). A value that
  arrives from CDP is a tree without sharing, so the change in place and the rebuilt
  value agree.

  \<^verbatim>\<open>for (const i in v) v[i] = f(v[i])\<close>: over the elements of an array, over the
  property values of an object; a non-empty string has indices to enumerate but none
  can be assigned; numbers, booleans and \<^verbatim>\<open>null\<close> enumerate nothing.
\<close>

definition forInAssign :: "(json \<Rightarrow> json option) \<Rightarrow> json \<Rightarrow> json option" where
  "forInAssign f v =
     (case v of
        JArr xs \<Rightarrow> map_option JArr (those (map f xs))
      | JObj props \<Rightarrow>
          map_option JObj (those (map (\<lambda>kv. map_option (Pair (fst kv)) (f (snd kv))) props))
      | JStr s \<Rightarrow> if s = [] then Some v else None
      | _ \<Rightarrow> Some v)"

text \<open>
  \<^verbatim>\<open>e[0]\<close> and \<^verbatim>\<open>e[1]\<close>, with \<open>None\<close> where the read gives \<^verbatim>\<open>undefined\<close> or raises:
  in both cases the call of \<^verbatim>\<open>deepSerializedToBiDi\<close> on it raises.
\<close>

fun indexKey :: "nat \<Rightarrow> string" where
  "indexKey 0 = ''0''"
| "indexKey (Suc n) = ''1''"

definition elementAt :: "json \<Rightarrow> nat \<Rightarrow> json option" where
  "elementAt e k =
     (case e of
        JArr ys \<Rightarrow> if k < length ys then Some (ys ! k) else None
      | JObj props \<Rightarrow> map_of props (indexKey k)
      | JStr s \<Rightarrow> if k < length s then Some (JStr [s ! k]) else None
      | _ \<Rightarrow> None)"

text \<open>\<^verbatim>\<open>[f(e[0]), f(e[1])]\<close>\<close>

definition entryOf :: "(json \<Rightarrow> json option) \<Rightarrow> json \<Rightarrow> json option" where
  "entryOf f e =
     (case elementAt e 0 of
        None \<Rightarrow> None
      | Some a \<Rightarrow>
          (case f a of
             None \<Rightarrow> None
           | Some a' \<Rightarrow>
               (case elementAt e 1 of
                  None \<Rightarrow> None
                | Some b \<Rightarrow>
                    (case f b of
                       None \<Rightarrow> None
                     | Some b' \<Rightarrow> Some (JArr [a', b'])))))"

text \<open>\<^verbatim>\<open>for (const i in v) v[i] = [f(v[i][0]), f(v[i][1])]\<close>\<close>

definition forInEntries :: "(json \<Rightarrow> json option) \<Rightarrow> json \<Rightarrow> json option" where
  "forInEntries f v =
     (case v of
        JArr es \<Rightarrow> map_option JArr (those (map (entryOf f) es))
      | JObj props \<Rightarrow>
          map_option JObj (those (map (\<lambda>kv. map_option (Pair (fst kv)) (entryOf f (snd kv))) props))
      | JStr s \<Rightarrow> if s = [] then Some v else None
      | _ \<Rightarrow> Some v)"

text \<open>
  Lines 140-143. \<open>toStr\<close> is the conversion a template literal applies to a value, a
  function of the runtime and a parameter here. A property assignment keeps the place
  of a property that exists and appends a new one; these are \<open>AList.update\<close> and
  \<open>AList.delete\<close>.
\<close>

definition renameWeakRef :: "(json \<Rightarrow> string) \<Rightarrow> (string \<times> json) list \<Rightarrow> (string \<times> json) list" where
  "renameWeakRef toStr result =
     (case map_of result ''weakLocalObjectReference'' of
        None \<Rightarrow> result
      | Some w \<Rightarrow>
          AList.delete ''weakLocalObjectReference''
            (AList.update ''internalId'' (JStr (toStr w)) result))"

text \<open>
  Lines 157-161, for a value that is not \<^verbatim>\<open>undefined\<close>: the new \<^verbatim>\<open>result\<close> and the new
  \<^verbatim>\<open>bidiValue\<close>. \<open>divider\<close> is \<^verbatim>\<open>SHARED_ID_DIVIDER\<close>, a constant of
  \<^verbatim>\<open>scriptEvaluator.ts\<close>, which is not among the sources: a parameter.
\<close>

definition nodeSharedId ::
  "(json \<Rightarrow> string) \<Rightarrow> string \<Rightarrow> string \<Rightarrow> (string \<times> json) list \<Rightarrow> json
   \<Rightarrow> ((string \<times> json) list \<times> json) option" where
  "nodeSharedId toStr divider navigableId result bidiValue =
     (case bidiValue of
        JNull \<Rightarrow> None
      | JObj vprops \<Rightarrow>
          (case map_of vprops ''backendNodeId'' of
             None \<Rightarrow> Some (result, bidiValue)
           | Some b \<Rightarrow>
               Some (AList.update ''sharedId'' (JStr (navigableId @ divider @ toStr b)) result,
                     JObj (AList.delete ''backendNodeId'' vprops)))
      | _ \<Rightarrow> Some (result, bidiValue))"

text \<open>Lines 162-168.\<close>

definition nodeChildren :: "(json \<Rightarrow> json option) \<Rightarrow> json \<Rightarrow> json option" where
  "nodeChildren f bidiValue =
     (case bidiValue of
        JNull \<Rightarrow> None
      | JObj vprops \<Rightarrow>
          (case map_of vprops ''children'' of
             None \<Rightarrow> Some bidiValue
           | Some children \<Rightarrow>
               map_option (\<lambda>c. JObj (AList.update ''children'' c vprops))
                 (forInAssign f children))
      | _ \<Rightarrow> Some bidiValue)"

text \<open>The recursion of \<^verbatim>\<open>deepSerializedToBiDi\<close> descends into strictly smaller values.\<close>

lemma size_map_of: "map_of props k = Some v \<Longrightarrow> size v < size (JObj props)"
  by (induction props) (auto split: if_splits)

lemma size_snd_mem: "kv \<in> set props \<Longrightarrow> size (snd kv) < size (JObj props)"
  by (induction props) auto

lemma size_mem: "x \<in> set xs \<Longrightarrow> size x < size (JArr xs)"
  by (induction xs) auto

lemma size_delete: "size (JObj (AList.delete k props)) \<le> size (JObj props)"
  by (induction props) auto

lemma size_elementAt: "elementAt e k = Some x \<Longrightarrow> size x \<le> size e"
  by (auto simp: elementAt_def split: json.splits if_splits dest: size_map_of size_mem [OF nth_mem] less_imp_le)

lemma forInAssign_cong [fundef_cong]:
  assumes "v = w" and "\<And>x. size x < size w \<Longrightarrow> f x = g x"
  shows "forInAssign f v = forInAssign g w"
proof (cases w)
  case (JArr xs)
  have "map f xs = map g xs"
    using JArr assms(2) by (auto dest: size_mem)
  then show ?thesis
    by (simp only: assms(1) forInAssign_def JArr json.case)
next
  case (JObj props)
  have "map (\<lambda>kv. map_option (Pair (fst kv)) (f (snd kv))) props
      = map (\<lambda>kv. map_option (Pair (fst kv)) (g (snd kv))) props"
    using JObj assms(2) by (auto dest: size_snd_mem)
  then show ?thesis
    by (simp only: assms(1) forInAssign_def JObj json.case)
qed (simp_all add: assms(1) forInAssign_def)

lemma entryOf_cong:
  assumes "\<And>x. size x \<le> size e \<Longrightarrow> f x = g x"
  shows "entryOf f e = entryOf g e"
  using assms
  by (auto simp: entryOf_def split: option.splits dest!: size_elementAt)

lemma forInEntries_cong [fundef_cong]:
  assumes "v = w" and "\<And>x. size x < size w \<Longrightarrow> f x = g x"
  shows "forInEntries f v = forInEntries g w"
proof (cases w)
  case (JArr es)
  have "map (entryOf f) es = map (entryOf g) es"
    using JArr assms(2) by (auto intro!: entryOf_cong dest: size_mem)
  then show ?thesis
    by (simp only: assms(1) forInEntries_def JArr json.case)
next
  case (JObj props)
  have "map (\<lambda>kv. map_option (Pair (fst kv)) (entryOf f (snd kv))) props
      = map (\<lambda>kv. map_option (Pair (fst kv)) (entryOf g (snd kv))) props"
    using JObj assms(2)
    by (auto intro!: arg_cong [where f = "map_option _"] entryOf_cong dest: size_snd_mem)
  then show ?thesis
    by (simp only: assms(1) forInEntries_def JObj json.case)
qed (simp_all add: assms(1) forInEntries_def)

lemma nodeChildren_cong [fundef_cong]:
  assumes "v = w" and "\<And>x. size x < size w \<Longrightarrow> f x = g x"
  shows "nodeChildren f v = nodeChildren g w"
proof -
  have "forInAssign f children = forInAssign g children"
    if "w = JObj vprops" "map_of vprops ''children'' = Some children" for vprops children
    using that assms(2) size_map_of [OF that(2)]
    by (intro forInAssign_cong) auto
  then show ?thesis
    unfolding assms(1) nodeChildren_def by (auto split: json.splits option.splits)
qed


lemma renameWeakRef_lookup:
  "k \<noteq> ''weakLocalObjectReference'' \<Longrightarrow> k \<noteq> ''internalId'' \<Longrightarrow>
   map_of (renameWeakRef toStr props) k = map_of props k"
  by (simp add: renameWeakRef_def update_conv' delete_conv' split: option.splits)

lemma size_value_renameWeakRef:
  "map_of (renameWeakRef toStr props) ''value'' = Some v \<Longrightarrow> size v < size (JObj props)"
  using size_map_of [of props "''value''" v] by (simp add: renameWeakRef_lookup)

lemma nodeSharedId_Some:
  assumes "nodeSharedId toStr divider navigableId result bidiValue = Some (result1, bidiValue1)"
  shows "size bidiValue1 \<le> size bidiValue" and "map_of result1 ''type'' = map_of result ''type''"
  using assms size_delete [of "''backendNodeId''"]
  by (auto simp: nodeSharedId_def update_conv' split: json.splits option.splits)

text \<open>
  The method itself. \<open>navigableId\<close> is the value of the getter \<^verbatim>\<open>this.navigableId\<close>,
  which does not change during the call.
\<close>

function deepSerializedToBiDi ::
  "(json \<Rightarrow> string) \<Rightarrow> string \<Rightarrow> string \<Rightarrow> json \<Rightarrow> json option" where
  "deepSerializedToBiDi toStr divider navigableId webDriverValue =
     (case webDriverValue of
        JNull \<Rightarrow> None
      | JObj props \<Rightarrow>
          (let result = renameWeakRef toStr props in
           if map_of result ''type'' = Some (JStr ''platformobject'')
           then Some (JObj [(''type'', JStr ''object'')])
           else
             (case map_of result ''value'' of
                None \<Rightarrow> Some (JObj result)
              | Some bidiValue \<Rightarrow>
                  (case
                     (if map_of result ''type'' = Some (JStr ''node'')
                      then (case nodeSharedId toStr divider navigableId result bidiValue of
                              None \<Rightarrow> None
                            | Some (result1, bidiValue1) \<Rightarrow>
                                map_option (Pair result1)
                                  (nodeChildren (deepSerializedToBiDi toStr divider navigableId)
                                     bidiValue1))
                      else Some (result, bidiValue))
                   of
                     None \<Rightarrow> None
                   | Some (result1, bidiValue1) \<Rightarrow>
                       (case
                          (if map_of result1 ''type'' \<in> {Some (JStr ''array''), Some (JStr ''set'')}
                           then forInAssign (deepSerializedToBiDi toStr divider navigableId) bidiValue1
                           else Some bidiValue1)
                        of
                          None \<Rightarrow> None
                        | Some bidiValue2 \<Rightarrow>
                            (case
                               (if map_of result1 ''type''
                                     \<in> {Some (JStr ''object''), Some (JStr ''map'')}
                                then forInEntries (deepSerializedToBiDi toStr divider navigableId)
                                       bidiValue2
                                else Some bidiValue2)
                             of
                               None \<Rightarrow> None
                             | Some bidiValue3 \<Rightarrow>
                                 Some (JObj (AList.update ''value'' bidiValue3 result1)))))))
      | _ \<Rightarrow> Some webDriverValue)"
  by pat_completeness auto
termination
  apply (relation "measure (\<lambda>(toStr, divider, navigableId, w). size w)")
  subgoal by simp
  subgoal for toStr divider navigableId w props result bv p r1 y xb
    using size_value_renameWeakRef [of toStr props bv]
      nodeSharedId_Some(1) [of toStr divider navigableId result bv r1 y]
    by simp
  subgoal for toStr divider navigableId w props result bv p r1 y xb
    using size_value_renameWeakRef [of toStr props bv]
      nodeSharedId_Some(2) [of toStr divider navigableId result bv r1]
    by (auto split: if_splits option.splits)
  subgoal for toStr divider navigableId w props result bv p r1 y bv2 xb
    using size_value_renameWeakRef [of toStr props bv]
      nodeSharedId_Some(2) [of toStr divider navigableId result bv r1]
    by (auto split: if_splits option.splits)
  done

declare deepSerializedToBiDi.simps [simp del]

text \<open>
  The shape of the values CDP sends as \<^verbatim>\<open>deepSerializedValue\<close>: an object; where it
  has a \<^verbatim>\<open>value\<close>, that of a node is an object whose \<^verbatim>\<open>children\<close>, if any, are a
  list of such values, that of an array or set is a list of such values, and that of
  an object or map is a list of two-element lists, a key (a string or such a value)
  and such a value. On these the method raises no \<^verbatim>\<open>TypeError\<close>.
\<close>

inductive deepSerializedValue :: "json \<Rightarrow> bool" where
  noValue:
    "map_of props ''value'' = None \<Longrightarrow> deepSerializedValue (JObj props)"
| platformobject:
    "map_of props ''type'' = Some (JStr ''platformobject'') \<Longrightarrow> deepSerializedValue (JObj props)"
| plain:
    "map_of props ''type'' \<notin> {Some (JStr ''node''), Some (JStr ''array''), Some (JStr ''set''),
        Some (JStr ''object''), Some (JStr ''map'')} \<Longrightarrow>
     deepSerializedValue (JObj props)"
| nodeLeaf:
    "map_of props ''type'' = Some (JStr ''node'') \<Longrightarrow>
     map_of props ''value'' = Some (JObj vprops) \<Longrightarrow>
     map_of vprops ''children'' = None \<Longrightarrow>
     deepSerializedValue (JObj props)"
| nodeWithChildren:
    "map_of props ''type'' = Some (JStr ''node'') \<Longrightarrow>
     map_of props ''value'' = Some (JObj vprops) \<Longrightarrow>
     map_of vprops ''children'' = Some (JArr cs) \<Longrightarrow>
     \<forall>c \<in> set cs. deepSerializedValue c \<Longrightarrow>
     deepSerializedValue (JObj props)"
| arrayOrSet:
    "map_of props ''type'' = Some (JStr ''array'') \<or> map_of props ''type'' = Some (JStr ''set'') \<Longrightarrow>
     map_of props ''value'' = Some (JArr xs) \<Longrightarrow>
     \<forall>x \<in> set xs. deepSerializedValue x \<Longrightarrow>
     deepSerializedValue (JObj props)"
| objectOrMap:
    "map_of props ''type'' = Some (JStr ''object'') \<or> map_of props ''type'' = Some (JStr ''map'') \<Longrightarrow>
     map_of props ''value'' = Some (JArr es) \<Longrightarrow>
     \<forall>e \<in> set es. \<exists>k v. e = JArr [k, v]
        \<and> ((\<exists>s. k = JStr s) \<or> deepSerializedValue k) \<and> deepSerializedValue v \<Longrightarrow>
     deepSerializedValue (JObj props)"

text \<open>
  For the examples: the template-literal conversion on strings, natural numbers,
  \<^verbatim>\<open>null\<close>, booleans and objects.
\<close>

fun decimal :: "nat \<Rightarrow> string" where
  "decimal n =
     (if n < 10 then [''0123456789'' ! n]
      else decimal (n div 10) @ [''0123456789'' ! (n mod 10)])"

declare decimal.simps [simp del]

definition exampleToStr :: "json \<Rightarrow> string" where
  "exampleToStr v =
     (case v of
        JStr s \<Rightarrow> s
      | JNum n \<Rightarrow> (if frac n = 0 \<and> 0 \<le> n then decimal (nat \<lfloor>n\<rfloor>) else ''NaN'')
      | JInfinity \<Rightarrow> ''Infinity''
      | JNegInfinity \<Rightarrow> ''-Infinity''
      | JNull \<Rightarrow> ''null''
      | JBool b \<Rightarrow> (if b then ''true'' else ''false'')
      | JArr xs \<Rightarrow> []
      | JObj props \<Rightarrow> ''[object Object]'')"

text \<open>Values for the examples.\<close>

definition exampleNode :: "(string \<times> json) list" where
  "exampleNode =
     [(''type'', JStr ''node''),
      (''value'', JObj [(''nodeType'', JNum 1), (''backendNodeId'', JNum 42),
         (''children'', JArr [
            JObj [(''type'', JStr ''node''),
                  (''value'', JObj [(''backendNodeId'', JNum 43)])]])])]"

definition examplePlatformObject :: "(string \<times> json) list" where
  "examplePlatformObject = [(''type'', JStr ''platformobject''), (''value'', JNull)]"

definition exampleArray :: "(string \<times> json) list" where
  "exampleArray =
     [(''type'', JStr ''array''),
      (''weakLocalObjectReference'', JNum 3),
      (''value'', JArr [JObj exampleNode, JObj examplePlatformObject])]"

definition exampleMap :: "(string \<times> json) list" where
  "exampleMap =
     [(''type'', JStr ''map''),
      (''value'', JArr [
         JArr [JStr ''k'', JObj [(''type'', JStr ''number''), (''value'', JNum 1)]],
         JArr [JObj examplePlatformObject,
               JObj [(''type'', JStr ''string''), (''value'', JStr ''x''),
                     (''weakLocalObjectReference'', JNum 5)]]])]"

section \<open>Browsing contexts and their storage\<close>

text \<open>
  Modelled from the spec: \<^verbatim>\<open>cdpTarget.ts\<close>, \<^verbatim>\<open>browsingContextImpl.ts\<close> and
  \<^verbatim>\<open>browsingContextStorage.ts\<close> are not among the sources. Section 3 of the
  specification gives a CDP target its target id and its CDP session, and a browsing
  context its id, its optional parent id, its navigable id (the loader id of the last
  navigation, unset before the first) and a reference to the CDP target that owns it;
  section 4.2 gives the storage \<^verbatim>\<open>findContext(id)\<close>, \<^verbatim>\<open>getTopLevelContexts()\<close>,
  \<^verbatim>\<open>addContext\<close> and \<^verbatim>\<open>deleteContext(id)\<close>, which cascades to the children. The
  storage is the list of its contexts, each under its id, in insertion order.
\<close>

record CdpTarget =
  targetId :: string
  parentTargetId :: "string option"
  cdpSessionId_t :: string

record BrowsingContext =
  parentId :: "string option"
  navigableId_bc :: "string option"
  cdpTarget :: CdpTarget

type_synonym BrowsingContextStorage = "(string \<times> BrowsingContext) list"

definition findContext :: "BrowsingContextStorage \<Rightarrow> string \<Rightarrow> BrowsingContext option" where
  "findContext storage ident = map_of storage ident"

section \<open>Realm: handles\<close>

text \<open>
  \<^verbatim>\<open>realm.ts\<close>: the fields of a realm, and what its methods read and change outside
  it: the map \<^verbatim>\<open>knownHandlesToRealm\<close> of the realm storage, the commands handed to
  the CDP client of the realm, in order, and what the logger was given.
\<close>

record Realm =
  realmId :: string
  browsingContextId :: string
  executionContextId :: int
  origin :: string
  type_realm :: string
  sandbox :: "string option"
  cdpSessionId :: string

datatype client = BrowserClient | SessionClient string

record CdpCommand =
  client_cmd :: client
  method_cmd :: string
  params_cmd :: "(string \<times> json) list"

record RealmWorld =
  knownHandlesToRealm :: "string \<rightharpoonup> string"
  sentCommands :: "CdpCommand list"
  logged :: "exn list"

text \<open>The getter \<^verbatim>\<open>navigableId\<close> (lines 203-208).\<close>

definition navigableId :: "BrowsingContextStorage \<Rightarrow> Realm \<Rightarrow> string" where
  "navigableId storage realm =
     (case findContext storage (browsingContextId realm) of
        None \<Rightarrow> ''UNKNOWN''
      | Some c \<Rightarrow> (case navigableId_bc c of None \<Rightarrow> ''UNKNOWN'' | Some n \<Rightarrow> n))"

text \<open>
  \<^verbatim>\<open>#releaseObject\<close> (lines 80-92) is asynchronous. Its first half runs with the
  call: the command it hands to the client. Its second half runs when the client
  settles the command: \<open>reply\<close> is \<open>None\<close> for a result and \<open>Some e\<close> for a rejection
  with \<open>e\<close>, and the value is the exception \<^verbatim>\<open>#releaseObject\<close> rejects with, if any.
\<close>

definition releaseObjectCommand :: "Realm \<Rightarrow> string \<Rightarrow> CdpCommand" where
  "releaseObjectCommand realm handle =
     \<lparr>client_cmd = SessionClient (cdpSessionId realm), method_cmd = ''Runtime.releaseObject'',
      params_cmd = [(''objectId'', JStr handle)]\<rparr>"

fun code_of :: "exn \<Rightarrow> int option" where
  "code_of (CdpError c m) = Some c"
| "code_of e = None"

definition releaseObject :: "exn option \<Rightarrow> exn option" where
  "releaseObject reply =
     (case reply of
        None \<Rightarrow> None
      | Some e \<Rightarrow>
          if \<not> (code_of e = Some (- 32000) \<and> message_of e = ''Invalid remote object id'')
          then Some e
          else None)"

text \<open>
  \<^verbatim>\<open>disown\<close> (lines 94-103), run to its end with the reply the client gives: the
  exception it rejects with, if any, and the world it leaves.
\<close>

definition disown :: "Realm \<Rightarrow> exn option \<Rightarrow> string \<Rightarrow> RealmWorld \<Rightarrow> exn option \<times> RealmWorld" where
  "disown realm reply handle w =
     (if knownHandlesToRealm w handle \<noteq> Some (realmId realm) then (None, w)
      else
        let w1 = w\<lparr>sentCommands := sentCommands w @ [releaseObjectCommand realm handle]\<rparr>
        in case releaseObject reply of
             Some e \<Rightarrow> (Some e, w1)
           | None \<Rightarrow>
               (None, w1\<lparr>knownHandlesToRealm := (knownHandlesToRealm w1)(handle := None)\<rparr>))"

text \<open>
  \<^verbatim>\<open>cdpToBidiValue\<close> (lines 105-131). \<^verbatim>\<open>(bidiValue as any).handle = objectId\<close> sets a
  property of an object; on an array it adds a property that is no part of the JSON
  value; on a string, a number or a boolean it raises in strict mode.
\<close>

record RemoteObject =
  deepSerializedValue_ro :: "json option"
  objectId :: "string option"

record CdpResponse =
  result_cdp :: RemoteObject

datatype ResultOwnership = Root | NoOwnership

fun assignProperty :: "json \<Rightarrow> string \<Rightarrow> json \<Rightarrow> json option" where
  "assignProperty (JObj props) k v = Some (JObj (AList.update k v props))"
| "assignProperty (JArr xs) k v = Some (JArr xs)"
| "assignProperty u k v = None"

text \<open>
  In the branch that is not \<^verbatim>\<open>root\<close> the method calls \<^verbatim>\<open>#releaseObject\<close> and does not
  await it: the command goes out with the call, and the method returns.
  \<^verbatim>\<open>if (cdpValue.result.objectId)\<close> holds for a string that is not empty.
\<close>

definition cdpToBidiValue ::
  "(json \<Rightarrow> string) \<Rightarrow> string \<Rightarrow> BrowsingContextStorage \<Rightarrow> Realm \<Rightarrow> CdpResponse
   \<Rightarrow> ResultOwnership \<Rightarrow> RealmWorld \<Rightarrow> exn + (json \<times> RealmWorld)" where
  "cdpToBidiValue toStr divider storage realm cdpValue resultOwnership w =
     (case deepSerializedValue_ro (result_cdp cdpValue) of
        None \<Rightarrow> Inl TypeError
      | Some deepSerialized \<Rightarrow>
          (case deepSerializedToBiDi toStr divider (navigableId storage realm) deepSerialized of
             None \<Rightarrow> Inl TypeError
           | Some bidiValue \<Rightarrow>
               (case objectId (result_cdp cdpValue) of
                  None \<Rightarrow> Inr (bidiValue, w)
                | Some oid \<Rightarrow>
                    if oid = [] then Inr (bidiValue, w)
                    else if resultOwnership = Root
                    then (case assignProperty bidiValue ''handle'' (JStr oid) of
                            None \<Rightarrow> Inl TypeError
                          | Some withHandle \<Rightarrow>
                              Inr (withHandle,
                                   w\<lparr>knownHandlesToRealm :=
                                        (knownHandlesToRealm w)(oid \<mapsto> realmId realm)\<rparr>))
                    else Inr (bidiValue,
                              w\<lparr>sentCommands :=
                                   sentCommands w @ [releaseObjectCommand realm oid]\<rparr>))))"

text \<open>
  The rest of that call,
  \<^verbatim>\<open>.catch((error) => this.#logger?.(LogType.system, error))\<close>, when the client settles
  the command: a rejection of \<^verbatim>\<open>#releaseObject\<close> goes to the logger (\<open>hasLogger\<close>
  tells whether the realm was given one) and nowhere else.
\<close>

definition releaseObjectCaught :: "bool \<Rightarrow> exn option \<Rightarrow> RealmWorld \<Rightarrow> RealmWorld" where
  "releaseObjectCaught hasLogger reply w =
     (case releaseObject reply of
        None \<Rightarrow> w
      | Some e \<Rightarrow> if hasLogger then w\<lparr>logged := logged w @ [e]\<rparr> else w)"

text \<open>A realm, two storages and a world for the examples.\<close>

definition exampleRealm :: Realm where
  "exampleRealm =
     \<lparr>realmId = ''r1'', browsingContextId = ''C1'', executionContextId = 1,
      origin = ''http://x'', type_realm = ''window'', sandbox = None, cdpSessionId = ''S1''\<rparr>"

definition exampleContext :: "string option \<Rightarrow> BrowsingContext" where
  "exampleContext nav =
     \<lparr>parentId = None, navigableId_bc = nav,
      cdpTarget = \<lparr>targetId = ''C1'', parentTargetId = None, cdpSessionId_t = ''S1''\<rparr>\<rparr>"

definition exampleWorld :: RealmWorld where
  "exampleWorld =
     \<lparr>knownHandlesToRealm = [''h'' \<mapsto> ''r1'', ''g'' \<mapsto> ''r2''], sentCommands = [], logged = []\<rparr>"

section \<open>The browsing context processor: targets and contexts\<close>

text \<open>
  \<^verbatim>\<open>browsingContextProcessor.ts\<close>. The processor reads and changes the browsing context
  storage, creates CDP targets, sets its listeners on CDP clients, hands commands to
  CDP clients and, through the contexts it creates, registers events with the event
  manager. These make up its world. The preload script storage is left out: no
  handler modelled here reads it.
\<close>

text \<open>
  The CDP events, as the protocol declares them. Of \<^verbatim>\<open>TargetInfo\<close> the record keeps
  the two fields the processor reads; its title, its URL and the like are left out.
\<close>

record TargetInfo =
  targetId_ti :: string
  type_ti :: string

record AttachedToTargetEvent =
  sessionId :: string
  targetInfo :: TargetInfo
  waitingForDebugger :: bool

record DetachedFromTargetEvent =
  targetId_dt :: "string option"

record FrameAttachedEvent =
  frameId_fa :: string
  parentFrameId :: string

record FrameDetachedEvent =
  frameId_fd :: string
  reason :: string

record ProcessorWorld =
  contexts :: BrowsingContextStorage
  cdpTargets :: "CdpTarget list"
  listeners :: "client list"
  commands :: "CdpCommand list"
  registeredEvents :: "(string \<times> string) list"
  systemLog :: "exn list"

text \<open>
  Modelled from the spec: \<^verbatim>\<open>CdpTarget.create\<close>, \<^verbatim>\<open>BrowsingContextImpl.create\<close>,
  \<^verbatim>\<open>updateCdpTarget\<close> and \<^verbatim>\<open>delete\<close> are not among the sources. By sections 3, 4.2,
  4.3 and 4.6 of the specification: creating a target gives a new target for the target
  id and the session; creating a context adds it to the storage under its id, with no
  navigable id yet, and registers \<^verbatim>\<open>browsingContext.contextCreated\<close> for it;
  \<^verbatim>\<open>updateCdpTarget\<close> swaps the target reference of the stored context; deleting a
  context removes it and, in cascade, the contexts below it. A context is stored
  under its id, and its id is read off there.
\<close>

definition CdpTarget_create :: "string \<Rightarrow> string option \<Rightarrow> string \<Rightarrow> CdpTarget" where
  "CdpTarget_create tid parentTid sid =
     \<lparr>targetId = tid, parentTargetId = parentTid, cdpSessionId_t = sid\<rparr>"

definition BrowsingContextImpl_create ::
  "CdpTarget \<Rightarrow> string \<Rightarrow> string option \<Rightarrow> ProcessorWorld \<Rightarrow> ProcessorWorld" where
  "BrowsingContextImpl_create target ident parent w =
     w\<lparr>contexts :=
         AList.update ident
           \<lparr>parentId = parent, navigableId_bc = None, cdpTarget = target\<rparr>
           (contexts w),
       registeredEvents := registeredEvents w @ [(''browsingContext.contextCreated'', ident)]\<rparr>"

definition updateCdpTarget ::
  "string \<Rightarrow> BrowsingContext \<Rightarrow> CdpTarget \<Rightarrow> ProcessorWorld \<Rightarrow> ProcessorWorld" where
  "updateCdpTarget ident c target w =
     w\<lparr>contexts := AList.update ident (c\<lparr>cdpTarget := target\<rparr>) (contexts w)\<rparr>"

fun removeSubtree :: "nat \<Rightarrow> string list \<Rightarrow> BrowsingContextStorage \<Rightarrow> BrowsingContextStorage" where
  "removeSubtree 0 ids storage = filter (\<lambda>kc. fst kc \<notin> set ids) storage"
| "removeSubtree (Suc n) ids storage =
     (let rest = filter (\<lambda>kc. fst kc \<notin> set ids) storage;
          below = map fst (filter (\<lambda>kc. case parentId (snd kc) of
                                            None \<Rightarrow> False
                                          | Some p \<Rightarrow> p \<in> set ids) rest)
      in if below = [] then rest else removeSubtree n below rest)"

definition deleteContext :: "string \<Rightarrow> BrowsingContextStorage \<Rightarrow> BrowsingContextStorage" where
  "deleteContext ident storage = removeSubtree (length storage) [ident] storage"

definition getTopLevelContexts :: "BrowsingContextStorage \<Rightarrow> (string \<times> BrowsingContext) list" where
  "getTopLevelContexts storage = filter (\<lambda>kc. parentId (snd kc) = None) storage"

text \<open>\<^verbatim>\<open>#isValidTarget\<close> (lines 536-541).\<close>

definition isValidTarget :: "string \<Rightarrow> TargetInfo \<Rightarrow> bool" where
  "isValidTarget selfTargetId target =
     (if targetId_ti target = selfTargetId then False
      else type_ti target \<in> set [''page'', ''iframe''])"

text \<open>
  \<^verbatim>\<open>#handleAttachedToTargetEvent\<close> (lines 125-184). \<^verbatim>\<open>getCdpClient(sessionId)\<close> is the
  client of the session. For a target that is not valid the handler hands
  \<^verbatim>\<open>Runtime.runIfWaitingForDebugger\<close> to that client and returns; the rest of the
  promise chain runs when the client settles the command, see \<open>invalidTargetSettled\<close>.
\<close>

definition handleAttachedToTargetEvent ::
  "string \<Rightarrow> AttachedToTargetEvent \<Rightarrow> client \<Rightarrow> ProcessorWorld \<Rightarrow> ProcessorWorld" where
  "handleAttachedToTargetEvent selfTargetId params parentSessionCdpClient w =
     (let targetCdpClient = SessionClient (sessionId params) in
      if \<not> isValidTarget selfTargetId (targetInfo params)
      then w\<lparr>commands := commands w @
                 [\<lparr>client_cmd = targetCdpClient,
                   method_cmd = ''Runtime.runIfWaitingForDebugger'', params_cmd = []\<rparr>]\<rparr>
      else
        let w1 = w\<lparr>listeners := listeners w @ [targetCdpClient]\<rparr>;
            maybeContext = findContext (contexts w1) (targetId_ti (targetInfo params));
            target = CdpTarget_create (targetId_ti (targetInfo params))
                       (case maybeContext of None \<Rightarrow> None | Some c \<Rightarrow> parentId c)
                       (sessionId params);
            w2 = w1\<lparr>cdpTargets := cdpTargets w1 @ [target]\<rparr>
        in case maybeContext of
             Some c \<Rightarrow> updateCdpTarget (targetId_ti (targetInfo params)) c target w2
           | None \<Rightarrow>
               BrowsingContextImpl_create target (targetId_ti (targetInfo params)) None w2)"

text \<open>
  The rest of that chain,
  \<^verbatim>\<open>.then(() => parentSessionCdpClient.sendCommand('Target.detachFromTarget', params))\<close>
  and \<^verbatim>\<open>.catch((error) => this.#logger?.(LogType.system, error))\<close>. The parameters
  of the detach command are the event itself: \<open>eventObject\<close> is the event as the
  object it is. When the client settles \<^verbatim>\<open>Runtime.runIfWaitingForDebugger\<close> with a
  result (\<open>reply\<close> is \<open>None\<close>), the detach command goes to the parent client; a
  rejection goes to the logger, if the processor was given one (\<open>hasLogger\<close>). When
  the parent client settles the detach command, a rejection goes to the logger in the
  same way, and a result is dropped.
\<close>

definition eventObject :: "AttachedToTargetEvent \<Rightarrow> (string \<times> json) list" where
  "eventObject params =
     [(''sessionId'', JStr (sessionId params)),
      (''targetInfo'', JObj [(''targetId'', JStr (targetId_ti (targetInfo params))),
                             (''type'', JStr (type_ti (targetInfo params)))]),
      (''waitingForDebugger'', JBool (waitingForDebugger params))]"

definition invalidTargetSettled ::
  "bool \<Rightarrow> AttachedToTargetEvent \<Rightarrow> client \<Rightarrow> exn option \<Rightarrow> ProcessorWorld
   \<Rightarrow> ProcessorWorld" where
  "invalidTargetSettled hasLogger params parentSessionCdpClient reply w =
     (case reply of
        None \<Rightarrow>
          w\<lparr>commands := commands w @
               [\<lparr>client_cmd = parentSessionCdpClient, method_cmd = ''Target.detachFromTarget'',
                 params_cmd = eventObject params\<rparr>]\<rparr>
      | Some e \<Rightarrow> if hasLogger then w\<lparr>systemLog := systemLog w @ [e]\<rparr> else w)"

definition detachFromTargetSettled :: "bool \<Rightarrow> exn option \<Rightarrow> ProcessorWorld \<Rightarrow> ProcessorWorld" where
  "detachFromTargetSettled hasLogger reply w =
     (case reply of
        None \<Rightarrow> w
      | Some e \<Rightarrow> if hasLogger then w\<lparr>systemLog := systemLog w @ [e]\<rparr> else w)"

text \<open>\<^verbatim>\<open>#handleDetachedFromTargetEvent\<close> (lines 186-196).\<close>

definition handleDetachedFromTargetEvent ::
  "DetachedFromTargetEvent \<Rightarrow> ProcessorWorld \<Rightarrow> ProcessorWorld" where
  "handleDetachedFromTargetEvent params w =
     (case targetId_dt params of
        None \<Rightarrow> w
      | Some contextId \<Rightarrow>
          (case findContext (contexts w) contextId of
             None \<Rightarrow> w
           | Some c \<Rightarrow> w\<lparr>contexts := deleteContext contextId (contexts w)\<rparr>))"

text \<open>\<^verbatim>\<open>#handleFrameAttachedEvent\<close> (lines 100-115).\<close>

definition handleFrameAttachedEvent :: "FrameAttachedEvent \<Rightarrow> ProcessorWorld \<Rightarrow> ProcessorWorld" where
  "handleFrameAttachedEvent params w =
     (case findContext (contexts w) (parentFrameId params) of
        None \<Rightarrow> w
      | Some parentBrowsingContext \<Rightarrow>
          BrowsingContextImpl_create (cdpTarget parentBrowsingContext) (frameId_fa params)
            (Some (parentFrameId params)) w)"

text \<open>\<^verbatim>\<open>#handleFrameDetachedEvent\<close> (lines 117-123).\<close>

definition handleFrameDetachedEvent :: "FrameDetachedEvent \<Rightarrow> ProcessorWorld \<Rightarrow> ProcessorWorld" where
  "handleFrameDetachedEvent params w =
     (if reason params = ''swap'' then w
      else case findContext (contexts w) (frameId_fd params) of
             None \<Rightarrow> w
           | Some c \<Rightarrow> w\<lparr>contexts := deleteContext (frameId_fd params) (contexts w)\<rparr>)"

text \<open>
  The CDP events the processor listens to, each with the client it arrives on.
  \<^verbatim>\<open>#setEventListeners\<close> (lines 78-98) puts the four handlers on the browser client
  in the constructor and on the client of every valid target attached: an event on
  another client reaches no handler.
\<close>

datatype CdpEvent =
    AttachedToTarget client AttachedToTargetEvent
  | DetachedFromTarget client DetachedFromTargetEvent
  | FrameAttached client FrameAttachedEvent
  | FrameDetached client FrameDetachedEvent

fun client_of :: "CdpEvent \<Rightarrow> client" where
  "client_of (AttachedToTarget cl p) = cl"
| "client_of (DetachedFromTarget cl p) = cl"
| "client_of (FrameAttached cl p) = cl"
| "client_of (FrameDetached cl p) = cl"

definition hasListeners :: "ProcessorWorld \<Rightarrow> client \<Rightarrow> bool" where
  "hasListeners w cl = (cl = BrowserClient \<or> cl \<in> set (listeners w))"

fun dispatchToHandler :: "string \<Rightarrow> CdpEvent \<Rightarrow> ProcessorWorld \<Rightarrow> ProcessorWorld" where
  "dispatchToHandler selfTargetId (AttachedToTarget cl p) w = handleAttachedToTargetEvent selfTargetId p cl w"
| "dispatchToHandler selfTargetId (DetachedFromTarget cl p) w = handleDetachedFromTargetEvent p w"
| "dispatchToHandler selfTargetId (FrameAttached cl p) w = handleFrameAttachedEvent p w"
| "dispatchToHandler selfTargetId (FrameDetached cl p) w = handleFrameDetachedEvent p w"

definition onCdpEvent :: "string \<Rightarrow> CdpEvent \<Rightarrow> ProcessorWorld \<Rightarrow> ProcessorWorld" where
  "onCdpEvent selfTargetId ev w =
     (if hasListeners w (client_of ev) then dispatchToHandler selfTargetId ev w else w)"

fun onCdpEvents :: "string \<Rightarrow> CdpEvent list \<Rightarrow> ProcessorWorld \<Rightarrow> ProcessorWorld" where
  "onCdpEvents selfTargetId [] w = w"
| "onCdpEvents selfTargetId (ev # evs) w = onCdpEvents selfTargetId evs (onCdpEvent selfTargetId ev w)"

definition initialWorld :: ProcessorWorld where
  "initialWorld =
     \<lparr>contexts = [], cdpTargets = [], listeners = [], commands = [], registeredEvents = [],
      systemLog = []\<rparr>"

text \<open>
  What the processor meets between two commands: a CDP event, or a client settling
  one of the two commands of the chain above, at any time and in any order.
\<close>

datatype ProcessorInput =
    CdpEventReceived CdpEvent
  | RunIfWaitingForDebuggerSettled AttachedToTargetEvent client "exn option"
  | DetachFromTargetSettled "exn option"

fun processorStep :: "string \<Rightarrow> bool \<Rightarrow> ProcessorInput \<Rightarrow> ProcessorWorld \<Rightarrow> ProcessorWorld" where
  "processorStep selfTargetId hasLogger (CdpEventReceived ev) w = onCdpEvent selfTargetId ev w"
| "processorStep selfTargetId hasLogger (RunIfWaitingForDebuggerSettled params cl reply) w =
     invalidTargetSettled hasLogger params cl reply w"
| "processorStep selfTargetId hasLogger (DetachFromTargetSettled reply) w =
     detachFromTargetSettled hasLogger reply w"

fun processorRun :: "string \<Rightarrow> bool \<Rightarrow> ProcessorInput list \<Rightarrow> ProcessorWorld \<Rightarrow> ProcessorWorld" where
  "processorRun selfTargetId hasLogger [] w = w"
| "processorRun selfTargetId hasLogger (input # inputs) w =
     processorRun selfTargetId hasLogger inputs (processorStep selfTargetId hasLogger input w)"

text \<open>
  \<^verbatim>\<open>process_browsingContext_getTree\<close> (lines 208-223).

  Modelled from the spec: \<^verbatim>\<open>serializeToBidiValue\<close> and \<^verbatim>\<open>getContext\<close> are not among the
  sources. The serialization of a context is its id with the serializations of its
  children, to the depth given, and no children below that depth; \<^verbatim>\<open>getContext\<close>
  fails with \<^verbatim>\<open>no such frame\<close> for an id that is not stored. Without \<^verbatim>\<open>maxDepth\<close>
  the depth is not limited: in a storage that is a forest no context lies deeper than
  the number of contexts, which is the depth taken then.
\<close>

datatype Info = Info string "Info list option"

fun serializeToBidiValue ::
  "BrowsingContextStorage \<Rightarrow> nat \<Rightarrow> string \<times> BrowsingContext \<Rightarrow> Info" where
  "serializeToBidiValue storage 0 kc = Info (fst kc) None"
| "serializeToBidiValue storage (Suc d) kc =
     Info (fst kc)
       (Some (map (serializeToBidiValue storage d)
                (filter (\<lambda>x. parentId (snd x) = Some (fst kc)) storage)))"

definition getContext :: "BrowsingContextStorage \<Rightarrow> string \<Rightarrow> exn + BrowsingContext" where
  "getContext storage ident =
     (case findContext storage ident of
        None \<Rightarrow> Inl (NoSuchFrameException (''Context '' @ ident @ '' not found''))
      | Some c \<Rightarrow> Inr c)"

record GetTreeParameters =
  root :: "string option"
  maxDepth :: "nat option"

definition process_browsingContext_getTree :: "GetTreeParameters \<Rightarrow> ProcessorWorld \<Rightarrow> exn + Info list" where
  "process_browsingContext_getTree params w =
     (let depth = (case maxDepth params of None \<Rightarrow> length (contexts w) | Some d \<Rightarrow> d) in
      case root params of
        None \<Rightarrow>
          Inr (map (serializeToBidiValue (contexts w) depth) (getTopLevelContexts (contexts w)))
      | Some r \<Rightarrow>
          (case getContext (contexts w) r of
             Inl e \<Rightarrow> Inl e
           | Inr c \<Rightarrow> Inr [serializeToBidiValue (contexts w) depth (r, c)]))"

text \<open>
  \<^verbatim>\<open>process_cdp_sendCommand\<close> (lines 543-555), run to its end with the reply the client
  gives to the command. \<^verbatim>\<open>params.cdpSession ? \<dots> : \<dots>\<close> takes the browser client for
  a session that is \<^verbatim>\<open>undefined\<close> or empty and, as in the attach handler,
  \<^verbatim>\<open>getCdpClient\<close> gives the client of the session otherwise. The result of the CDP
  command goes into the response as it is.
\<close>

record SendCommandParams =
  cdpMethod :: string
  cdpParams :: "(string \<times> json) list"
  cdpSession :: "string option"

record SendCommandResult =
  result_sc :: json
  cdpSession_sc :: "string option"

definition process_cdp_sendCommand ::
  "SendCommandParams \<Rightarrow> exn + json \<Rightarrow> ProcessorWorld
   \<Rightarrow> (exn + SendCommandResult) \<times> ProcessorWorld" where
  "process_cdp_sendCommand params reply w =
     (let cl = (case cdpSession params of
                  None \<Rightarrow> BrowserClient
                | Some s \<Rightarrow> if s = [] then BrowserClient else SessionClient s);
          w1 = w\<lparr>commands := commands w @
                 [\<lparr>client_cmd = cl, method_cmd = cdpMethod params,
                   params_cmd = cdpParams params\<rparr>]\<rparr>
      in case reply of
           Inl e \<Rightarrow> (Inl e, w1)
         | Inr sendCdpCommandResult \<Rightarrow>
             (Inr \<lparr>result_sc = sendCdpCommandResult, cdpSession_sc = cdpSession params\<rparr>, w1))"

text \<open>The context ids a serialization lists.\<close>

fun listed :: "Info \<Rightarrow> string set" where
  "listed (Info ident below) =
     insert ident (case below of None \<Rightarrow> {} | Some xs \<Rightarrow> \<Union> (listed ` set xs))"

text \<open>
  \<^verbatim>\<open>process_browsingContext_close\<close> (lines 498-534) is asynchronous. Its first part runs
  with the call: it looks the context up, refuses one that is not top-level (by
  section 3 of the specification, one that has a parent), registers
  \<^verbatim>\<open>onContextDestroyed\<close> on the browser client and hands \<^verbatim>\<open>Target.closeTarget\<close> to it.
\<close>

definition close_start :: "string \<Rightarrow> ProcessorWorld \<Rightarrow> exn + ProcessorWorld" where
  "close_start context w =
     (case getContext (contexts w) context of
        Inl e \<Rightarrow> Inl e
      | Inr c \<Rightarrow>
          if parentId c \<noteq> None
          then Inl (InvalidArgumentException ''A top-level browsing context cannot be closed.'')
          else Inr (w\<lparr>commands := commands w @
                      [\<lparr>client_cmd = BrowserClient, method_cmd = ''Target.closeTarget'',
                        params_cmd = [(''targetId'', JStr context)]\<rparr>]\<rparr>))"

text \<open>
  Where the command stands after that: it awaits the reply to \<^verbatim>\<open>Target.closeTarget\<close>,
  \<^verbatim>\<open>detachedFromTargetPromise\<close> resolved already or not; or it has the reply and awaits
  \<^verbatim>\<open>detachedFromTargetPromise\<close>; or it has returned its empty result; or it has rejected.
\<close>

datatype CloseProgress =
    AwaitingCloseTarget bool
  | AwaitingDetached
  | Resolved
  | Rejected exn

text \<open>
  What happens next is the reply to \<^verbatim>\<open>Target.closeTarget\<close> (\<open>None\<close> for a result) or a
  CDP event. \<^verbatim>\<open>onContextDestroyed\<close> listens on the browser client, for the target id
  of the command, until it has fired once. The event loop runs the listeners of an
  event, those of the processor among them, before the command goes on.
\<close>

datatype CloseInput = CloseTargetSettled "exn option" | Cdp CdpEvent

fun closeProgress :: "string \<Rightarrow> CloseInput \<Rightarrow> CloseProgress \<Rightarrow> CloseProgress" where
  "closeProgress context (CloseTargetSettled None) (AwaitingCloseTarget detached) =
     (if detached then Resolved else AwaitingDetached)"
| "closeProgress context (CloseTargetSettled (Some e)) (AwaitingCloseTarget detached) = Rejected e"
| "closeProgress context (Cdp (DetachedFromTarget BrowserClient p)) (AwaitingCloseTarget False) =
     (if targetId_dt p = Some context then AwaitingCloseTarget True else AwaitingCloseTarget False)"
| "closeProgress context (Cdp (DetachedFromTarget BrowserClient p)) AwaitingDetached =
     (if targetId_dt p = Some context then Resolved else AwaitingDetached)"
| "closeProgress context input progress = progress"

fun closeStep ::
  "string \<Rightarrow> string \<Rightarrow> CloseInput \<Rightarrow> CloseProgress \<times> ProcessorWorld \<Rightarrow> CloseProgress \<times> ProcessorWorld" where
  "closeStep selfTargetId context (CloseTargetSettled reply) (progress, w) =
     (closeProgress context (CloseTargetSettled reply) progress, w)"
| "closeStep selfTargetId context (Cdp ev) (progress, w) =
     (closeProgress context (Cdp ev) progress, onCdpEvent selfTargetId ev w)"

fun closeRun ::
  "string \<Rightarrow> string \<Rightarrow> CloseInput list \<Rightarrow> CloseProgress \<times> ProcessorWorld \<Rightarrow> CloseProgress \<times> ProcessorWorld" where
  "closeRun selfTargetId context [] pw = pw"
| "closeRun selfTargetId context (input # inputs) pw =
     closeRun selfTargetId context inputs (closeStep selfTargetId context input pw)"

text \<open>
  Events for the examples: the mapper's own tab \<^verbatim>\<open>SELF\<close> is attached, then a page
  \<^verbatim>\<open>C1\<close>, then a frame \<^verbatim>\<open>F1\<close> is attached in it; \<open>exampleProcessorWorld\<close> is the world
  after these.
\<close>

definition exampleEvents :: "CdpEvent list" where
  "exampleEvents =
     [AttachedToTarget BrowserClient
        \<lparr>sessionId = ''S0'', targetInfo = \<lparr>targetId_ti = ''SELF'', type_ti = ''page''\<rparr>, waitingForDebugger = True\<rparr>,
      AttachedToTarget BrowserClient
        \<lparr>sessionId = ''S1'', targetInfo = \<lparr>targetId_ti = ''C1'', type_ti = ''page''\<rparr>, waitingForDebugger = True\<rparr>,
      FrameAttached (SessionClient ''S1'') \<lparr>frameId_fa = ''F1'', parentFrameId = ''C1''\<rparr>]"

definition exampleProcessorWorld :: ProcessorWorld where
  "exampleProcessorWorld =
     \<lparr>contexts =
        [(''C1'', \<lparr>parentId = None, navigableId_bc = None,
                   cdpTarget = \<lparr>targetId = ''C1'', parentTargetId = None, cdpSessionId_t = ''S1''\<rparr>\<rparr>),
         (''F1'', \<lparr>parentId = Some ''C1'', navigableId_bc = None,
                   cdpTarget = \<lparr>targetId = ''C1'', parentTargetId = None, cdpSessionId_t = ''S1''\<rparr>\<rparr>)],
      cdpTargets = [\<lparr>targetId = ''C1'', parentTargetId = None, cdpSessionId_t = ''S1''\<rparr>],
      listeners = [SessionClient ''S1''],
      commands = [\<lparr>client_cmd = SessionClient ''S0'',
                   method_cmd = ''Runtime.runIfWaitingForDebugger'', params_cmd = []\<rparr>],
      registeredEvents = [(''browsingContext.contextCreated'', ''C1''),
                          (''browsingContext.contextCreated'', ''F1'')],
      systemLog = []\<rparr>"

section \<open>Input: \<^verbatim>\<open>input.releaseActions\<close>\<close>






section \<open>Properties of the tick decomposition\<close>

lemma pushByTick_shape:
  "i \<le> length abt \<Longrightarrow>
   pushByTick i xs abt =
     Inr (map (\<lambda>j. (if j < length abt then abt ! j else [])
                    @ (if i \<le> j \<and> j < i + length xs then [xs ! (j - i)] else []))
              [0 ..< max (length abt) (i + length xs)])"
proof (induction xs arbitrary: i abt)
  case Nil
  then show ?case
    by (auto simp: max_def intro!: nth_equalityI)
next
  case (Cons a rest)
  define abt1 where "abt1 = (if length abt = i then abt @ [[]] else abt)"
  define abt2 where "abt2 = abt1[i := abt1 ! i @ [a]]"
  have len1: "i < length abt1"
    using Cons.prems by (auto simp: abt1_def)
  have len2: "length abt2 = max (length abt) (Suc i)"
    using Cons.prems by (auto simp: abt2_def abt1_def)
  have step: "pushByTick i (a # rest) abt = pushByTick (Suc i) rest abt2"
    using len1 by (simp add: abt1_def abt2_def Let_def)
  have ih: "pushByTick (Suc i) rest abt2 =
     Inr (map (\<lambda>j. (if j < length abt2 then abt2 ! j else [])
                    @ (if Suc i \<le> j \<and> j < Suc i + length rest then [rest ! (j - Suc i)] else []))
              [0 ..< max (length abt2) (Suc i + length rest)])"
    using len2 by (intro Cons.IH) simp
  have nth2: "abt2 ! j = (if j < length abt then abt ! j else []) @ (if j = i then [a] else [])"
    if "j < length abt2" for j
    using that len1 Cons.prems
    by (auto simp: abt2_def abt1_def nth_list_update nth_append)
  show ?case
    unfolding step ih
    apply (rule arg_cong [where f = Inr])
    apply (rule nth_equalityI)
     apply (simp add: len2)
    apply (simp add: len2 nth2 del: upt_Suc)
    apply (auto simp: nth_Cons' len2 less_Suc_eq_le Suc_diff_le not_less)
    done
qed

lemma maxLength_foldr:
  "foldr (\<lambda>s m. max (length (actions s)) m) srcs b = max (maxLength srcs) b"
  by (induction srcs) (auto simp: maxLength_def)

lemma maxLength_snoc:
  "maxLength (srcs @ [s]) = max (maxLength srcs) (length (actions s))"
proof -
  have "maxLength (srcs @ [s]) = foldr (\<lambda>s m. max (length (actions s)) m) srcs (length (actions s))"
    by (simp add: maxLength_def)
  then show ?thesis
    by (simp only: maxLength_foldr)
qed

lemma maxLength_Max:
  "maxLength srcs = Max (insert 0 ((\<lambda>s. length (actions s)) ` set srcs))"
proof (induction srcs)
  case Nil
  then show ?case by (simp add: maxLength_def)
next
  case (Cons s srcs)
  have "maxLength (s # srcs) = max (length (actions s)) (maxLength srcs)"
    by (simp add: maxLength_def)
  also have "\<dots> = max (length (actions s)) (Max (insert 0 ((\<lambda>s. length (actions s)) ` set srcs)))"
    by (simp add: Cons.IH)
  also have "\<dots> = Max (insert (length (actions s)) (insert 0 ((\<lambda>s. length (actions s)) ` set srcs)))"
    by (subst Max_insert) auto
  finally show ?case
    by (simp add: insert_commute)
qed

lemma length_le_maxLength:
  "s \<in> set srcs \<Longrightarrow> length (actions s) \<le> maxLength srcs"
  by (simp add: maxLength_Max)

lemma tickOf_beyond:
  "maxLength srcs \<le> i \<Longrightarrow> tickOf srcs i = []"
  using length_le_maxLength [of _ srcs]
  by (fastforce simp: tickOf_def filter_empty_conv)

lemma tickOf_snoc:
  "tickOf (srcs @ [s]) i =
     tickOf srcs i @ (if i < length (actions s) then [\<lparr>id_ao = id_sa s, action = actions s ! i\<rparr>] else [])"
  by (simp add: tickOf_def)

lemma pushByTick_tickOf:
  "pushByTick 0 (map (\<lambda>item. \<lparr>id_ao = id_sa s, action = item\<rparr>) (actions s))
       (map (tickOf srcs) [0 ..< maxLength srcs])
   = Inr (map (tickOf (srcs @ [s])) [0 ..< maxLength (srcs @ [s])])"
proof -
  have "pushByTick 0 (map (\<lambda>item. \<lparr>id_ao = id_sa s, action = item\<rparr>) (actions s))
          (map (tickOf srcs) [0 ..< maxLength srcs])
        = Inr (map (\<lambda>j. (if j < maxLength srcs then tickOf srcs j else [])
                    @ (if j < length (actions s)
                       then [\<lparr>id_ao = id_sa s, action = actions s ! j\<rparr>] else []))
              [0 ..< max (maxLength srcs) (length (actions s))])"
    by (subst pushByTick_shape) (auto intro!: nth_equalityI)
  also have "\<dots> = Inr (map (tickOf (srcs @ [s])) [0 ..< maxLength (srcs @ [s])])"
    by (auto simp: maxLength_snoc tickOf_snoc tickOf_beyond not_less)
  finally show ?thesis .
qed

lemma sourceStep_Inr:
  assumes "sourceStep getOrCreate s (abt, st) = Inr (abt', st')"
  shows "pushByTick 0 (map (\<lambda>item. \<lparr>id_ao = id_sa s, action = item\<rparr>) (actions s)) abt = Inr abt'"
  using assms
  by (auto simp: sourceStep_def Let_def split: if_splits sum.splits prod.splits)

lemma sourceLoop_ticks:
  assumes "sourceLoop getOrCreate rest (map (tickOf done) [0 ..< maxLength done], st) = Inr (ticks, st')"
  shows "ticks = map (tickOf (done @ rest)) [0 ..< maxLength (done @ rest)]"
  using assms
proof (induction rest arbitrary: "done" st)
  case Nil
  then show ?case by simp
next
  case (Cons s rest)
  from Cons.prems obtain abt1 st1 where
    step: "sourceStep getOrCreate s (map (tickOf done) [0 ..< maxLength done], st) = Inr (abt1, st1)"
    and loop: "sourceLoop getOrCreate rest (abt1, st1) = Inr (ticks, st')"
    by (auto split: sum.splits)
  have "abt1 = map (tickOf (done @ [s])) [0 ..< maxLength (done @ [s])]"
    using sourceStep_Inr [OF step] by (simp add: pushByTick_tickOf)
  with loop Cons.IH [of "done @ [s]" st1] show ?case
    by simp
qed

lemma getActionsByTick_fresh:
  "getActionsByTick freshGetOrCreate srcs () = Inr (map (tickOf srcs) [0 ..< maxLength srcs], ())"
proof -
  have step: "sourceStep freshGetOrCreate s (map (tickOf done) [0 ..< maxLength done], ())
      = Inr (map (tickOf (done @ [s])) [0 ..< maxLength (done @ [s])], ())" for s :: "'a SourceActions" and "done"
    by (simp add: sourceStep_def freshGetOrCreate_def Let_def pushByTick_tickOf)
  have "sourceLoop freshGetOrCreate rest (map (tickOf done) [0 ..< maxLength done], ())
      = Inr (map (tickOf (done @ rest)) [0 ..< maxLength (done @ rest)], ())" for rest "done" :: "'a SourceActions list"
    by (induction rest arbitrary: "done") (simp_all add: step)
  from this [of srcs "[]"] show ?thesis
    by (simp add: getActionsByTick_def maxLength_def)
qed

text \<open>
  C5. Whenever \<^verbatim>\<open>#getActionsByTick\<close> returns (it throws when the input state rejects a
  source), the list it returns has as many ticks as the longest action sequence of the
  request has actions, and tick \<open>i\<close> is exactly: one action, tagged with the id of its
  source, of every source whose sequence is longer than \<open>i\<close>, in the order of the
  sources in the request.
\<close>

theorem getActionsByTick_ticks:
  assumes "getActionsByTick getOrCreate srcs st = Inr (ticks, st')"
  shows "length ticks = Max (insert 0 ((\<lambda>s. length (actions s)) ` set srcs))
       \<and> (\<forall>i < length ticks.
            ticks ! i = map (\<lambda>s. \<lparr>id_ao = id_sa s, action = actions s ! i\<rparr>)
                            (filter (\<lambda>s. i < length (actions s)) srcs))"
proof -
  have "sourceLoop getOrCreate srcs (map (tickOf []) [0 ..< maxLength []], st) = Inr (ticks, st')"
    using assms by (simp add: getActionsByTick_def maxLength_def)
  from sourceLoop_ticks [OF this]
  have "ticks = map (tickOf srcs) [0 ..< maxLength srcs]"
    by simp
  then show ?thesis
    by (simp add: maxLength_Max [symmetric] tickOf_def)
qed

theorem getActionsByTick_ticks_witness:
  "getActionsByTick freshGetOrCreate
     [\<lparr>type_sa = Key, id_sa = ''k'', parameters = None, actions = [10, 11 :: nat]\<rparr>,
      \<lparr>type_sa = Pointer, id_sa = ''p'', parameters = None, actions = [20]\<rparr>] ()
   = Inr ([[\<lparr>id_ao = ''k'', action = 10\<rparr>, \<lparr>id_ao = ''p'', action = 20\<rparr>],
           [\<lparr>id_ao = ''k'', action = 11\<rparr>]], ())
   \<and> length [[\<lparr>id_ao = ''k'', action = 10 :: nat\<rparr>, \<lparr>id_ao = ''p'', action = 20\<rparr>],
             [\<lparr>id_ao = ''k'', action = 11\<rparr>]] = (2 :: nat)"
proof -
  have run: "getActionsByTick freshGetOrCreate
     [\<lparr>type_sa = Key, id_sa = ''k'', parameters = None, actions = [10, 11 :: nat]\<rparr>,
      \<lparr>type_sa = Pointer, id_sa = ''p'', parameters = None, actions = [20]\<rparr>] ()
   = Inr ([[\<lparr>id_ao = ''k'', action = 10\<rparr>, \<lparr>id_ao = ''p'', action = 20\<rparr>],
           [\<lparr>id_ao = ''k'', action = 11\<rparr>]], ())"
    by (simp add: getActionsByTick_def sourceStep_def freshGetOrCreate_def
        defaultedPointerType_def Let_def)
  from getActionsByTick_ticks [OF run] run show ?thesis
    by simp
qed

section \<open>Properties of the envelope validation\<close>

lemma getProperty_wire_id: "getProperty (wire r) ''id'' = map_option stringified (id_er r)"
  by (simp add: wire_def split: option.splits)

lemma hasProperty_wire_id: "hasProperty (wire r) ''id'' \<longleftrightarrow> id_er r \<noteq> None"
  by (cases "id_er r"; cases "channel_er r") (simp_all add: wire_def)

lemma getProperty_wire_error: "getProperty (wire r) ''error'' = Some (JStr (error_er r))"
  by (simp add: wire_def split: option.splits)

lemma hasProperty_wire_channel: "hasProperty (wire r) ''channel'' \<longleftrightarrow> channel_er r \<noteq> None"
  by (cases "id_er r"; cases "channel_er r") (simp_all add: wire_def)

lemma map_of_present: "(\<exists>y. map_of xs k = Some y) \<longleftrightarrow> k \<in> fst ` set xs"
  using map_of_eq_None_iff [of xs k] by auto

lemma getProperty_wire_message: "getProperty (wire r) ''message'' = Some (JStr (message_er r))"
  by (simp add: wire_def split: option.splits)

lemma hasProperty_getProperty: "hasProperty v k \<longleftrightarrow> getProperty v k \<noteq> None"
  by (cases v) (auto simp: map_of_eq_None_iff)

lemma parseBidiMessage_bad_id:
  assumes "JSON_parse messageStr = Some (JObj props)"
    and "\<not> (\<exists>n. map_of props ''id'' = Some (JNum n) \<and> n \<in> \<int> \<and> 0 \<le> n)"
  shows "parseBidiMessage JSON_parse messageStr =
           Inl (Error (''Expected unsigned integer but got '' @ getJsonType (map_of props ''id'')))"
proof (cases "map_of props ''id''")
  case None
  then show ?thesis using assms(1) by (simp add: parseBidiMessage_def Let_def)
next
  case (Some v)
  then show ?thesis using assms
    by (cases v) (auto simp: parseBidiMessage_def Let_def not_le)
qed

lemma map_of_absent_None: "k \<notin> fst ` set xs \<Longrightarrow> map_of xs k = None"
  by (simp add: map_of_eq_None_iff)

text \<open>
  C1, as amended. For every inbound message whose envelope fails validation the
  transport sends exactly one response, with error code \<^verbatim>\<open>invalid argument\<close>, the
  message of the validation error and no channel, and passes nothing on to the command
  processor. The response has an \<^verbatim>\<open>id\<close> field exactly when the payload parses as a
  JSON object that has an \<^verbatim>\<open>id\<close> property, and the field then holds the payload's
  \<^verbatim>\<open>id\<close> as \<^verbatim>\<open>JSON.stringify\<close> writes it, whatever its kind: a string, a boolean or
  a finite number (an integer or not, negative or not) as it is, \<^verbatim>\<open>null\<close> for
  \<^verbatim>\<open>null\<close> and for a number beyond the range of the doubles, also inside an array
  or object. The field is left out when the payload is not JSON, is not an object or
  has no \<^verbatim>\<open>id\<close>.
\<close>

theorem onBidiMessage_invalid_envelope:
  assumes "parseBidiMessage JSON_parse messageStr = Inl e"
  shows "\<exists>r. onBidiMessage JSON_parse messageStr = \<lparr>sent = [r], passedOn = None\<rparr>
           \<and> getProperty r ''error'' = Some (JStr ''invalid argument'')
           \<and> getProperty r ''message'' = Some (JStr (message_of e))
           \<and> \<not> hasProperty r ''channel''
           \<and> getProperty r ''id'' =
               (case JSON_parse messageStr of
                  Some (JObj props) \<Rightarrow> map_option stringified (map_of props ''id'')
                | _ \<Rightarrow> None)
           \<and> (hasProperty r ''id'' \<longleftrightarrow>
                (\<exists>props. JSON_parse messageStr = Some (JObj props) \<and> ''id'' \<in> fst ` set props))
           \<and> (\<forall>props s. JSON_parse messageStr = Some (JObj props)
                  \<and> map_of props ''id'' = Some (JStr s) \<longrightarrow>
                getProperty r ''id'' = Some (JStr s))
           \<and> (\<forall>props n. JSON_parse messageStr = Some (JObj props)
                  \<and> map_of props ''id'' = Some (JNum n) \<longrightarrow>
                getProperty r ''id'' = Some (JNum n))
           \<and> (\<forall>props b. JSON_parse messageStr = Some (JObj props)
                  \<and> map_of props ''id'' = Some (JBool b) \<longrightarrow>
                getProperty r ''id'' = Some (JBool b))
           \<and> (\<forall>props. JSON_parse messageStr = Some (JObj props)
                  \<and> map_of props ''id'' \<in> {Some JNull, Some JInfinity, Some JNegInfinity} \<longrightarrow>
                getProperty r ''id'' = Some JNull)"
proof -
  define r where "r = wire (getErrorResponse JSON_parse messageStr ErrorCode_InvalidArgument (message_of e))"
  have run: "onBidiMessage JSON_parse messageStr = \<lparr>sent = [r], passedOn = None\<rparr>"
    using assms by (simp add: onBidiMessage_def respondWithError_def r_def Let_def)
  have idv: "getProperty r ''id'' =
               (case JSON_parse messageStr of
                  Some (JObj props) \<Rightarrow> map_option stringified (map_of props ''id'')
                | _ \<Rightarrow> None)"
    unfolding r_def getProperty_wire_id
    by (auto simp: getErrorResponse_def Let_def map_of_absent_None split: option.splits json.splits)
  have idp: "hasProperty r ''id'' \<longleftrightarrow>
                (\<exists>props. JSON_parse messageStr = Some (JObj props) \<and> ''id'' \<in> fst ` set props)"
    unfolding hasProperty_getProperty idv
    using map_of_present [of _ "''id''"]
    by (auto split: option.splits json.splits)
  have str: "getProperty r ''id'' = Some (JStr s)"
    if "JSON_parse messageStr = Some (JObj props) \<and> map_of props ''id'' = Some (JStr s)"
    for props s
    using that by (simp add: idv)
  have num: "getProperty r ''id'' = Some (JNum n)"
    if "JSON_parse messageStr = Some (JObj props) \<and> map_of props ''id'' = Some (JNum n)"
    for props n
    using that by (simp add: idv)
  have bool: "getProperty r ''id'' = Some (JBool b)"
    if "JSON_parse messageStr = Some (JObj props) \<and> map_of props ''id'' = Some (JBool b)"
    for props b
    using that by (simp add: idv)
  have null: "getProperty r ''id'' = Some JNull"
    if "JSON_parse messageStr = Some (JObj props)
          \<and> map_of props ''id'' \<in> {Some JNull, Some JInfinity, Some JNegInfinity}"
    for props
    using that by (auto simp: idv)
  have "getProperty r ''error'' = Some (JStr ''invalid argument'')"
       "getProperty r ''message'' = Some (JStr (message_of e))"
       "\<not> hasProperty r ''channel''"
    by (simp_all add: r_def getProperty_wire_error getProperty_wire_message
          hasProperty_wire_channel getErrorResponse_def Let_def ErrorCode_InvalidArgument_def)
  with run idv idp str num bool null show ?thesis
    by blast
qed

theorem onBidiMessage_invalid_envelope_witness:
  \<open>parseBidiMessage parseTable ''{"id":1.5,"method":"x","params":{}}''
     = Inl (Error ''Expected unsigned integer but got number'')
   \<and> (\<exists>r. onBidiMessage parseTable ''{"id":1.5,"method":"x","params":{}}''
            = \<lparr>sent = [r], passedOn = None\<rparr>
          \<and> getProperty r ''error'' = Some (JStr ''invalid argument'')
          \<and> getProperty r ''message'' = Some (JStr ''Expected unsigned integer but got number'')
          \<and> \<not> hasProperty r ''channel''
          \<and> getProperty r ''id'' = Some (JNum (3/2))
          \<and> hasProperty r ''id'')
   \<and> parseBidiMessage parseTable ''{"id":1e400,"method":"x","params":{}}''
     = Inl (Error ''Expected unsigned integer but got number'')
   \<and> (\<exists>r. onBidiMessage parseTable ''{"id":1e400,"method":"x","params":{}}''
            = \<lparr>sent = [r], passedOn = None\<rparr>
          \<and> getProperty r ''error'' = Some (JStr ''invalid argument'')
          \<and> \<not> hasProperty r ''channel''
          \<and> getProperty r ''id'' = Some JNull
          \<and> hasProperty r ''id'')
   \<and> parseBidiMessage parseTable ''[1]''
     = Inl (Error ''Expected JSON object but got array'')
   \<and> (\<exists>r. onBidiMessage parseTable ''[1]'' = \<lparr>sent = [r], passedOn = None\<rparr>
          \<and> getProperty r ''error'' = Some (JStr ''invalid argument'')
          \<and> \<not> hasProperty r ''id'')
   \<and> parseBidiMessage parseTable ''{"id":[-1e400,{"a":1e400}],"method":"x","params":{}}''
     = Inl (Error ''Expected unsigned integer but got array'')
   \<and> (\<exists>r. onBidiMessage parseTable ''{"id":[-1e400,{"a":1e400}],"method":"x","params":{}}''
            = \<lparr>sent = [r], passedOn = None\<rparr>
          \<and> getProperty r ''id'' = Some (JArr [JNull, JObj [(''a'', JNull)]]))\<close>
proof -
  have h: \<open>parseBidiMessage parseTable ''{"id":1.5,"method":"x","params":{}}''
     = Inl (Error ''Expected unsigned integer but got number'')\<close>
    by (simp add: parseBidiMessage_def parseTable_def Let_def)
  have i: \<open>parseBidiMessage parseTable ''{"id":1e400,"method":"x","params":{}}''
     = Inl (Error ''Expected unsigned integer but got number'')\<close>
    by (simp add: parseBidiMessage_def parseTable_def Let_def)
  have a: \<open>parseBidiMessage parseTable ''[1]''
     = Inl (Error ''Expected JSON object but got array'')\<close>
    by (simp add: parseBidiMessage_def parseTable_def Let_def)
  have ph: \<open>parseTable ''{"id":1.5,"method":"x","params":{}}''
     = Some (JObj [(''id'', JNum (3/2)), (''method'', JStr ''x''), (''params'', JObj [])])\<close>
    and pi: \<open>parseTable ''{"id":1e400,"method":"x","params":{}}''
     = Some (JObj [(''id'', JInfinity), (''method'', JStr ''x''), (''params'', JObj [])])\<close>
    and pa: \<open>parseTable ''[1]'' = Some (JArr [JNum 1])\<close>
    by (simp_all add: parseTable_def)
  from onBidiMessage_invalid_envelope [OF h] obtain r1 where
    r1: \<open>onBidiMessage parseTable ''{"id":1.5,"method":"x","params":{}}''
            = \<lparr>sent = [r1], passedOn = None\<rparr>\<close>
      \<open>getProperty r1 ''error'' = Some (JStr ''invalid argument'')\<close>
      \<open>getProperty r1 ''message''
         = Some (JStr (message_of (Error ''Expected unsigned integer but got number'')))\<close>
      \<open>\<not> hasProperty r1 ''channel''\<close>
      \<open>getProperty r1 ''id'' =
         (case parseTable ''{"id":1.5,"method":"x","params":{}}'' of
            Some (JObj props) \<Rightarrow> map_option stringified (map_of props ''id'')
          | _ \<Rightarrow> None)\<close>
      \<open>hasProperty r1 ''id'' \<longleftrightarrow>
         (\<exists>props. parseTable ''{"id":1.5,"method":"x","params":{}}'' = Some (JObj props)
            \<and> ''id'' \<in> fst ` set props)\<close>
    by blast
  have 1: \<open>\<exists>r. onBidiMessage parseTable ''{"id":1.5,"method":"x","params":{}}''
            = \<lparr>sent = [r], passedOn = None\<rparr>
          \<and> getProperty r ''error'' = Some (JStr ''invalid argument'')
          \<and> getProperty r ''message'' = Some (JStr ''Expected unsigned integer but got number'')
          \<and> \<not> hasProperty r ''channel''
          \<and> getProperty r ''id'' = Some (JNum (3/2))
          \<and> hasProperty r ''id''\<close>
    using r1 by (intro exI [of _ r1]) (simp add: ph)
  from onBidiMessage_invalid_envelope [OF i] obtain r2 where
    r2: \<open>onBidiMessage parseTable ''{"id":1e400,"method":"x","params":{}}''
            = \<lparr>sent = [r2], passedOn = None\<rparr>\<close>
      \<open>getProperty r2 ''error'' = Some (JStr ''invalid argument'')\<close>
      \<open>\<not> hasProperty r2 ''channel''\<close>
      \<open>getProperty r2 ''id'' =
         (case parseTable ''{"id":1e400,"method":"x","params":{}}'' of
            Some (JObj props) \<Rightarrow> map_option stringified (map_of props ''id'')
          | _ \<Rightarrow> None)\<close>
      \<open>hasProperty r2 ''id'' \<longleftrightarrow>
         (\<exists>props. parseTable ''{"id":1e400,"method":"x","params":{}}'' = Some (JObj props)
            \<and> ''id'' \<in> fst ` set props)\<close>
    by blast
  have 2: \<open>\<exists>r. onBidiMessage parseTable ''{"id":1e400,"method":"x","params":{}}''
            = \<lparr>sent = [r], passedOn = None\<rparr>
          \<and> getProperty r ''error'' = Some (JStr ''invalid argument'')
          \<and> \<not> hasProperty r ''channel''
          \<and> getProperty r ''id'' = Some JNull
          \<and> hasProperty r ''id''\<close>
    using r2 by (intro exI [of _ r2]) (simp add: pi)
  from onBidiMessage_invalid_envelope [OF a] obtain r3 where
    r3: \<open>onBidiMessage parseTable ''[1]'' = \<lparr>sent = [r3], passedOn = None\<rparr>\<close>
      \<open>getProperty r3 ''error'' = Some (JStr ''invalid argument'')\<close>
      \<open>hasProperty r3 ''id'' \<longleftrightarrow>
         (\<exists>props. parseTable ''[1]'' = Some (JObj props) \<and> ''id'' \<in> fst ` set props)\<close>
    by blast
  have 3: \<open>\<exists>r. onBidiMessage parseTable ''[1]'' = \<lparr>sent = [r], passedOn = None\<rparr>
          \<and> getProperty r ''error'' = Some (JStr ''invalid argument'')
          \<and> \<not> hasProperty r ''id''\<close>
    using r3 by (intro exI [of _ r3]) (simp add: pa)
  have n: \<open>parseBidiMessage parseTable ''{"id":[-1e400,{"a":1e400}],"method":"x","params":{}}''
     = Inl (Error ''Expected unsigned integer but got array'')\<close>
    by (simp add: parseBidiMessage_def parseTable_def Let_def)
  have pn: \<open>parseTable ''{"id":[-1e400,{"a":1e400}],"method":"x","params":{}}''
     = Some (JObj [(''id'', JArr [JNegInfinity, JObj [(''a'', JInfinity)]]), (''method'', JStr ''x''),
                   (''params'', JObj [])])\<close>
    by (simp add: parseTable_def)
  from onBidiMessage_invalid_envelope [OF n] obtain r4 where
    r4: \<open>onBidiMessage parseTable ''{"id":[-1e400,{"a":1e400}],"method":"x","params":{}}''
            = \<lparr>sent = [r4], passedOn = None\<rparr>\<close>
      \<open>getProperty r4 ''id'' =
         (case parseTable ''{"id":[-1e400,{"a":1e400}],"method":"x","params":{}}'' of
            Some (JObj props) \<Rightarrow> map_option stringified (map_of props ''id'')
          | _ \<Rightarrow> None)\<close>
    by blast
  have 4: \<open>\<exists>r. onBidiMessage parseTable ''{"id":[-1e400,{"a":1e400}],"method":"x","params":{}}''
            = \<lparr>sent = [r], passedOn = None\<rparr>
          \<and> getProperty r ''id'' = Some (JArr [JNull, JObj [(''a'', JNull)]])\<close>
    using r4 by (intro exI [of _ r4]) (simp add: pn)
  from h i a 1 2 3 n 4 show ?thesis
    by (intro conjI)
qed

text \<open>
  C1 as stated fails: a payload whose \<^verbatim>\<open>id\<close> is the string \<^verbatim>\<open>"abc"\<close> fails validation,
  and the error response carries \<^verbatim>\<open>"id":"abc"\<close>.
\<close>

theorem onBidiMessage_string_id_counterexample:
  \<open>parseBidiMessage parseTable ''{"id":"abc","method":"x","params":{}}''
     = Inl (Error ''Expected unsigned integer but got string'')
   \<and> onBidiMessage parseTable ''{"id":"abc","method":"x","params":{}}''
     = \<lparr>sent = [JObj [(''id'', JStr ''abc''), (''error'', JStr ''invalid argument''),
                      (''message'', JStr ''Expected unsigned integer but got string'')]],
        passedOn = None\<rparr>\<close>
  by (simp add: parseBidiMessage_def onBidiMessage_def respondWithError_def getErrorResponse_def
      wire_def parseTable_def ErrorCode_InvalidArgument_def Let_def)

section \<open>Properties of deepSerializedToBiDi\<close>

lemma those_map_Some:
  "those (map f xs) = Some ys \<longleftrightarrow> list_all2 (\<lambda>x y. f x = Some y) xs ys"
proof (induction xs arbitrary: ys)
  case Nil
  then show ?case by auto
next
  case (Cons x xs)
  then show ?case
    by (cases ys) (auto split: option.splits)
qed

lemma deepSerializedToBiDi_platformobject:
  assumes "map_of props ''type'' = Some (JStr ''platformobject'')"
  shows "deepSerializedToBiDi toStr divider nav (JObj props)
           = Some (JObj [(''type'', JStr ''object'')])"
  using assms
  by (subst deepSerializedToBiDi.simps) (simp add: renameWeakRef_lookup)

lemma deepSerializedToBiDi_no_value:
  assumes "map_of props ''type'' \<noteq> Some (JStr ''platformobject'')"
    and "map_of props ''value'' = None"
  shows "deepSerializedToBiDi toStr divider nav (JObj props)
           = Some (JObj (renameWeakRef toStr props))"
  using assms
  by (subst deepSerializedToBiDi.simps) (simp add: renameWeakRef_lookup)

lemma deepSerializedToBiDi_value:
  assumes "map_of props ''type'' \<noteq> Some (JStr ''platformobject'')"
    and "map_of props ''value'' = Some bidiValue"
  shows "deepSerializedToBiDi toStr divider nav (JObj props)
           = (case
                (if map_of props ''type'' = Some (JStr ''node'')
                 then (case nodeSharedId toStr divider nav (renameWeakRef toStr props) bidiValue of
                         None \<Rightarrow> None
                       | Some (result1, bidiValue1) \<Rightarrow>
                           map_option (Pair result1)
                             (nodeChildren (deepSerializedToBiDi toStr divider nav)
                                bidiValue1))
                 else Some (renameWeakRef toStr props, bidiValue))
              of
                None \<Rightarrow> None
              | Some (result1, bidiValue1) \<Rightarrow>
                  (case
                     (if map_of result1 ''type'' \<in> {Some (JStr ''array''), Some (JStr ''set'')}
                      then forInAssign (deepSerializedToBiDi toStr divider nav) bidiValue1
                      else Some bidiValue1)
                   of
                     None \<Rightarrow> None
                   | Some bidiValue2 \<Rightarrow>
                       (case
                          (if map_of result1 ''type''
                                \<in> {Some (JStr ''object''), Some (JStr ''map'')}
                           then forInEntries (deepSerializedToBiDi toStr divider nav)
                                  bidiValue2
                           else Some bidiValue2)
                        of
                          None \<Rightarrow> None
                        | Some bidiValue3 \<Rightarrow>
                            Some (JObj (AList.update ''value'' bidiValue3 result1)))))"
  using assms
  by (subst deepSerializedToBiDi.simps) (simp add: renameWeakRef_lookup Let_def)

lemma deepSerializedToBiDi_node:
  assumes "map_of props ''type'' = Some (JStr ''node'')"
    and "map_of props ''value'' = Some bidiValue"
  shows "deepSerializedToBiDi toStr divider nav (JObj props)
           = (case nodeSharedId toStr divider nav (renameWeakRef toStr props) bidiValue of
                None \<Rightarrow> None
              | Some (result1, bidiValue1) \<Rightarrow>
                  map_option (\<lambda>v. JObj (AList.update ''value'' v result1))
                    (nodeChildren (deepSerializedToBiDi toStr divider nav) bidiValue1))"
proof (cases "nodeSharedId toStr divider nav (renameWeakRef toStr props) bidiValue")
  case None
  then show ?thesis
    using assms by (simp add: deepSerializedToBiDi_value)
next
  case (Some p)
  obtain result1 bidiValue1 where p: "p = (result1, bidiValue1)"
    by (cases p)
  have ty: "map_of result1 ''type'' = Some (JStr ''node'')"
    using nodeSharedId_Some(2) [OF Some [unfolded p]] assms(1)
    by (simp add: renameWeakRef_lookup)
  show ?thesis
  proof (cases "nodeChildren (deepSerializedToBiDi toStr divider nav) bidiValue1")
    case None
    then show ?thesis
      using assms Some p by (simp add: deepSerializedToBiDi_value)
  next
    case (Some v)
    then show ?thesis
      using assms \<open>nodeSharedId toStr divider nav (renameWeakRef toStr props) bidiValue = Some p\<close> p ty
      by (simp add: deepSerializedToBiDi_value)
  qed
qed

lemma deepSerializedToBiDi_array:
  assumes "map_of props ''type'' = Some (JStr ''array'') \<or> map_of props ''type'' = Some (JStr ''set'')"
    and "map_of props ''value'' = Some bidiValue"
  shows "deepSerializedToBiDi toStr divider nav (JObj props)
           = map_option (\<lambda>v. JObj (AList.update ''value'' v (renameWeakRef toStr props)))
               (forInAssign (deepSerializedToBiDi toStr divider nav) bidiValue)"
proof -
  have ty: "map_of (renameWeakRef toStr props) ''type'' = map_of props ''type''"
    by (simp add: renameWeakRef_lookup)
  show ?thesis
    using assms
    by (cases "forInAssign (deepSerializedToBiDi toStr divider nav) bidiValue")
       (auto simp: deepSerializedToBiDi_value ty)
qed

lemma deepSerializedToBiDi_object:
  assumes "map_of props ''type'' = Some (JStr ''object'') \<or> map_of props ''type'' = Some (JStr ''map'')"
    and "map_of props ''value'' = Some bidiValue"
  shows "deepSerializedToBiDi toStr divider nav (JObj props)
           = map_option (\<lambda>v. JObj (AList.update ''value'' v (renameWeakRef toStr props)))
               (forInEntries (deepSerializedToBiDi toStr divider nav) bidiValue)"
proof -
  have ty: "map_of (renameWeakRef toStr props) ''type'' = map_of props ''type''"
    by (simp add: renameWeakRef_lookup)
  show ?thesis
    using assms
    by (cases "forInEntries (deepSerializedToBiDi toStr divider nav) bidiValue")
       (auto simp: deepSerializedToBiDi_value ty)
qed

lemma deepSerializedToBiDi_other:
  assumes "map_of props ''type'' \<notin> {Some (JStr ''platformobject''), Some (JStr ''node''),
             Some (JStr ''array''), Some (JStr ''set''), Some (JStr ''object''), Some (JStr ''map'')}"
  shows "deepSerializedToBiDi toStr divider nav (JObj props)
           = Some (JObj (renameWeakRef toStr props))"
proof (cases "map_of props ''value''")
  case None
  then show ?thesis using assms by (simp add: deepSerializedToBiDi_no_value)
next
  case (Some bidiValue)
  have ty: "map_of (renameWeakRef toStr props) ''type'' = map_of props ''type''"
    by (simp add: renameWeakRef_lookup)
  have "AList.update ''value'' bidiValue (renameWeakRef toStr props) = renameWeakRef toStr props"
    using Some by (intro update_triv) (simp add: renameWeakRef_lookup)
  then show ?thesis
    using assms Some
    by (simp add: deepSerializedToBiDi_value ty)
qed

lemma deepSerializedToBiDi_primitive:
  "deepSerializedToBiDi toStr divider nav JNull = None"
  "deepSerializedToBiDi toStr divider nav (JBool b) = Some (JBool b)"
  "deepSerializedToBiDi toStr divider nav (JNum n) = Some (JNum n)"
  "deepSerializedToBiDi toStr divider nav JInfinity = Some JInfinity"
  "deepSerializedToBiDi toStr divider nav JNegInfinity = Some JNegInfinity"
  "deepSerializedToBiDi toStr divider nav (JStr s) = Some (JStr s)"
  "deepSerializedToBiDi toStr divider nav (JArr xs) = Some (JArr xs)"
  by (simp_all add: deepSerializedToBiDi.simps)

lemma those_map_total:
  "(\<forall>x \<in> set xs. \<exists>y. f x = Some y) \<Longrightarrow> \<exists>ys. those (map f xs) = Some ys"
  by (induction xs) auto

lemma nodeChildren_delete:
  "nodeChildren f (JObj (AList.delete ''backendNodeId'' vprops)) = None
     \<longleftrightarrow> nodeChildren f (JObj vprops) = None"
  by (auto simp: nodeChildren_def delete_conv' split: option.splits)

lemma deepSerializedToBiDi_total:
  "deepSerializedValue w \<Longrightarrow> \<exists>r. deepSerializedToBiDi toStr divider nav w = Some r"
proof (induction w rule: deepSerializedValue.induct)
  case (noValue props)
  then show ?case
    by (cases "map_of props ''type'' = Some (JStr ''platformobject'')")
       (simp_all add: deepSerializedToBiDi_platformobject deepSerializedToBiDi_no_value)
next
  case (platformobject props)
  then show ?case by (simp add: deepSerializedToBiDi_platformobject)
next
  case (plain props)
  then show ?case
    by (cases "map_of props ''type'' = Some (JStr ''platformobject'')")
       (simp_all add: deepSerializedToBiDi_platformobject deepSerializedToBiDi_other)
next
  case (nodeLeaf props vprops)
  have "nodeChildren (deepSerializedToBiDi toStr divider nav) (JObj vprops) \<noteq> None"
    using nodeLeaf by (simp add: nodeChildren_def)
  then show ?case
    using nodeLeaf nodeChildren_delete [of "deepSerializedToBiDi toStr divider nav" vprops]
    by (auto simp: deepSerializedToBiDi_node nodeSharedId_def split: option.splits)
next
  case (nodeWithChildren props vprops cs)
  have "\<exists>ys. those (map (deepSerializedToBiDi toStr divider nav) cs) = Some ys"
    using nodeWithChildren.IH by (intro those_map_total) auto
  then have "nodeChildren (deepSerializedToBiDi toStr divider nav) (JObj vprops) \<noteq> None"
    using nodeWithChildren.hyps by (auto simp: nodeChildren_def forInAssign_def)
  then show ?case
    using nodeWithChildren.hyps
      nodeChildren_delete [of "deepSerializedToBiDi toStr divider nav" vprops]
    by (auto simp: deepSerializedToBiDi_node nodeSharedId_def split: option.splits)
next
  case (arrayOrSet props xs)
  have "\<exists>ys. those (map (deepSerializedToBiDi toStr divider nav) xs) = Some ys"
    using arrayOrSet.IH by (intro those_map_total) auto
  then show ?case
    using arrayOrSet.hyps by (auto simp: deepSerializedToBiDi_array forInAssign_def)
next
  case (objectOrMap props es)
  have "\<exists>y. entryOf (deepSerializedToBiDi toStr divider nav) e = Some y" if "e \<in> set es" for e
  proof -
    from objectOrMap.IH that obtain k v where e: "e = JArr [k, v]"
      and k: "(\<exists>s. k = JStr s) \<or> (\<exists>r. deepSerializedToBiDi toStr divider nav k = Some r)"
      and v: "\<exists>r. deepSerializedToBiDi toStr divider nav v = Some r"
      by blast
    from k have "\<exists>r. deepSerializedToBiDi toStr divider nav k = Some r"
      by (auto simp: deepSerializedToBiDi_primitive)
    with v show ?thesis
      by (auto simp: e entryOf_def elementAt_def)
  qed
  then have "\<exists>ys. those (map (entryOf (deepSerializedToBiDi toStr divider nav)) es) = Some ys"
    by (intro those_map_total) auto
  then show ?case
    using objectOrMap.hyps by (auto simp: deepSerializedToBiDi_object forInEntries_def)
qed

lemma renameWeakRef_weakRef:
  "map_of (renameWeakRef toStr props) ''weakLocalObjectReference'' = None"
  by (simp add: renameWeakRef_def delete_conv' split: option.splits)

lemma renameWeakRef_internalId:
  "map_of props ''weakLocalObjectReference'' = Some w \<Longrightarrow>
   map_of (renameWeakRef toStr props) ''internalId'' = Some (JStr (toStr w))"
  by (simp add: renameWeakRef_def delete_conv' update_conv')

lemma nodeSharedId_lookup:
  assumes "nodeSharedId toStr divider nav result bidiValue = Some (result1, bidiValue1)"
    and "k \<noteq> ''sharedId''"
  shows "map_of result1 k = map_of result k"
  using assms
  by (auto simp: nodeSharedId_def update_conv' split: json.splits option.splits)

lemma nodeSharedId_backendNodeId:
  assumes "map_of vprops ''backendNodeId'' = Some b"
  shows "nodeSharedId toStr divider nav result (JObj vprops)
           = Some (AList.update ''sharedId'' (JStr (nav @ divider @ toStr b)) result,
                   JObj (AList.delete ''backendNodeId'' vprops))"
  using assms by (simp add: nodeSharedId_def)

lemma nodeSharedId_JObj:
  assumes "nodeSharedId toStr divider nav result (JObj vprops) = Some (result1, bidiValue1)"
  shows "\<exists>vprops1. bidiValue1 = JObj vprops1
           \<and> (\<forall>k. k \<noteq> ''backendNodeId'' \<longrightarrow> map_of vprops1 k = map_of vprops k)"
  using assms
  by (auto simp: nodeSharedId_def delete_conv' split: option.splits)

lemma nodeChildren_JObj:
  assumes "nodeChildren f (JObj vprops) = Some v"
  shows "\<exists>vprops'. v = JObj vprops'
           \<and> (\<forall>k. k \<noteq> ''children'' \<longrightarrow> map_of vprops' k = map_of vprops k)
           \<and> (\<forall>cs. map_of vprops ''children'' = Some (JArr cs) \<longrightarrow>
                 (\<exists>cs'. map_of vprops' ''children'' = Some (JArr cs')
                    \<and> list_all2 (\<lambda>c c'. f c = Some c') cs cs'))"
  using assms
  by (auto simp: nodeChildren_def forInAssign_def update_conv' those_map_Some
      split: option.splits)

lemma deepSerializedToBiDi_result:
  assumes "deepSerializedToBiDi toStr divider nav (JObj props) = Some r"
    and "map_of props ''type'' \<noteq> Some (JStr ''platformobject'')"
  shows "\<exists>rprops. r = JObj rprops
           \<and> (\<forall>k. k \<noteq> ''value'' \<and> k \<noteq> ''sharedId'' \<longrightarrow>
                 map_of rprops k = map_of (renameWeakRef toStr props) k)"
proof (cases "map_of props ''value''")
  case None
  then show ?thesis
    using assms by (auto simp: deepSerializedToBiDi_no_value)
next
  case (Some bidiValue)
  from assms [unfolded deepSerializedToBiDi_value [OF assms(2) Some]]
  obtain result1 bidiValue1 v where
    r: "r = JObj (AList.update ''value'' v result1)"
    and r1: "result1 = renameWeakRef toStr props
             \<or> nodeSharedId toStr divider nav (renameWeakRef toStr props) bidiValue
                 = Some (result1, bidiValue1)"
    by (auto split: if_splits option.splits prod.splits)
  from r1 have "\<forall>k. k \<noteq> ''sharedId'' \<longrightarrow> map_of result1 k = map_of (renameWeakRef toStr props) k"
    by (auto dest: nodeSharedId_lookup)
  then show ?thesis
    by (simp add: r update_conv')
qed

lemma decimal_examples:
  "decimal 3 = ''3''" "decimal 5 = ''5''" "decimal 42 = ''42''" "decimal 43 = ''43''"
  by (simp_all add: decimal.simps)

lemma exampleNode_run:
  "deepSerializedToBiDi exampleToStr ''_element_'' ''NAV'' (JObj exampleNode) =
     Some (JObj [(''type'', JStr ''node''),
                 (''value'', JObj [(''nodeType'', JNum 1),
                    (''children'', JArr [
                       JObj [(''type'', JStr ''node''), (''value'', JObj []),
                             (''sharedId'', JStr ''NAV_element_43'')]])]),
                 (''sharedId'', JStr ''NAV_element_42'')])"
  by (simp add: exampleNode_def deepSerializedToBiDi.simps renameWeakRef_def nodeSharedId_def
      nodeChildren_def forInAssign_def exampleToStr_def decimal_examples)

lemma examplePlatformObject_run:
  "deepSerializedToBiDi exampleToStr ''_element_'' ''NAV'' (JObj examplePlatformObject) =
     Some (JObj [(''type'', JStr ''object'')])"
  by (simp add: examplePlatformObject_def deepSerializedToBiDi_platformobject)

lemma exampleArray_run:
  "deepSerializedToBiDi exampleToStr ''_element_'' ''NAV'' (JObj exampleArray) =
     Some (JObj [(''type'', JStr ''array''),
                 (''value'', JArr [
                    JObj [(''type'', JStr ''node''),
                          (''value'', JObj [(''nodeType'', JNum 1),
                             (''children'', JArr [
                                JObj [(''type'', JStr ''node''), (''value'', JObj []),
                                      (''sharedId'', JStr ''NAV_element_43'')]])]),
                          (''sharedId'', JStr ''NAV_element_42'')],
                    JObj [(''type'', JStr ''object'')]]),
                 (''internalId'', JStr ''3'')])"
  by (subst deepSerializedToBiDi_array [where bidiValue = "JArr [JObj exampleNode, JObj examplePlatformObject]"])
     (simp_all add: exampleArray_def forInAssign_def exampleNode_run examplePlatformObject_run
        renameWeakRef_def exampleToStr_def decimal_examples)

lemma exampleMap_run:
  "deepSerializedToBiDi exampleToStr ''_element_'' ''NAV'' (JObj exampleMap) =
     Some (JObj [(''type'', JStr ''map''),
                 (''value'', JArr [
                    JArr [JStr ''k'', JObj [(''type'', JStr ''number''), (''value'', JNum 1)]],
                    JArr [JObj [(''type'', JStr ''object'')],
                          JObj [(''type'', JStr ''string''), (''value'', JStr ''x''),
                                (''internalId'', JStr ''5'')]]])])"
  by (simp add: exampleMap_def examplePlatformObject_def deepSerializedToBiDi.simps
      renameWeakRef_def forInEntries_def entryOf_def elementAt_def exampleToStr_def
      decimal_examples)

lemma examplePlatformObject_wf: "deepSerializedValue (JObj examplePlatformObject)"
  by (rule deepSerializedValue.platformobject) (simp add: examplePlatformObject_def)

lemma exampleNode_wf: "deepSerializedValue (JObj exampleNode)"
  unfolding exampleNode_def
  by (rule deepSerializedValue.nodeWithChildren
        [where cs = "[JObj [(''type'', JStr ''node''), (''value'', JObj [(''backendNodeId'', JNum 43)])]]"])
     (auto intro: deepSerializedValue.nodeLeaf)

lemma exampleArray_wf: "deepSerializedValue (JObj exampleArray)"
  by (rule deepSerializedValue.arrayOrSet [where xs = "[JObj exampleNode, JObj examplePlatformObject]"])
     (simp_all add: exampleArray_def exampleNode_wf examplePlatformObject_wf)

lemma exampleMap_wf: "deepSerializedValue (JObj exampleMap)"
  unfolding exampleMap_def
  by (rule deepSerializedValue.objectOrMap
        [where es = "[JArr [JStr ''k'', JObj [(''type'', JStr ''number''), (''value'', JNum 1)]],
                      JArr [JObj examplePlatformObject,
                            JObj [(''type'', JStr ''string''), (''value'', JStr ''x''),
                                  (''weakLocalObjectReference'', JNum 5)]]]"])
     (auto intro: deepSerializedValue.plain examplePlatformObject_wf)

lemma deepSerializedToBiDi_weakRef:
  assumes "deepSerializedToBiDi toStr divider nav (JObj props) = Some r"
  shows "\<not> hasProperty r ''weakLocalObjectReference''"
proof (cases "map_of props ''type'' = Some (JStr ''platformobject'')")
  case True
  have "r = JObj [(''type'', JStr ''object'')]"
    using assms unfolding deepSerializedToBiDi_platformobject [OF True] by simp
  then show ?thesis
    by simp
next
  case False
  from deepSerializedToBiDi_result [OF assms False] obtain rprops where
    r: "r = JObj rprops"
    and l: "\<forall>k. k \<noteq> ''value'' \<and> k \<noteq> ''sharedId'' \<longrightarrow>
                 map_of rprops k = map_of (renameWeakRef toStr props) k"
    by blast
  from l have "map_of rprops ''weakLocalObjectReference'' = None"
    by (simp add: renameWeakRef_weakRef)
  then show ?thesis
    by (simp add: r hasProperty_getProperty)
qed

lemma deepSerializedToBiDi_internalId:
  assumes "deepSerializedToBiDi toStr divider nav (JObj props) = Some r"
    and "map_of props ''type'' \<noteq> Some (JStr ''platformobject'')"
    and "map_of props ''weakLocalObjectReference'' = Some w"
  shows "getProperty r ''internalId'' = Some (JStr (toStr w))"
proof -
  from deepSerializedToBiDi_result [OF assms(1,2)] obtain rprops where
    r: "r = JObj rprops"
    and l: "\<forall>k. k \<noteq> ''value'' \<and> k \<noteq> ''sharedId'' \<longrightarrow>
                 map_of rprops k = map_of (renameWeakRef toStr props) k"
    by blast
  from l have "map_of rprops ''internalId'' = Some (JStr (toStr w))"
    by (simp add: renameWeakRef_internalId [OF assms(3)])
  then show ?thesis
    by (simp add: r)
qed

lemma deepSerializedToBiDi_node_value:
  assumes "deepSerializedToBiDi toStr divider nav (JObj props) = Some r"
    and "map_of props ''type'' = Some (JStr ''node'')"
    and "map_of props ''value'' = Some (JObj vprops)"
  shows "\<exists>rv. getProperty r ''value'' = Some rv
          \<and> (\<forall>b. map_of vprops ''backendNodeId'' = Some b \<longrightarrow>
                getProperty r ''sharedId'' = Some (JStr (nav @ divider @ toStr b))
                \<and> \<not> hasProperty rv ''backendNodeId'')
          \<and> (\<forall>cs. map_of vprops ''children'' = Some (JArr cs) \<longrightarrow>
                (\<exists>cs'. getProperty rv ''children'' = Some (JArr cs')
                   \<and> list_all2 (\<lambda>c c'. deepSerializedToBiDi toStr divider nav c = Some c')
                        cs cs'))"
proof -
  from assms(1) [unfolded deepSerializedToBiDi_node [OF assms(2,3)]]
  obtain result1 bidiValue1 rv where
    ns: "nodeSharedId toStr divider nav (renameWeakRef toStr props) (JObj vprops)
           = Some (result1, bidiValue1)"
    and nc: "nodeChildren (deepSerializedToBiDi toStr divider nav) bidiValue1 = Some rv"
    and r: "r = JObj (AList.update ''value'' rv result1)"
    by (auto split: option.splits)
  from nodeSharedId_JObj [OF ns] obtain vprops1 where
    v1: "bidiValue1 = JObj vprops1"
    and l1: "\<And>k. k \<noteq> ''backendNodeId'' \<Longrightarrow> map_of vprops1 k = map_of vprops k"
    by blast
  from nodeChildren_JObj [OF nc [unfolded v1]] obtain vprops2 where
    v2: "rv = JObj vprops2"
    and l2: "\<And>k. k \<noteq> ''children'' \<Longrightarrow> map_of vprops2 k = map_of vprops1 k"
    and ch: "\<And>cs. map_of vprops1 ''children'' = Some (JArr cs) \<Longrightarrow>
               \<exists>cs'. map_of vprops2 ''children'' = Some (JArr cs')
                  \<and> list_all2 (\<lambda>c c'. deepSerializedToBiDi toStr divider nav c = Some c')
                       cs cs'"
    by blast
  have val: "getProperty r ''value'' = Some rv"
    by (simp add: r update_conv')
  have shared: "getProperty r ''sharedId'' = Some (JStr (nav @ divider @ toStr b))
                \<and> \<not> hasProperty rv ''backendNodeId''"
    if b: "map_of vprops ''backendNodeId'' = Some b" for b
  proof -
    from ns [unfolded nodeSharedId_backendNodeId [OF b]]
    have r1: "result1 = AList.update ''sharedId'' (JStr (nav @ divider @ toStr b))
                          (renameWeakRef toStr props)"
      and b1: "vprops1 = AList.delete ''backendNodeId'' vprops"
      using v1 by simp_all
    have "map_of vprops2 ''backendNodeId'' = None"
      using l2 [of "''backendNodeId''"] by (simp add: b1 delete_conv')
    then show ?thesis
      by (simp add: r r1 v2 update_conv' hasProperty_getProperty)
  qed
  have children: "\<exists>cs'. getProperty rv ''children'' = Some (JArr cs')
                   \<and> list_all2 (\<lambda>c c'. deepSerializedToBiDi toStr divider nav c = Some c')
                        cs cs'"
    if "map_of vprops ''children'' = Some (JArr cs)" for cs
    using ch [of cs] that l1 [of "''children''"] by (simp add: v2)
  from val shared children show ?thesis
    by blast
qed

lemma deepSerializedToBiDi_elements:
  assumes "deepSerializedToBiDi toStr divider nav (JObj props) = Some r"
    and "map_of props ''type'' = Some (JStr ''array'') \<or> map_of props ''type'' = Some (JStr ''set'')"
    and "map_of props ''value'' = Some (JArr xs)"
  shows "\<exists>xs'. getProperty r ''value'' = Some (JArr xs')
           \<and> list_all2 (\<lambda>x x'. deepSerializedToBiDi toStr divider nav x = Some x') xs xs'"
  using assms(1) [unfolded deepSerializedToBiDi_array [OF assms(2,3)]]
  by (auto simp: forInAssign_def update_conv' those_map_Some)

lemma entryOf_Some:
  "entryOf f e = Some e' \<longleftrightarrow>
     (\<exists>k v k' v'. elementAt e 0 = Some k \<and> elementAt e 1 = Some v
         \<and> f k = Some k' \<and> f v = Some v' \<and> e' = JArr [k', v'])"
  by (auto simp: entryOf_def split: option.splits)

lemma deepSerializedToBiDi_entries:
  assumes "deepSerializedToBiDi toStr divider nav (JObj props) = Some r"
    and "map_of props ''type'' = Some (JStr ''object'') \<or> map_of props ''type'' = Some (JStr ''map'')"
    and "map_of props ''value'' = Some (JArr es)"
  shows "\<exists>es'. getProperty r ''value'' = Some (JArr es')
           \<and> list_all2 (\<lambda>e e'. \<exists>k v k' v'. elementAt e 0 = Some k \<and> elementAt e 1 = Some v
                  \<and> deepSerializedToBiDi toStr divider nav k = Some k'
                  \<and> deepSerializedToBiDi toStr divider nav v = Some v'
                  \<and> e' = JArr [k', v']) es es'"
  using assms(1) [unfolded deepSerializedToBiDi_object [OF assms(2,3)]]
  by (auto simp: forInEntries_def update_conv' those_map_Some entryOf_Some)

lemma deepSerializedToBiDi_pairs:
  assumes "deepSerializedToBiDi toStr divider nav (JObj props) = Some r"
    and "map_of props ''type'' = Some (JStr ''object'') \<or> map_of props ''type'' = Some (JStr ''map'')"
    and "map_of props ''value'' = Some (JArr es)"
  shows "\<exists>es'. getProperty r ''value'' = Some (JArr es') \<and> length es' = length es
           \<and> (\<forall>i < length es. \<forall>k v rest. es ! i = JArr (k # v # rest) \<longrightarrow>
                 (\<exists>k' v'. deepSerializedToBiDi toStr divider nav k = Some k'
                    \<and> deepSerializedToBiDi toStr divider nav v = Some v'
                    \<and> es' ! i = JArr [k', v']))"
proof -
  from deepSerializedToBiDi_entries [OF assms] obtain es' where
    val: "getProperty r ''value'' = Some (JArr es')"
    and all: "list_all2 (\<lambda>e e'. \<exists>k v k' v'. elementAt e 0 = Some k \<and> elementAt e 1 = Some v
                  \<and> deepSerializedToBiDi toStr divider nav k = Some k'
                  \<and> deepSerializedToBiDi toStr divider nav v = Some v'
                  \<and> e' = JArr [k', v']) es es'"
    by blast
  have len: "length es' = length es"
    using all by (simp add: list_all2_lengthD)
  have entry: "\<exists>k' v'. deepSerializedToBiDi toStr divider nav k = Some k'
                    \<and> deepSerializedToBiDi toStr divider nav v = Some v'
                    \<and> es' ! i = JArr [k', v']"
    if "i < length es" and "es ! i = JArr (k # v # rest)" for i k v rest
  proof -
    from list_all2_nthD [OF all that(1)] obtain a b a' b' where
      "elementAt (es ! i) 0 = Some a" "elementAt (es ! i) 1 = Some b"
      "deepSerializedToBiDi toStr divider nav a = Some a'"
      "deepSerializedToBiDi toStr divider nav b = Some b'"
      "es' ! i = JArr [a', b']"
      by blast
    then show ?thesis
      using that(2) by (simp add: elementAt_def)
  qed
  from val len entry show ?thesis
    by blast
qed

lemma exampleEntry_run:
  "deepSerializedToBiDi exampleToStr ''_element_'' ''NAV''
     (JObj [(''type'', JStr ''string''), (''value'', JStr ''x''),
            (''weakLocalObjectReference'', JNum 5)])
   = Some (JObj [(''type'', JStr ''string''), (''value'', JStr ''x''),
                 (''internalId'', JStr ''5'')])"
  by (simp add: deepSerializedToBiDi.simps renameWeakRef_def exampleToStr_def decimal_examples)

text \<open>
  C2. \<^verbatim>\<open>deepSerializedToBiDi\<close> returns a value on every well-shaped CDP value, and
  whenever it returns \<open>r\<close> for an object: \<open>r\<close> has no \<^verbatim>\<open>weakLocalObjectReference\<close>
  property, and \<^verbatim>\<open>internalId\<close> holds the converted reference the argument had; a
  \<^verbatim>\<open>platformobject\<close> becomes exactly \<^verbatim>\<open>{type: 'object'}\<close>; a \<^verbatim>\<open>node\<close> whose value
  has a \<^verbatim>\<open>backendNodeId\<close> gets \<^verbatim>\<open>sharedId\<close>, the navigable id, the divider and the
  converted \<^verbatim>\<open>backendNodeId\<close> concatenated, and its value loses \<^verbatim>\<open>backendNodeId\<close>; the
  children of a node and the elements of an array or set are replaced, one for one, by
  what the method returns on them, and every entry \<open>[k, v, \<dots>]\<close> of an object or map
  is replaced, in its place, by the pair of what the method returns on \<open>k\<close> and what it
  returns on \<open>v\<close>.
\<close>

theorem deepSerializedToBiDi_remote_value:
  "(deepSerializedValue (JObj props) \<longrightarrow>
      (\<exists>r. deepSerializedToBiDi toStr divider nav (JObj props) = Some r))
   \<and> (\<forall>r. deepSerializedToBiDi toStr divider nav (JObj props) = Some r \<longrightarrow>
        \<not> hasProperty r ''weakLocalObjectReference''
      \<and> (map_of props ''type'' = Some (JStr ''platformobject'') \<longrightarrow>
           r = JObj [(''type'', JStr ''object'')])
      \<and> (map_of props ''type'' \<noteq> Some (JStr ''platformobject'') \<longrightarrow>
           (\<forall>w. map_of props ''weakLocalObjectReference'' = Some w \<longrightarrow>
              getProperty r ''internalId'' = Some (JStr (toStr w))))
      \<and> (map_of props ''type'' = Some (JStr ''node'') \<longrightarrow>
           (\<forall>vprops. map_of props ''value'' = Some (JObj vprops) \<longrightarrow>
              (\<exists>rv. getProperty r ''value'' = Some rv
                 \<and> (\<forall>b. map_of vprops ''backendNodeId'' = Some b \<longrightarrow>
                       getProperty r ''sharedId'' = Some (JStr (nav @ divider @ toStr b))
                       \<and> \<not> hasProperty rv ''backendNodeId'')
                 \<and> (\<forall>cs. map_of vprops ''children'' = Some (JArr cs) \<longrightarrow>
                       (\<exists>cs'. getProperty rv ''children'' = Some (JArr cs')
                          \<and> list_all2 (\<lambda>c c'. deepSerializedToBiDi toStr divider nav c = Some c')
                               cs cs')))))
      \<and> (map_of props ''type'' = Some (JStr ''array'') \<or> map_of props ''type'' = Some (JStr ''set'') \<longrightarrow>
           (\<forall>xs. map_of props ''value'' = Some (JArr xs) \<longrightarrow>
              (\<exists>xs'. getProperty r ''value'' = Some (JArr xs')
                 \<and> list_all2 (\<lambda>x x'. deepSerializedToBiDi toStr divider nav x = Some x')
                      xs xs')))
      \<and> (map_of props ''type'' = Some (JStr ''object'') \<or> map_of props ''type'' = Some (JStr ''map'') \<longrightarrow>
           (\<forall>es. map_of props ''value'' = Some (JArr es) \<longrightarrow>
              (\<exists>es'. getProperty r ''value'' = Some (JArr es') \<and> length es' = length es
                 \<and> (\<forall>i < length es. \<forall>k v rest. es ! i = JArr (k # v # rest) \<longrightarrow>
                       (\<exists>k' v'. deepSerializedToBiDi toStr divider nav k = Some k'
                          \<and> deepSerializedToBiDi toStr divider nav v = Some v'
                          \<and> es' ! i = JArr [k', v']))))))"
proof (intro conjI allI impI)
  assume "deepSerializedValue (JObj props)"
  then show "\<exists>r. deepSerializedToBiDi toStr divider nav (JObj props) = Some r"
    by (rule deepSerializedToBiDi_total)
next
  fix r assume "deepSerializedToBiDi toStr divider nav (JObj props) = Some r"
  then show "\<not> hasProperty r ''weakLocalObjectReference''"
    by (rule deepSerializedToBiDi_weakRef)
next
  fix r assume "deepSerializedToBiDi toStr divider nav (JObj props) = Some r"
    and "map_of props ''type'' = Some (JStr ''platformobject'')"
  then show "r = JObj [(''type'', JStr ''object'')]"
    by (simp add: deepSerializedToBiDi_platformobject)
next
  fix r w assume "deepSerializedToBiDi toStr divider nav (JObj props) = Some r"
    and "map_of props ''type'' \<noteq> Some (JStr ''platformobject'')"
    and "map_of props ''weakLocalObjectReference'' = Some w"
  then show "getProperty r ''internalId'' = Some (JStr (toStr w))"
    by (rule deepSerializedToBiDi_internalId)
next
  fix r vprops assume "deepSerializedToBiDi toStr divider nav (JObj props) = Some r"
    and "map_of props ''type'' = Some (JStr ''node'')"
    and "map_of props ''value'' = Some (JObj vprops)"
  then show "\<exists>rv. getProperty r ''value'' = Some rv
          \<and> (\<forall>b. map_of vprops ''backendNodeId'' = Some b \<longrightarrow>
                getProperty r ''sharedId'' = Some (JStr (nav @ divider @ toStr b))
                \<and> \<not> hasProperty rv ''backendNodeId'')
          \<and> (\<forall>cs. map_of vprops ''children'' = Some (JArr cs) \<longrightarrow>
                (\<exists>cs'. getProperty rv ''children'' = Some (JArr cs')
                   \<and> list_all2 (\<lambda>c c'. deepSerializedToBiDi toStr divider nav c = Some c')
                        cs cs'))"
    by (rule deepSerializedToBiDi_node_value)
next
  fix r xs assume "deepSerializedToBiDi toStr divider nav (JObj props) = Some r"
    and "map_of props ''type'' = Some (JStr ''array'') \<or> map_of props ''type'' = Some (JStr ''set'')"
    and "map_of props ''value'' = Some (JArr xs)"
  then show "\<exists>xs'. getProperty r ''value'' = Some (JArr xs')
           \<and> list_all2 (\<lambda>x x'. deepSerializedToBiDi toStr divider nav x = Some x') xs xs'"
    by (rule deepSerializedToBiDi_elements)
next
  fix r es assume "deepSerializedToBiDi toStr divider nav (JObj props) = Some r"
    and "map_of props ''type'' = Some (JStr ''object'') \<or> map_of props ''type'' = Some (JStr ''map'')"
    and "map_of props ''value'' = Some (JArr es)"
  then show "\<exists>es'. getProperty r ''value'' = Some (JArr es') \<and> length es' = length es
           \<and> (\<forall>i < length es. \<forall>k v rest. es ! i = JArr (k # v # rest) \<longrightarrow>
                 (\<exists>k' v'. deepSerializedToBiDi toStr divider nav k = Some k'
                    \<and> deepSerializedToBiDi toStr divider nav v = Some v'
                    \<and> es' ! i = JArr [k', v']))"
    by (rule deepSerializedToBiDi_pairs)
qed

theorem deepSerializedToBiDi_remote_value_witness:
  "deepSerializedValue (JObj exampleArray)
   \<and> deepSerializedToBiDi exampleToStr ''_element_'' ''NAV'' (JObj exampleArray) =
       Some (JObj [(''type'', JStr ''array''),
                 (''value'', JArr [
                    JObj [(''type'', JStr ''node''),
                          (''value'', JObj [(''nodeType'', JNum 1),
                             (''children'', JArr [
                                JObj [(''type'', JStr ''node''), (''value'', JObj []),
                                      (''sharedId'', JStr ''NAV_element_43'')]])]),
                          (''sharedId'', JStr ''NAV_element_42'')],
                    JObj [(''type'', JStr ''object'')]]),
                 (''internalId'', JStr ''3'')])
   \<and> getProperty (the (deepSerializedToBiDi exampleToStr ''_element_'' ''NAV'' (JObj exampleArray)))
        ''internalId'' = Some (JStr ''3'')
   \<and> \<not> hasProperty (the (deepSerializedToBiDi exampleToStr ''_element_'' ''NAV'' (JObj exampleArray)))
        ''weakLocalObjectReference''
   \<and> deepSerializedValue (JObj exampleNode)
   \<and> getProperty (the (deepSerializedToBiDi exampleToStr ''_element_'' ''NAV'' (JObj exampleNode)))
        ''sharedId'' = Some (JStr ''NAV_element_42'')
   \<and> deepSerializedValue (JObj examplePlatformObject)
   \<and> deepSerializedToBiDi exampleToStr ''_element_'' ''NAV'' (JObj examplePlatformObject)
        = Some (JObj [(''type'', JStr ''object'')])
   \<and> deepSerializedValue (JObj exampleMap)
   \<and> (\<exists>r. deepSerializedToBiDi exampleToStr ''_element_'' ''NAV'' (JObj exampleMap) = Some r
        \<and> getProperty r ''value'' =
            Some (JArr [
              JArr [JStr ''k'', JObj [(''type'', JStr ''number''), (''value'', JNum 1)]],
              JArr [JObj [(''type'', JStr ''object'')],
                    JObj [(''type'', JStr ''string''), (''value'', JStr ''x''),
                          (''internalId'', JStr ''5'')]]]))"
proof -
  note inst = deepSerializedToBiDi_remote_value [where toStr = exampleToStr
      and divider = "''_element_''" and nav = "''NAV''"]
  have 1: "getProperty (the (deepSerializedToBiDi exampleToStr ''_element_'' ''NAV'' (JObj exampleArray)))
        ''internalId'' = Some (JStr ''3'')"
    "\<not> hasProperty (the (deepSerializedToBiDi exampleToStr ''_element_'' ''NAV'' (JObj exampleArray)))
        ''weakLocalObjectReference''"
    using inst [of exampleArray] exampleArray_run
    by (simp_all add: exampleArray_def exampleToStr_def decimal_examples)
  have 2: "getProperty (the (deepSerializedToBiDi exampleToStr ''_element_'' ''NAV'' (JObj exampleNode)))
        ''sharedId'' = Some (JStr ''NAV_element_42'')"
    using inst [of exampleNode] exampleNode_run
    by (simp add: exampleNode_def exampleToStr_def decimal_examples)
  have 3: "deepSerializedToBiDi exampleToStr ''_element_'' ''NAV'' (JObj examplePlatformObject)
        = Some (JObj [(''type'', JStr ''object'')])"
    using inst [of examplePlatformObject] examplePlatformObject_wf
    by (auto simp: examplePlatformObject_def)
  from inst [of exampleMap] exampleMap_wf obtain r where
    run: "deepSerializedToBiDi exampleToStr ''_element_'' ''NAV'' (JObj exampleMap) = Some r"
    by blast
  have ty: "map_of exampleMap ''type'' = Some (JStr ''object'') \<or> map_of exampleMap ''type'' = Some (JStr ''map'')"
    and val: "map_of exampleMap ''value'' = Some (JArr [
         JArr [JStr ''k'', JObj [(''type'', JStr ''number''), (''value'', JNum 1)]],
         JArr [JObj examplePlatformObject,
               JObj [(''type'', JStr ''string''), (''value'', JStr ''x''),
                     (''weakLocalObjectReference'', JNum 5)]]])"
    by (simp_all add: exampleMap_def)
  from inst [of exampleMap] run ty val obtain es' where
    es': "getProperty r ''value'' = Some (JArr es')" "length es' = 2"
    and entries: "\<And>i k v rest. i < 2 \<Longrightarrow>
        [JArr [JStr ''k'', JObj [(''type'', JStr ''number''), (''value'', JNum 1)]],
         JArr [JObj examplePlatformObject,
               JObj [(''type'', JStr ''string''), (''value'', JStr ''x''),
                     (''weakLocalObjectReference'', JNum 5)]]] ! i = JArr (k # v # rest) \<Longrightarrow>
        \<exists>k' v'. deepSerializedToBiDi exampleToStr ''_element_'' ''NAV'' k = Some k'
           \<and> deepSerializedToBiDi exampleToStr ''_element_'' ''NAV'' v = Some v'
           \<and> es' ! i = JArr [k', v']"
    by fastforce
  from entries [of 0 "JStr ''k''" "JObj [(''type'', JStr ''number''), (''value'', JNum 1)]" "[]"]
  have e0: "es' ! 0 = JArr [JStr ''k'', JObj [(''type'', JStr ''number''), (''value'', JNum 1)]]"
    by (simp add: deepSerializedToBiDi_primitive deepSerializedToBiDi.simps renameWeakRef_def)
  from entries [of 1 "JObj examplePlatformObject"
      "JObj [(''type'', JStr ''string''), (''value'', JStr ''x''),
             (''weakLocalObjectReference'', JNum 5)]" "[]"]
  have e1: "es' ! 1 = JArr [JObj [(''type'', JStr ''object'')],
                    JObj [(''type'', JStr ''string''), (''value'', JStr ''x''),
                          (''internalId'', JStr ''5'')]]"
    by (simp add: examplePlatformObject_run exampleEntry_run)
  have "es' = [es' ! 0, es' ! 1]"
    using es'(2) by (cases es'; cases "tl es'") auto
  with e0 e1 es'(1) run
  have 4: "\<exists>r. deepSerializedToBiDi exampleToStr ''_element_'' ''NAV'' (JObj exampleMap) = Some r
        \<and> getProperty r ''value'' =
            Some (JArr [
              JArr [JStr ''k'', JObj [(''type'', JStr ''number''), (''value'', JNum 1)]],
              JArr [JObj [(''type'', JStr ''object'')],
                    JObj [(''type'', JStr ''string''), (''value'', JStr ''x''),
                          (''internalId'', JStr ''5'')]]])"
    by simp
  from 1 2 3 4 exampleArray_run exampleArray_wf exampleNode_wf examplePlatformObject_wf exampleMap_wf
  show ?thesis
    by (intro conjI)
qed

section \<open>Properties of the realm\<close>

lemma deepSerializedToBiDi_JObj:
  assumes "deepSerializedToBiDi toStr divider nav (JObj props) = Some r"
  shows "\<exists>rprops. r = JObj rprops"
proof (cases "map_of props ''type'' = Some (JStr ''platformobject'')")
  case True
  then show ?thesis
    using assms unfolding deepSerializedToBiDi_platformobject [OF True] by auto
next
  case False
  from deepSerializedToBiDi_result [OF assms False] show ?thesis
    by blast
qed

lemma releaseObject_ignored:
  "releaseObject (Some (CdpError (- 32000) ''Invalid remote object id'')) = None"
  by (simp add: releaseObject_def)

lemma releaseObject_other:
  "\<not> (code_of e = Some (- 32000) \<and> message_of e = ''Invalid remote object id'') \<Longrightarrow>
   releaseObject (Some e) = Some e"
  by (simp add: releaseObject_def)

text \<open>
  C3. For a CDP result whose \<^verbatim>\<open>objectId\<close> is present (a string that is not empty, the
  test the code makes) and whose deep-serialized value is an object that
  \<^verbatim>\<open>deepSerializedToBiDi\<close> turns into \<open>bidiValue\<close>: with ownership \<^verbatim>\<open>root\<close> the method
  returns \<open>bidiValue\<close> with \<^verbatim>\<open>handle\<close> set to the object id, records the object id
  for the realm in \<^verbatim>\<open>knownHandlesToRealm\<close> and sends nothing; with any other ownership
  it returns \<open>bidiValue\<close> as it is, leaves \<^verbatim>\<open>knownHandlesToRealm\<close> alone and has handed
  \<^verbatim>\<open>Runtime.releaseObject\<close> for the object id to the client, without reading a reply.
  When the reply comes, the error with code -32000 and message
  \<^verbatim>\<open>Invalid remote object id\<close> leaves no trace, and any other error goes to the logger
  only: the handles and the commands sent stay as they were, and the value returned
  has been returned already.
\<close>

theorem cdpToBidiValue_ownership:
  assumes "deepSerializedValue_ro (result_cdp cdpValue) = Some (JObj props)"
    and "objectId (result_cdp cdpValue) = Some oid"
    and "oid \<noteq> []"
    and "deepSerializedToBiDi toStr divider (navigableId storage realm) (JObj props) = Some bidiValue"
  shows "(\<exists>withHandle.
            cdpToBidiValue toStr divider storage realm cdpValue Root w
              = Inr (withHandle,
                     w\<lparr>knownHandlesToRealm := (knownHandlesToRealm w)(oid \<mapsto> realmId realm)\<rparr>)
            \<and> getProperty withHandle ''handle'' = Some (JStr oid)
            \<and> (\<forall>k. k \<noteq> ''handle'' \<longrightarrow> getProperty withHandle k = getProperty bidiValue k))
       \<and> (resultOwnership \<noteq> Root \<longrightarrow>
            cdpToBidiValue toStr divider storage realm cdpValue resultOwnership w
              = Inr (bidiValue,
                     w\<lparr>sentCommands := sentCommands w @
                          [\<lparr>client_cmd = SessionClient (cdpSessionId realm),
                            method_cmd = ''Runtime.releaseObject'',
                            params_cmd = [(''objectId'', JStr oid)]\<rparr>]\<rparr>))
       \<and> releaseObjectCaught hasLogger
            (Some (CdpError (- 32000) ''Invalid remote object id'')) w' = w'
       \<and> (\<forall>reply. knownHandlesToRealm (releaseObjectCaught hasLogger reply w')
                      = knownHandlesToRealm w'
                  \<and> sentCommands (releaseObjectCaught hasLogger reply w') = sentCommands w'
                  \<and> (\<forall>e. releaseObject reply = Some e \<and> hasLogger \<longrightarrow>
                        logged (releaseObjectCaught hasLogger reply w') = logged w' @ [e]))"
proof -
  from deepSerializedToBiDi_JObj [OF assms(4)] obtain rprops where r: "bidiValue = JObj rprops"
    by blast
  have root: "cdpToBidiValue toStr divider storage realm cdpValue Root w
      = Inr (JObj (AList.update ''handle'' (JStr oid) rprops),
             w\<lparr>knownHandlesToRealm := (knownHandlesToRealm w)(oid \<mapsto> realmId realm)\<rparr>)"
    using assms by (simp add: cdpToBidiValue_def r)
  have handle: "getProperty (JObj (AList.update ''handle'' (JStr oid) rprops)) ''handle'' = Some (JStr oid)"
    "\<forall>k. k \<noteq> ''handle'' \<longrightarrow>
        getProperty (JObj (AList.update ''handle'' (JStr oid) rprops)) k = getProperty bidiValue k"
    by (simp_all add: r update_conv')
  have other: "cdpToBidiValue toStr divider storage realm cdpValue resultOwnership w
              = Inr (bidiValue,
                     w\<lparr>sentCommands := sentCommands w @
                          [\<lparr>client_cmd = SessionClient (cdpSessionId realm),
                            method_cmd = ''Runtime.releaseObject'',
                            params_cmd = [(''objectId'', JStr oid)]\<rparr>]\<rparr>)"
    if "resultOwnership \<noteq> Root"
    using assms that by (simp add: cdpToBidiValue_def releaseObjectCommand_def)
  have ignored: "releaseObjectCaught hasLogger
            (Some (CdpError (- 32000) ''Invalid remote object id'')) w' = w'"
    by (simp add: releaseObjectCaught_def releaseObject_ignored)
  have caught: "knownHandlesToRealm (releaseObjectCaught hasLogger reply w') = knownHandlesToRealm w'
      \<and> sentCommands (releaseObjectCaught hasLogger reply w') = sentCommands w'
      \<and> (\<forall>e. releaseObject reply = Some e \<and> hasLogger \<longrightarrow>
             logged (releaseObjectCaught hasLogger reply w') = logged w' @ [e])" for reply
    by (simp add: releaseObjectCaught_def split: option.splits)
  from root handle other ignored caught show ?thesis
    by blast
qed

text \<open>
  C4, as amended. \<^verbatim>\<open>disown\<close> of a handle that \<^verbatim>\<open>knownHandlesToRealm\<close> does not map to
  the realm completes without error, sends nothing and changes nothing; and when a
  call of \<^verbatim>\<open>disown\<close> has completed without error, a second call for the same handle
  completes without error and leaves the world of the first.
\<close>

theorem disown_noop_idempotent:
  "(knownHandlesToRealm w handle \<noteq> Some (realmId realm) \<longrightarrow>
      disown realm reply handle w = (None, w))
   \<and> (fst (disown realm reply handle w) = None \<longrightarrow>
        disown realm reply' handle (snd (disown realm reply handle w))
          = (None, snd (disown realm reply handle w)))"
proof (intro conjI impI)
  assume "knownHandlesToRealm w handle \<noteq> Some (realmId realm)"
  then show "disown realm reply handle w = (None, w)"
    by (simp add: disown_def)
next
  assume completed: "fst (disown realm reply handle w) = None"
  show "disown realm reply' handle (snd (disown realm reply handle w))
          = (None, snd (disown realm reply handle w))"
  proof (cases "knownHandlesToRealm w handle = Some (realmId realm)")
    case False
    then show ?thesis
      by (simp add: disown_def)
  next
    case True
    with completed have released: "releaseObject reply = None"
      by (auto simp: disown_def Let_def split: option.splits)
    have "knownHandlesToRealm (snd (disown realm reply handle w)) handle = None"
      using True released by (simp add: disown_def Let_def)
    then show ?thesis
      by (simp add: disown_def)
  qed
qed

theorem cdpToBidiValue_ownership_witness:
  "cdpToBidiValue exampleToStr ''_element_'' [(''C1'', exampleContext (Some ''NAV''))] exampleRealm
      \<lparr>result_cdp = \<lparr>deepSerializedValue_ro = Some (JObj examplePlatformObject),
                  objectId = Some ''obj-1''\<rparr>\<rparr> NoOwnership exampleWorld
     = Inr (JObj [(''type'', JStr ''object'')],
            exampleWorld\<lparr>sentCommands :=
               [\<lparr>client_cmd = SessionClient ''S1'', method_cmd = ''Runtime.releaseObject'',
                 params_cmd = [(''objectId'', JStr ''obj-1'')]\<rparr>]\<rparr>)
   \<and> cdpToBidiValue exampleToStr ''_element_'' [(''C1'', exampleContext (Some ''NAV''))] exampleRealm
      \<lparr>result_cdp = \<lparr>deepSerializedValue_ro = Some (JObj examplePlatformObject),
                  objectId = Some ''obj-1''\<rparr>\<rparr> Root exampleWorld
     = Inr (JObj [(''type'', JStr ''object''), (''handle'', JStr ''obj-1'')],
            exampleWorld\<lparr>knownHandlesToRealm :=
               (knownHandlesToRealm exampleWorld)(''obj-1'' \<mapsto> ''r1'')\<rparr>)
   \<and> releaseObjectCaught True (Some (CdpError (- 32000) ''Invalid remote object id'')) exampleWorld
     = exampleWorld
   \<and> logged (releaseObjectCaught True (Some (CdpError (- 32001) ''Session closed'')) exampleWorld)
     = [CdpError (- 32001) ''Session closed'']"
proof -
  have h1: "deepSerializedValue_ro (result_cdp \<lparr>result_cdp = \<lparr>deepSerializedValue_ro = Some (JObj examplePlatformObject),
                  objectId = Some ''obj-1''\<rparr>\<rparr>) = Some (JObj examplePlatformObject)"
    by simp
  have h2: "objectId (result_cdp \<lparr>result_cdp = \<lparr>deepSerializedValue_ro = Some (JObj examplePlatformObject),
                  objectId = Some ''obj-1''\<rparr>\<rparr>) = Some ''obj-1''"
    by simp
  have h3: "''obj-1'' \<noteq> []"
    by simp
  have h4: "deepSerializedToBiDi exampleToStr ''_element_''
              (navigableId [(''C1'', exampleContext (Some ''NAV''))] exampleRealm)
              (JObj examplePlatformObject) = Some (JObj [(''type'', JStr ''object'')])"
    by (simp add: examplePlatformObject_def deepSerializedToBiDi_platformobject)
  have other: "releaseObject (Some (CdpError (- 32001) ''Session closed''))
      = Some (CdpError (- 32001) ''Session closed'')"
    by (simp add: releaseObject_def)
  note inst = cdpToBidiValue_ownership [OF h1 h2 h3 h4, of exampleWorld NoOwnership True exampleWorld]
  have none: "cdpToBidiValue exampleToStr ''_element_'' [(''C1'', exampleContext (Some ''NAV''))] exampleRealm
      \<lparr>result_cdp = \<lparr>deepSerializedValue_ro = Some (JObj examplePlatformObject),
                  objectId = Some ''obj-1''\<rparr>\<rparr> NoOwnership exampleWorld
     = Inr (JObj [(''type'', JStr ''object'')],
            exampleWorld\<lparr>sentCommands :=
               [\<lparr>client_cmd = SessionClient ''S1'', method_cmd = ''Runtime.releaseObject'',
                 params_cmd = [(''objectId'', JStr ''obj-1'')]\<rparr>]\<rparr>)"
    using inst by (simp add: exampleRealm_def exampleWorld_def)
  have root: "cdpToBidiValue exampleToStr ''_element_'' [(''C1'', exampleContext (Some ''NAV''))] exampleRealm
      \<lparr>result_cdp = \<lparr>deepSerializedValue_ro = Some (JObj examplePlatformObject),
                  objectId = Some ''obj-1''\<rparr>\<rparr> Root exampleWorld
     = Inr (JObj [(''type'', JStr ''object''), (''handle'', JStr ''obj-1'')],
            exampleWorld\<lparr>knownHandlesToRealm :=
               (knownHandlesToRealm exampleWorld)(''obj-1'' \<mapsto> ''r1'')\<rparr>)"
    by (simp add: cdpToBidiValue_def h4) (simp add: exampleRealm_def)
  have ignored: "releaseObjectCaught True (Some (CdpError (- 32000) ''Invalid remote object id'')) exampleWorld
     = exampleWorld"
    using inst by simp
  have logs: "logged (releaseObjectCaught True (Some (CdpError (- 32001) ''Session closed'')) exampleWorld)
     = [CdpError (- 32001) ''Session closed'']"
    using inst other by (simp add: exampleWorld_def)
  from none root ignored logs show ?thesis
    by blast
qed

theorem disown_noop_idempotent_witness:
  "knownHandlesToRealm exampleWorld ''g'' \<noteq> Some (realmId exampleRealm)
   \<and> disown exampleRealm None ''g'' exampleWorld = (None, exampleWorld)
   \<and> fst (disown exampleRealm None ''h'' exampleWorld) = None
   \<and> disown exampleRealm None ''h'' (snd (disown exampleRealm None ''h'' exampleWorld))
       = (None, snd (disown exampleRealm None ''h'' exampleWorld))
   \<and> knownHandlesToRealm (snd (disown exampleRealm None ''h'' exampleWorld)) ''h'' = None"
proof -
  have a: "knownHandlesToRealm exampleWorld ''g'' \<noteq> Some (realmId exampleRealm)"
    by (simp add: exampleWorld_def exampleRealm_def)
  have b: "fst (disown exampleRealm None ''h'' exampleWorld) = None"
    by (simp add: disown_def exampleWorld_def exampleRealm_def releaseObject_def Let_def)
  have c: "knownHandlesToRealm (snd (disown exampleRealm None ''h'' exampleWorld)) ''h'' = None"
    by (simp add: disown_def exampleWorld_def exampleRealm_def releaseObject_def Let_def)
  from disown_noop_idempotent [of exampleWorld "''g''" exampleRealm None None]
    disown_noop_idempotent [of exampleWorld "''h''" exampleRealm None None] a b c
  show ?thesis
    by simp
qed

text \<open>
  C4 as stated fails: when \<^verbatim>\<open>Runtime.releaseObject\<close> is rejected with another error than
  the ignored one, the first \<^verbatim>\<open>disown\<close> rejects and keeps the handle, and the second
  call sends the command again and, on a result, removes the handle.
\<close>

theorem disown_twice_counterexample:
  "fst (disown exampleRealm (Some (CdpError (- 32001) ''Session closed'')) ''h'' exampleWorld)
     = Some (CdpError (- 32001) ''Session closed'')
   \<and> knownHandlesToRealm
        (snd (disown exampleRealm (Some (CdpError (- 32001) ''Session closed'')) ''h'' exampleWorld))
        ''h'' = Some ''r1''
   \<and> sentCommands
        (snd (disown exampleRealm (Some (CdpError (- 32001) ''Session closed'')) ''h'' exampleWorld))
       = [\<lparr>client_cmd = SessionClient ''S1'', method_cmd = ''Runtime.releaseObject'',
           params_cmd = [(''objectId'', JStr ''h'')]\<rparr>]
   \<and> knownHandlesToRealm
        (snd (disown exampleRealm None ''h''
           (snd (disown exampleRealm (Some (CdpError (- 32001) ''Session closed'')) ''h''
              exampleWorld))))
        ''h'' = None
   \<and> sentCommands
        (snd (disown exampleRealm None ''h''
           (snd (disown exampleRealm (Some (CdpError (- 32001) ''Session closed'')) ''h''
              exampleWorld))))
       = [\<lparr>client_cmd = SessionClient ''S1'', method_cmd = ''Runtime.releaseObject'',
           params_cmd = [(''objectId'', JStr ''h'')]\<rparr>,
          \<lparr>client_cmd = SessionClient ''S1'', method_cmd = ''Runtime.releaseObject'',
           params_cmd = [(''objectId'', JStr ''h'')]\<rparr>]"
  by (simp add: disown_def exampleWorld_def exampleRealm_def releaseObject_def
      releaseObjectCommand_def Let_def)

text \<open>
  C10. When the storage has no context for the realm's \<^verbatim>\<open>browsingContextId\<close>, or the
  context has no navigable id, the getter \<^verbatim>\<open>navigableId\<close> gives \<^verbatim>\<open>UNKNOWN\<close>; a node
  with a \<^verbatim>\<open>backendNodeId\<close> that is serialized through the realm then gets the
  \<^verbatim>\<open>sharedId\<close> \<^verbatim>\<open>UNKNOWN\<close>, the divider and the converted \<^verbatim>\<open>backendNodeId\<close>, and the
  serialization of a well-shaped node returns.
\<close>

theorem navigableId_UNKNOWN:
  assumes "findContext storage (browsingContextId realm) = None
         \<or> (\<exists>c. findContext storage (browsingContextId realm) = Some c \<and> navigableId_bc c = None)"
    and "map_of props ''type'' = Some (JStr ''node'')"
    and "map_of props ''value'' = Some (JObj vprops)"
    and "map_of vprops ''backendNodeId'' = Some b"
  shows "navigableId storage realm = ''UNKNOWN''
       \<and> (deepSerializedValue (JObj props) \<longrightarrow>
            (\<exists>r. deepSerializedToBiDi toStr divider (navigableId storage realm) (JObj props) = Some r))
       \<and> (\<forall>r. deepSerializedToBiDi toStr divider (navigableId storage realm) (JObj props) = Some r \<longrightarrow>
            getProperty r ''sharedId'' = Some (JStr (''UNKNOWN'' @ divider @ toStr b)))"
proof -
  have nav: "navigableId storage realm = ''UNKNOWN''"
    using assms(1) by (auto simp: navigableId_def)
  have total: "\<exists>r. deepSerializedToBiDi toStr divider (navigableId storage realm) (JObj props) = Some r"
    if "deepSerializedValue (JObj props)"
    using that by (rule deepSerializedToBiDi_total)
  have shared: "getProperty r ''sharedId'' = Some (JStr (''UNKNOWN'' @ divider @ toStr b))"
    if "deepSerializedToBiDi toStr divider (navigableId storage realm) (JObj props) = Some r" for r
    using deepSerializedToBiDi_node_value [OF that assms(2,3)] assms(4)
    by (auto simp: nav)
  from nav total shared show ?thesis
    by blast
qed

theorem navigableId_UNKNOWN_witness:
  "findContext [] (browsingContextId exampleRealm) = None
   \<and> navigableId [] exampleRealm = ''UNKNOWN''
   \<and> findContext [(''C1'', exampleContext None)] (browsingContextId exampleRealm)
       = Some (exampleContext None)
   \<and> navigableId_bc (exampleContext None) = None
   \<and> navigableId [(''C1'', exampleContext None)] exampleRealm = ''UNKNOWN''
   \<and> deepSerializedValue (JObj exampleNode)
   \<and> deepSerializedToBiDi exampleToStr ''_element_'' (navigableId [] exampleRealm) (JObj exampleNode)
        \<noteq> None
   \<and> getProperty
        (the (deepSerializedToBiDi exampleToStr ''_element_'' (navigableId [] exampleRealm)
                (JObj exampleNode)))
        ''sharedId'' = Some (JStr ''UNKNOWN_element_42'')"
proof -
  have a: "findContext [] (browsingContextId exampleRealm) = None"
    by (simp add: findContext_def)
  have b: "findContext [(''C1'', exampleContext None)] (browsingContextId exampleRealm)
       = Some (exampleContext None)" "navigableId_bc (exampleContext None) = None"
    by (simp_all add: findContext_def exampleRealm_def exampleContext_def)
  have ty: "map_of exampleNode ''type'' = Some (JStr ''node'')"
    and val: "map_of exampleNode ''value''
        = Some (JObj [(''nodeType'', JNum 1), (''backendNodeId'', JNum 42),
             (''children'', JArr [
                JObj [(''type'', JStr ''node''),
                      (''value'', JObj [(''backendNodeId'', JNum 43)])]])])"
    and bn: "map_of [(''nodeType'', JNum 1), (''backendNodeId'', JNum 42),
             (''children'', JArr [
                JObj [(''type'', JStr ''node''),
                      (''value'', JObj [(''backendNodeId'', JNum 43)])]])] ''backendNodeId''
        = Some (JNum 42)"
    by (simp_all add: exampleNode_def)
  have c1: "findContext [] (browsingContextId exampleRealm) = None
         \<or> (\<exists>c. findContext [] (browsingContextId exampleRealm) = Some c \<and> navigableId_bc c = None)"
    using a by blast
  have c2: "findContext [(''C1'', exampleContext None)] (browsingContextId exampleRealm) = None
         \<or> (\<exists>c. findContext [(''C1'', exampleContext None)] (browsingContextId exampleRealm) = Some c
                \<and> navigableId_bc c = None)"
    using b by blast
  from navigableId_UNKNOWN [OF c1 ty val bn, where toStr = exampleToStr and divider = "''_element_''"]
    navigableId_UNKNOWN [OF c2 ty val bn, where toStr = exampleToStr and divider = "''_element_''"]
    a b exampleNode_wf
  show ?thesis
    by (auto simp: exampleToStr_def decimal_examples)
qed

section \<open>Properties of the browsing context processor\<close>

lemma removeSubtree_ids:
  "fst ` set (removeSubtree n ids storage) \<subseteq> fst ` set storage - set ids"
proof (induction n arbitrary: ids storage)
  case 0
  then show ?case by auto
next
  case (Suc n)
  define rest where "rest = filter (\<lambda>kc. fst kc \<notin> set ids) storage"
  define below where "below = map fst (filter (\<lambda>kc. case parentId (snd kc) of
                                            None \<Rightarrow> False
                                          | Some p \<Rightarrow> p \<in> set ids) rest)"
  have rest: "fst ` set rest \<subseteq> fst ` set storage - set ids"
    by (auto simp: rest_def)
  have "removeSubtree (Suc n) ids storage = (if below = [] then rest else removeSubtree n below rest)"
    by (simp add: rest_def below_def Let_def)
  moreover have "fst ` set (removeSubtree n below rest) \<subseteq> fst ` set rest - set below"
    by (rule Suc.IH)
  ultimately show ?case
    using rest by auto
qed

lemma deleteContext_ids:
  "fst ` set (deleteContext ident storage) \<subseteq> fst ` set storage - {ident}"
  using removeSubtree_ids [of "length storage" "[ident]" storage]
  by (simp add: deleteContext_def)

lemma findContext_ids: "findContext storage ident = Some c \<Longrightarrow> ident \<in> fst ` set storage"
  using map_of_present [of storage ident] by (auto simp: findContext_def)

lemma findContext_None_ids: "findContext storage ident = None \<longleftrightarrow> ident \<notin> fst ` set storage"
  by (simp add: findContext_def map_of_eq_None_iff)

lemma handleAttachedToTargetEvent_invalid:
  assumes "\<not> isValidTarget selfTargetId (targetInfo params)"
  shows "handleAttachedToTargetEvent selfTargetId params parentClient w
           = w\<lparr>commands := commands w @
                 [\<lparr>client_cmd = SessionClient (sessionId params),
                   method_cmd = ''Runtime.runIfWaitingForDebugger'', params_cmd = []\<rparr>]\<rparr>"
  using assms by (simp add: handleAttachedToTargetEvent_def)

lemma handleAttachedToTargetEvent_existing:
  assumes "isValidTarget selfTargetId (targetInfo params)"
    and "findContext (contexts w) (targetId_ti (targetInfo params)) = Some c"
  shows "handleAttachedToTargetEvent selfTargetId params parentClient w
           = w\<lparr>listeners := listeners w @ [SessionClient (sessionId params)],
               cdpTargets := cdpTargets w @
                 [\<lparr>targetId = targetId_ti (targetInfo params), parentTargetId = parentId c,
                   cdpSessionId_t = sessionId params\<rparr>],
               contexts := AList.update (targetId_ti (targetInfo params))
                 (c\<lparr>cdpTarget := \<lparr>targetId = targetId_ti (targetInfo params),
                       parentTargetId = parentId c, cdpSessionId_t = sessionId params\<rparr>\<rparr>)
                 (contexts w)\<rparr>"
  using assms
  by (simp add: handleAttachedToTargetEvent_def Let_def updateCdpTarget_def CdpTarget_create_def)

lemma handleAttachedToTargetEvent_new:
  assumes "isValidTarget selfTargetId (targetInfo params)"
    and "findContext (contexts w) (targetId_ti (targetInfo params)) = None"
  shows "handleAttachedToTargetEvent selfTargetId params parentClient w
           = w\<lparr>listeners := listeners w @ [SessionClient (sessionId params)],
               cdpTargets := cdpTargets w @
                 [\<lparr>targetId = targetId_ti (targetInfo params), parentTargetId = None,
                   cdpSessionId_t = sessionId params\<rparr>],
               contexts := AList.update (targetId_ti (targetInfo params))
                 \<lparr>parentId = None, navigableId_bc = None,
                   cdpTarget = \<lparr>targetId = targetId_ti (targetInfo params),
                       parentTargetId = None, cdpSessionId_t = sessionId params\<rparr>\<rparr>
                 (contexts w),
               registeredEvents := registeredEvents w @
                 [(''browsingContext.contextCreated'', targetId_ti (targetInfo params))]\<rparr>"
  using assms
  by (simp add: handleAttachedToTargetEvent_def Let_def BrowsingContextImpl_create_def
      CdpTarget_create_def)

text \<open>
  C7. When a \<^verbatim>\<open>Target.attachedToTarget\<close> event names a target whose id is that of a
  stored context, the ids of the stored contexts stay as they are, in their order, and
  no event is registered; and when the target is one the processor accepts (a page or
  an iframe other than the self target, as the target of a frame that moved to another
  process is), the stored context is the old one with its \<^verbatim>\<open>cdpTarget\<close> replaced by the
  target created for the event. The ids stored change only when no context with the
  target id was stored, and then the target id is the one id added.
\<close>

theorem handleAttachedToTargetEvent_oopif:
  "(findContext (contexts w) (targetId_ti (targetInfo params)) = Some c \<longrightarrow>
      map fst (contexts (handleAttachedToTargetEvent selfTargetId params parentClient w))
        = map fst (contexts w)
      \<and> registeredEvents (handleAttachedToTargetEvent selfTargetId params parentClient w)
        = registeredEvents w
      \<and> (isValidTarget selfTargetId (targetInfo params) \<longrightarrow>
           findContext (contexts (handleAttachedToTargetEvent selfTargetId params parentClient w))
               (targetId_ti (targetInfo params))
             = Some (c\<lparr>cdpTarget := \<lparr>targetId = targetId_ti (targetInfo params),
                          parentTargetId = parentId c, cdpSessionId_t = sessionId params\<rparr>\<rparr>)
           \<and> cdpTargets (handleAttachedToTargetEvent selfTargetId params parentClient w)
             = cdpTargets w @ [\<lparr>targetId = targetId_ti (targetInfo params),
                          parentTargetId = parentId c, cdpSessionId_t = sessionId params\<rparr>]))
   \<and> (fst ` set (contexts (handleAttachedToTargetEvent selfTargetId params parentClient w))
         \<noteq> fst ` set (contexts w) \<longrightarrow>
        findContext (contexts w) (targetId_ti (targetInfo params)) = None
        \<and> fst ` set (contexts (handleAttachedToTargetEvent selfTargetId params parentClient w))
            = insert (targetId_ti (targetInfo params)) (fst ` set (contexts w)))"
proof (cases "isValidTarget selfTargetId (targetInfo params)")
  case False
  then show ?thesis
    by (simp add: handleAttachedToTargetEvent_invalid)
next
  case True
  show ?thesis
  proof (cases "findContext (contexts w) (targetId_ti (targetInfo params))")
    case None
    then show ?thesis
      by (simp add: handleAttachedToTargetEvent_new [OF True None] dom_update)
  next
    case (Some c')
    have "targetId_ti (targetInfo params) \<in> fst ` set (contexts w)"
      using Some by (rule findContext_ids)
    then show ?thesis
      using True Some
      by (auto simp: handleAttachedToTargetEvent_existing [OF True Some] update_keys
          findContext_def update_conv' dom_update)
  qed
qed

lemma onCdpEvent_self:
  assumes "selfTargetId \<notin> fst ` set (contexts w)"
    and "\<forall>cl p. ev = FrameAttached cl p \<longrightarrow> frameId_fa p \<noteq> selfTargetId"
  shows "selfTargetId \<notin> fst ` set (contexts (onCdpEvent selfTargetId ev w))"
proof (cases "hasListeners w (client_of ev)")
  case False
  then show ?thesis
    using assms(1) by (simp add: onCdpEvent_def)
next
  case True
  have "selfTargetId \<notin> fst ` set (contexts (dispatchToHandler selfTargetId ev w))"
  proof (cases ev)
    case (AttachedToTarget cl p)
    show ?thesis
    proof (cases "isValidTarget selfTargetId (targetInfo p)")
      case False
      then show ?thesis
        using assms(1) by (simp add: AttachedToTarget handleAttachedToTargetEvent_invalid)
    next
      case valid: True
      then have ne: "targetId_ti (targetInfo p) \<noteq> selfTargetId"
        by (auto simp: isValidTarget_def split: if_splits)
      show ?thesis
      proof (cases "findContext (contexts w) (targetId_ti (targetInfo p))")
        case None
        then show ?thesis
          using assms(1) ne
          by (simp add: AttachedToTarget handleAttachedToTargetEvent_new [OF valid None] dom_update)
      next
        case (Some c)
        then show ?thesis
          using assms(1) ne
          by (simp add: AttachedToTarget handleAttachedToTargetEvent_existing [OF valid Some]
              dom_update)
      qed
    qed
  next
    case (DetachedFromTarget cl p)
    then show ?thesis
      using assms(1) deleteContext_ids [of _ "contexts w"]
      by (auto simp: handleDetachedFromTargetEvent_def split: option.splits)
  next
    case (FrameAttached cl p)
    then show ?thesis
      using assms
      by (auto simp: handleFrameAttachedEvent_def BrowsingContextImpl_create_def dom_update
          split: option.splits)
  next
    case (FrameDetached cl p)
    then show ?thesis
      using assms(1) deleteContext_ids [of _ "contexts w"]
      by (auto simp: handleFrameDetachedEvent_def split: option.splits)
  qed
  with True show ?thesis
    by (simp add: onCdpEvent_def)
qed

lemma onCdpEvents_self:
  assumes "selfTargetId \<notin> fst ` set (contexts w)"
    and "\<forall>ev \<in> set evs. \<forall>cl p. ev = FrameAttached cl p \<longrightarrow> frameId_fa p \<noteq> selfTargetId"
  shows "selfTargetId \<notin> fst ` set (contexts (onCdpEvents selfTargetId evs w))"
  using assms
proof (induction evs arbitrary: w)
  case Nil
  then show ?case by simp
next
  case (Cons ev evs)
  have "selfTargetId \<notin> fst ` set (contexts (onCdpEvent selfTargetId ev w))"
    using Cons.prems by (intro onCdpEvent_self) auto
  moreover have "\<forall>ev \<in> set evs. \<forall>cl p. ev = FrameAttached cl p \<longrightarrow> frameId_fa p \<noteq> selfTargetId"
    using Cons.prems(2) by simp
  ultimately have "selfTargetId \<notin> fst ` set (contexts (onCdpEvents selfTargetId evs
      (onCdpEvent selfTargetId ev w)))"
    by (rule Cons.IH)
  then show ?case
    by simp
qed

lemma listed_serializeToBidiValue:
  "listed (serializeToBidiValue storage d kc) \<subseteq> insert (fst kc) (fst ` set storage)"
proof (induction d arbitrary: kc)
  case 0
  then show ?case by simp
next
  case (Suc d)
  have "listed (serializeToBidiValue storage d x) \<subseteq> fst ` set storage" if "x \<in> set storage" for x
    using Suc.IH [of x] that by auto
  then show ?case
    by auto
qed

lemma getTree_listed:
  assumes "process_browsingContext_getTree q w = Inr infos"
  shows "\<Union> (listed ` set infos) \<subseteq> fst ` set (contexts w)"
proof (cases "root q")
  case None
  have key: "x \<in> fst ` set (contexts w)"
    if "x \<in> listed (serializeToBidiValue (contexts w) d kc)" "kc \<in> set (contexts w)" for x d kc
    using listed_serializeToBidiValue [of "contexts w" d kc] that by auto
  have infos: "infos = map (serializeToBidiValue (contexts w)
                   (case maxDepth q of None \<Rightarrow> length (contexts w) | Some d \<Rightarrow> d))
                 (filter (\<lambda>kc. parentId (snd kc) = None) (contexts w))"
    using assms None
    by (simp add: process_browsingContext_getTree_def getTopLevelContexts_def Let_def)
  show ?thesis
    unfolding infos by (auto dest: key)
next
  case (Some r)
  with assms obtain c where c: "findContext (contexts w) r = Some c"
    and infos: "infos = [serializeToBidiValue (contexts w)
                   (case maxDepth q of None \<Rightarrow> length (contexts w) | Some d \<Rightarrow> d) (r, c)]"
    by (auto simp: process_browsingContext_getTree_def getContext_def Let_def
        split: option.splits sum.splits)
  show ?thesis
    using listed_serializeToBidiValue [of "contexts w" _ "(r, c)"] findContext_ids [OF c]
    by (auto simp: infos)
qed

lemma onCdpEvent_self_targets:
  assumes "selfTargetId \<notin> targetId ` set (cdpTargets w)"
  shows "selfTargetId \<notin> targetId ` set (cdpTargets (onCdpEvent selfTargetId ev w))"
proof (cases "hasListeners w (client_of ev)")
  case False
  then show ?thesis
    using assms by (simp add: onCdpEvent_def)
next
  case True
  have "selfTargetId \<notin> targetId ` set (cdpTargets (dispatchToHandler selfTargetId ev w))"
  proof (cases ev)
    case (AttachedToTarget cl p)
    show ?thesis
    proof (cases "isValidTarget selfTargetId (targetInfo p)")
      case False
      then show ?thesis
        using assms by (simp add: AttachedToTarget handleAttachedToTargetEvent_invalid)
    next
      case valid: True
      then have ne: "targetId_ti (targetInfo p) \<noteq> selfTargetId"
        by (auto simp: isValidTarget_def split: if_splits)
      show ?thesis
      proof (cases "findContext (contexts w) (targetId_ti (targetInfo p))")
        case None
        then show ?thesis
          using assms ne
          by (simp add: AttachedToTarget handleAttachedToTargetEvent_new [OF valid None])
      next
        case (Some c)
        then show ?thesis
          using assms ne
          by (simp add: AttachedToTarget handleAttachedToTargetEvent_existing [OF valid Some])
      qed
    qed
  next
    case (DetachedFromTarget cl p)
    then show ?thesis
      using assms by (simp add: handleDetachedFromTargetEvent_def split: option.splits)
  next
    case (FrameAttached cl p)
    then show ?thesis
      using assms
      by (simp add: handleFrameAttachedEvent_def BrowsingContextImpl_create_def split: option.splits)
  next
    case (FrameDetached cl p)
    then show ?thesis
      using assms by (simp add: handleFrameDetachedEvent_def split: option.splits)
  qed
  with True show ?thesis
    by (simp add: onCdpEvent_def)
qed

lemma onCdpEvent_self_events:
  assumes "selfTargetId \<notin> snd ` set (registeredEvents w)"
    and "\<forall>cl p. ev = FrameAttached cl p \<longrightarrow> frameId_fa p \<noteq> selfTargetId"
  shows "selfTargetId \<notin> snd ` set (registeredEvents (onCdpEvent selfTargetId ev w))"
proof (cases "hasListeners w (client_of ev)")
  case False
  then show ?thesis
    using assms(1) by (simp add: onCdpEvent_def)
next
  case True
  have "selfTargetId \<notin> snd ` set (registeredEvents (dispatchToHandler selfTargetId ev w))"
  proof (cases ev)
    case (AttachedToTarget cl p)
    show ?thesis
    proof (cases "isValidTarget selfTargetId (targetInfo p)")
      case False
      then show ?thesis
        using assms(1) by (simp add: AttachedToTarget handleAttachedToTargetEvent_invalid)
    next
      case valid: True
      then have ne: "targetId_ti (targetInfo p) \<noteq> selfTargetId"
        by (auto simp: isValidTarget_def split: if_splits)
      show ?thesis
      proof (cases "findContext (contexts w) (targetId_ti (targetInfo p))")
        case None
        then show ?thesis
          using assms(1) ne
          by (simp add: AttachedToTarget handleAttachedToTargetEvent_new [OF valid None])
      next
        case (Some c)
        then show ?thesis
          using assms(1) ne
          by (simp add: AttachedToTarget handleAttachedToTargetEvent_existing [OF valid Some])
      qed
    qed
  next
    case (DetachedFromTarget cl p)
    then show ?thesis
      using assms(1) by (simp add: handleDetachedFromTargetEvent_def split: option.splits)
  next
    case (FrameAttached cl p)
    then show ?thesis
      using assms
      by (auto simp: handleFrameAttachedEvent_def BrowsingContextImpl_create_def split: option.splits)
  next
    case (FrameDetached cl p)
    then show ?thesis
      using assms(1) by (simp add: handleFrameDetachedEvent_def split: option.splits)
  qed
  with True show ?thesis
    by (simp add: onCdpEvent_def)
qed

lemma settled_unchanged:
  "contexts (invalidTargetSettled hasLogger params cl reply w) = contexts w"
  "cdpTargets (invalidTargetSettled hasLogger params cl reply w) = cdpTargets w"
  "listeners (invalidTargetSettled hasLogger params cl reply w) = listeners w"
  "registeredEvents (invalidTargetSettled hasLogger params cl reply w) = registeredEvents w"
  "contexts (detachFromTargetSettled hasLogger reply w) = contexts w"
  "cdpTargets (detachFromTargetSettled hasLogger reply w) = cdpTargets w"
  "listeners (detachFromTargetSettled hasLogger reply w) = listeners w"
  "registeredEvents (detachFromTargetSettled hasLogger reply w) = registeredEvents w"
  by (simp_all add: invalidTargetSettled_def detachFromTargetSettled_def split: option.splits)

lemma processorStep_self:
  assumes "selfTargetId \<notin> fst ` set (contexts w)
           \<and> selfTargetId \<notin> targetId ` set (cdpTargets w)
           \<and> selfTargetId \<notin> snd ` set (registeredEvents w)"
    and "\<forall>cl p. input = CdpEventReceived (FrameAttached cl p) \<longrightarrow> frameId_fa p \<noteq> selfTargetId"
  shows "selfTargetId \<notin> fst ` set (contexts (processorStep selfTargetId hasLogger input w))
         \<and> selfTargetId \<notin> targetId ` set (cdpTargets (processorStep selfTargetId hasLogger input w))
         \<and> selfTargetId \<notin> snd ` set (registeredEvents (processorStep selfTargetId hasLogger input w))"
proof (cases input)
  case (CdpEventReceived ev)
  have fa: "\<forall>cl p. ev = FrameAttached cl p \<longrightarrow> frameId_fa p \<noteq> selfTargetId"
    using assms(2) CdpEventReceived by simp
  show ?thesis
    using assms(1) onCdpEvent_self [OF _ fa, of w] onCdpEvent_self_targets [of selfTargetId w ev]
      onCdpEvent_self_events [OF _ fa, of w]
    by (simp add: CdpEventReceived)
next
  case (RunIfWaitingForDebuggerSettled params cl reply)
  then show ?thesis
    using assms(1) by (simp add: settled_unchanged)
next
  case (DetachFromTargetSettled reply)
  then show ?thesis
    using assms(1) by (simp add: settled_unchanged)
qed

lemma processorRun_self:
  assumes "selfTargetId \<notin> fst ` set (contexts w)
           \<and> selfTargetId \<notin> targetId ` set (cdpTargets w)
           \<and> selfTargetId \<notin> snd ` set (registeredEvents w)"
    and "\<forall>input \<in> set inputs. \<forall>cl p.
           input = CdpEventReceived (FrameAttached cl p) \<longrightarrow> frameId_fa p \<noteq> selfTargetId"
  shows "selfTargetId \<notin> fst ` set (contexts (processorRun selfTargetId hasLogger inputs w))
         \<and> selfTargetId \<notin> targetId ` set (cdpTargets (processorRun selfTargetId hasLogger inputs w))
         \<and> selfTargetId \<notin> snd ` set (registeredEvents (processorRun selfTargetId hasLogger inputs w))"
  using assms
proof (induction inputs arbitrary: w)
  case Nil
  then show ?case by simp
next
  case (Cons input inputs)
  have step: "selfTargetId \<notin> fst ` set (contexts (processorStep selfTargetId hasLogger input w))
         \<and> selfTargetId \<notin> targetId ` set (cdpTargets (processorStep selfTargetId hasLogger input w))
         \<and> selfTargetId \<notin> snd ` set (registeredEvents (processorStep selfTargetId hasLogger input w))"
    using Cons.prems by (intro processorStep_self) auto
  have rest: "\<forall>input \<in> set inputs. \<forall>cl p.
           input = CdpEventReceived (FrameAttached cl p) \<longrightarrow> frameId_fa p \<noteq> selfTargetId"
    using Cons.prems(2) by simp
  from Cons.IH [OF step rest] show ?case
    by simp
qed

lemma processorRun_events:
  "processorRun selfTargetId hasLogger (map CdpEventReceived evs) w = onCdpEvents selfTargetId evs w"
  by (induction evs arbitrary: w) simp_all

text \<open>
  C9, as amended. A \<^verbatim>\<open>Target.attachedToTarget\<close> event for the self target does nothing
  but hand \<^verbatim>\<open>Runtime.runIfWaitingForDebugger\<close> to the client of the target: no target
  and no context is created, no listener is set and no event is registered. When
  that command has a result, \<^verbatim>\<open>Target.detachFromTarget\<close> goes to the parent client
  with the event as its parameters; a rejection of either command goes to the logger
  and nowhere else. Hence, from the start and over every sequence of CDP events and
  settled commands in which the browser reports no frame with the id of the self
  target, the self target is never a stored context, no target was created and no
  event registered for it, and no response of \<^verbatim>\<open>browsingContext.getTree\<close> lists it.
  Not every response is filtered: \<^verbatim>\<open>cdp.sendCommand\<close> answers with the result of the
  CDP command as it is.
\<close>

theorem selfTarget_never_listed:
  "(targetId_ti (targetInfo params) = selfTargetId \<longrightarrow>
      handleAttachedToTargetEvent selfTargetId params parentClient w
        = w\<lparr>commands := commands w @
              [\<lparr>client_cmd = SessionClient (sessionId params),
                method_cmd = ''Runtime.runIfWaitingForDebugger'', params_cmd = []\<rparr>]\<rparr>
      \<and> invalidTargetSettled hasLogger params parentClient None w
        = w\<lparr>commands := commands w @
              [\<lparr>client_cmd = parentClient, method_cmd = ''Target.detachFromTarget'',
                params_cmd =
                  [(''sessionId'', JStr (sessionId params)),
                   (''targetInfo'', JObj [(''targetId'', JStr selfTargetId),
                                          (''type'', JStr (type_ti (targetInfo params)))]),
                   (''waitingForDebugger'', JBool (waitingForDebugger params))]\<rparr>]\<rparr>
      \<and> invalidTargetSettled hasLogger params parentClient (Some e) w
        = (if hasLogger then w\<lparr>systemLog := systemLog w @ [e]\<rparr> else w)
      \<and> detachFromTargetSettled hasLogger None w = w
      \<and> detachFromTargetSettled hasLogger (Some e) w
        = (if hasLogger then w\<lparr>systemLog := systemLog w @ [e]\<rparr> else w))
   \<and> ((\<forall>input \<in> set inputs. \<forall>cl p.
          input = CdpEventReceived (FrameAttached cl p) \<longrightarrow> frameId_fa p \<noteq> selfTargetId) \<longrightarrow>
        selfTargetId \<notin> fst ` set (contexts (processorRun selfTargetId hasLogger inputs initialWorld))
        \<and> selfTargetId
              \<notin> targetId ` set (cdpTargets (processorRun selfTargetId hasLogger inputs initialWorld))
        \<and> selfTargetId
              \<notin> snd ` set (registeredEvents (processorRun selfTargetId hasLogger inputs initialWorld))
        \<and> (\<forall>q infos.
              process_browsingContext_getTree q
                  (processorRun selfTargetId hasLogger inputs initialWorld) = Inr infos
              \<longrightarrow> selfTargetId \<notin> \<Union> (listed ` set infos)))
   \<and> fst (process_cdp_sendCommand sendParams (Inr cdpResult) w)
        = Inr \<lparr>result_sc = cdpResult, cdpSession_sc = cdpSession sendParams\<rparr>"
proof (intro conjI impI allI)
  assume self: "targetId_ti (targetInfo params) = selfTargetId"
  then have "\<not> isValidTarget selfTargetId (targetInfo params)"
    by (simp add: isValidTarget_def)
  then show "handleAttachedToTargetEvent selfTargetId params parentClient w
        = w\<lparr>commands := commands w @
              [\<lparr>client_cmd = SessionClient (sessionId params),
                method_cmd = ''Runtime.runIfWaitingForDebugger'', params_cmd = []\<rparr>]\<rparr>"
    by (rule handleAttachedToTargetEvent_invalid)
  from self show "invalidTargetSettled hasLogger params parentClient None w
        = w\<lparr>commands := commands w @
              [\<lparr>client_cmd = parentClient, method_cmd = ''Target.detachFromTarget'',
                params_cmd =
                  [(''sessionId'', JStr (sessionId params)),
                   (''targetInfo'', JObj [(''targetId'', JStr selfTargetId),
                                          (''type'', JStr (type_ti (targetInfo params)))]),
                   (''waitingForDebugger'', JBool (waitingForDebugger params))]\<rparr>]\<rparr>"
    by (simp add: invalidTargetSettled_def eventObject_def)
  show "invalidTargetSettled hasLogger params parentClient (Some e) w
        = (if hasLogger then w\<lparr>systemLog := systemLog w @ [e]\<rparr> else w)"
    by (simp add: invalidTargetSettled_def)
  show "detachFromTargetSettled hasLogger None w = w"
    by (simp add: detachFromTargetSettled_def)
  show "detachFromTargetSettled hasLogger (Some e) w
        = (if hasLogger then w\<lparr>systemLog := systemLog w @ [e]\<rparr> else w)"
    by (simp add: detachFromTargetSettled_def)
next
  assume env: "\<forall>input \<in> set inputs. \<forall>cl p.
          input = CdpEventReceived (FrameAttached cl p) \<longrightarrow> frameId_fa p \<noteq> selfTargetId"
  have start: "selfTargetId \<notin> fst ` set (contexts initialWorld)
           \<and> selfTargetId \<notin> targetId ` set (cdpTargets initialWorld)
           \<and> selfTargetId \<notin> snd ` set (registeredEvents initialWorld)"
    by (simp add: initialWorld_def)
  note inv = processorRun_self [OF start env, of hasLogger]
  from inv show stored:
    "selfTargetId \<notin> fst ` set (contexts (processorRun selfTargetId hasLogger inputs initialWorld))"
    by (rule conjunct1)
  from inv show
    "selfTargetId \<notin> targetId ` set (cdpTargets (processorRun selfTargetId hasLogger inputs initialWorld))"
    by blast
  from inv show
    "selfTargetId \<notin> snd ` set (registeredEvents (processorRun selfTargetId hasLogger inputs initialWorld))"
    by blast
  fix q infos
  assume "process_browsingContext_getTree q
            (processorRun selfTargetId hasLogger inputs initialWorld) = Inr infos"
  from getTree_listed [OF this] stored show "selfTargetId \<notin> \<Union> (listed ` set infos)"
    by blast
next
  show "fst (process_cdp_sendCommand sendParams (Inr cdpResult) w)
        = Inr \<lparr>result_sc = cdpResult, cdpSession_sc = cdpSession sendParams\<rparr>"
    by (simp add: process_cdp_sendCommand_def Let_def)
qed

lemma onCdpEvent_absent:
  assumes "x \<notin> fst ` set (contexts w)"
    and "\<forall>cl p. ev = AttachedToTarget cl p \<longrightarrow> targetId_ti (targetInfo p) \<noteq> x"
    and "\<forall>cl p. ev = FrameAttached cl p \<longrightarrow> frameId_fa p \<noteq> x"
  shows "x \<notin> fst ` set (contexts (onCdpEvent selfTargetId ev w))"
proof (cases "hasListeners w (client_of ev)")
  case False
  then show ?thesis
    using assms(1) by (simp add: onCdpEvent_def)
next
  case True
  have "x \<notin> fst ` set (contexts (dispatchToHandler selfTargetId ev w))"
  proof (cases ev)
    case (AttachedToTarget cl p)
    with assms(2) have ne: "targetId_ti (targetInfo p) \<noteq> x"
      by simp
    show ?thesis
    proof (cases "isValidTarget selfTargetId (targetInfo p)")
      case False
      then show ?thesis
        using assms(1) by (simp add: AttachedToTarget handleAttachedToTargetEvent_invalid)
    next
      case valid: True
      show ?thesis
      proof (cases "findContext (contexts w) (targetId_ti (targetInfo p))")
        case None
        then show ?thesis
          using assms(1) ne
          by (simp add: AttachedToTarget handleAttachedToTargetEvent_new [OF valid None] dom_update)
      next
        case (Some c)
        then show ?thesis
          using assms(1) ne
          by (simp add: AttachedToTarget handleAttachedToTargetEvent_existing [OF valid Some]
              dom_update)
      qed
    qed
  next
    case (DetachedFromTarget cl p)
    then show ?thesis
      using assms(1) deleteContext_ids [of _ "contexts w"]
      by (auto simp: handleDetachedFromTargetEvent_def split: option.splits)
  next
    case (FrameAttached cl p)
    then show ?thesis
      using assms
      by (auto simp: handleFrameAttachedEvent_def BrowsingContextImpl_create_def dom_update
          split: option.splits)
  next
    case (FrameDetached cl p)
    then show ?thesis
      using assms(1) deleteContext_ids [of _ "contexts w"]
      by (auto simp: handleFrameDetachedEvent_def split: option.splits)
  qed
  with True show ?thesis
    by (simp add: onCdpEvent_def)
qed

lemma detached_removes:
  "context \<notin> fst ` set (contexts (onCdpEvent selfTargetId
      (DetachedFromTarget BrowserClient \<lparr>targetId_dt = Some context\<rparr>) w))"
proof (cases "findContext (contexts w) context")
  case None
  then show ?thesis
    by (simp add: onCdpEvent_def hasListeners_def handleDetachedFromTargetEvent_def
        findContext_None_ids [symmetric])
next
  case (Some c)
  then show ?thesis
    using deleteContext_ids [of "context" "contexts w"]
    by (auto simp: onCdpEvent_def hasListeners_def handleDetachedFromTargetEvent_def)
qed

lemma closeRun_resolved:
  assumes "fst (closeRun selfTargetId context inputs (progress, w)) = Resolved"
  shows "(\<forall>d. progress = AwaitingCloseTarget d \<longrightarrow>
            CloseTargetSettled None \<in> set inputs
            \<and> (\<not> d \<longrightarrow> Cdp (DetachedFromTarget BrowserClient \<lparr>targetId_dt = Some context\<rparr>)
                          \<in> set inputs))
       \<and> (progress = AwaitingDetached \<longrightarrow>
            Cdp (DetachedFromTarget BrowserClient \<lparr>targetId_dt = Some context\<rparr>) \<in> set inputs)
       \<and> (\<forall>e. progress \<noteq> Rejected e)"
  using assms
proof (induction inputs arbitrary: progress w)
  case Nil
  then show ?case by auto
next
  case (Cons input inputs)
  obtain progress' w' where step: "closeStep selfTargetId context input (progress, w) = (progress', w')"
    by (cases "closeStep selfTargetId context input (progress, w)")
  have p': "progress' = closeProgress context input progress"
    using step by (cases input) auto
  from Cons.prems have res: "fst (closeRun selfTargetId context inputs (progress', w')) = Resolved"
    by (simp add: step)
  note ih = Cons.IH [OF res]
  show ?case
  proof (cases progress)
    case (AwaitingCloseTarget d)
    show ?thesis
    proof (cases input)
      case (CloseTargetSettled reply)
      then show ?thesis
        using ih p' AwaitingCloseTarget
        by (cases reply) (auto split: if_splits)
    next
      case (Cdp ev)
      show ?thesis
      proof (cases "\<exists>p. ev = DetachedFromTarget BrowserClient p \<and> targetId_dt p = Some context \<and> \<not> d")
        case True
        then obtain p where ev: "ev = DetachedFromTarget BrowserClient p"
          and p: "targetId_dt p = Some context" and d: "\<not> d"
          by blast
        have "p = \<lparr>targetId_dt = Some context\<rparr>"
          using p by (cases p) simp
        then show ?thesis
          using ih p' AwaitingCloseTarget Cdp ev d by auto
      next
        case False
        have "progress' = progress"
        proof (cases ev)
          case (DetachedFromTarget cl p)
          then show ?thesis
            using False p' AwaitingCloseTarget Cdp
            by (cases cl; cases d) auto
        qed (use p' AwaitingCloseTarget Cdp in \<open>cases d; simp\<close>)+
        then show ?thesis
          using ih AwaitingCloseTarget by auto
      qed
    qed
  next
    case AwaitingDetached
    show ?thesis
    proof (cases "\<exists>p. input = Cdp (DetachedFromTarget BrowserClient p) \<and> targetId_dt p = Some context")
      case True
      then obtain p where i: "input = Cdp (DetachedFromTarget BrowserClient p)"
        and p: "targetId_dt p = Some context"
        by blast
      have "p = \<lparr>targetId_dt = Some context\<rparr>"
        using p by (cases p) simp
      then show ?thesis
        using AwaitingDetached i by simp
    next
      case False
      have "progress' = progress"
      proof (cases input)
        case (CloseTargetSettled reply)
        then show ?thesis
          using p' AwaitingDetached by (cases reply) auto
      next
        case (Cdp ev)
        show ?thesis
        proof (cases ev)
          case (DetachedFromTarget cl p)
          then show ?thesis
            using False p' AwaitingDetached Cdp by (cases cl) auto
        qed (use p' AwaitingDetached Cdp in simp)+
      qed
      then show ?thesis
        using ih AwaitingDetached by auto
    qed
  next
    case Resolved
    then show ?thesis by simp
  next
    case (Rejected e)
    have "progress' = Rejected e"
      using p' Rejected by (cases input) auto
    with ih show ?thesis by simp
  qed
qed

lemma closeProgress_detached:
  assumes "closeProgress context input progress \<in> {AwaitingCloseTarget True, Resolved}"
    and "progress \<notin> {AwaitingCloseTarget True, Resolved}"
  shows "input = Cdp (DetachedFromTarget BrowserClient \<lparr>targetId_dt = Some context\<rparr>)"
proof (cases input)
  case (CloseTargetSettled reply)
  then show ?thesis
    using assms by (cases reply; cases progress) (auto split: if_splits)
next
  case (Cdp ev)
  show ?thesis
  proof (cases ev)
    case (DetachedFromTarget cl p)
    have "cl = BrowserClient \<and> targetId_dt p = Some context"
      using assms Cdp DetachedFromTarget
      by (cases cl; cases progress) (auto split: if_splits bool.splits)
    then show ?thesis
      using Cdp DetachedFromTarget by (cases p) simp
  qed (use assms Cdp in \<open>(cases progress; simp)\<close>)+
qed

lemma closeStep_removed:
  assumes "(\<forall>cl p. input = Cdp (AttachedToTarget cl p) \<longrightarrow> targetId_ti (targetInfo p) \<noteq> context)
         \<and> (\<forall>cl p. input = Cdp (FrameAttached cl p) \<longrightarrow> frameId_fa p \<noteq> context)"
    and "progress \<in> {AwaitingCloseTarget True, Resolved} \<longrightarrow> context \<notin> fst ` set (contexts w)"
    and "closeStep selfTargetId context input (progress, w) = (progress', w')"
  shows "progress' \<in> {AwaitingCloseTarget True, Resolved} \<longrightarrow> context \<notin> fst ` set (contexts w')"
proof
  assume after: "progress' \<in> {AwaitingCloseTarget True, Resolved}"
  have p': "progress' = closeProgress context input progress"
    using assms(3) by (cases input) auto
  show "context \<notin> fst ` set (contexts w')"
  proof (cases "progress \<in> {AwaitingCloseTarget True, Resolved}")
    case True
    with assms(2) have absent: "context \<notin> fst ` set (contexts w)"
      by blast
    show ?thesis
    proof (cases input)
      case (CloseTargetSettled reply)
      then show ?thesis
        using assms(3) absent by auto
    next
      case (Cdp ev)
      have "context \<notin> fst ` set (contexts (onCdpEvent selfTargetId ev w))"
        using absent assms(1) Cdp by (intro onCdpEvent_absent) auto
      then show ?thesis
        using assms(3) Cdp by auto
    qed
  next
    case False
    from closeProgress_detached [OF after [unfolded p'] False]
    have "input = Cdp (DetachedFromTarget BrowserClient \<lparr>targetId_dt = Some context\<rparr>)" .
    then show ?thesis
      using assms(3) detached_removes [of "context" selfTargetId w] by auto
  qed
qed

lemma closeRun_removed:
  assumes "\<forall>input \<in> set inputs.
             (\<forall>cl p. input = Cdp (AttachedToTarget cl p) \<longrightarrow> targetId_ti (targetInfo p) \<noteq> context)
           \<and> (\<forall>cl p. input = Cdp (FrameAttached cl p) \<longrightarrow> frameId_fa p \<noteq> context)"
    and "progress \<in> {AwaitingCloseTarget True, Resolved} \<longrightarrow> context \<notin> fst ` set (contexts w)"
    and "closeRun selfTargetId context inputs (progress, w) = (progress', w')"
  shows "progress' \<in> {AwaitingCloseTarget True, Resolved} \<longrightarrow> context \<notin> fst ` set (contexts w')"
  using assms
proof (induction inputs arbitrary: progress w)
  case Nil
  then show ?case by simp
next
  case (Cons input inputs)
  obtain progress1 w1 where step: "closeStep selfTargetId context input (progress, w) = (progress1, w1)"
    by (cases "closeStep selfTargetId context input (progress, w)")
  have env1: "(\<forall>cl p. input = Cdp (AttachedToTarget cl p) \<longrightarrow> targetId_ti (targetInfo p) \<noteq> context)
         \<and> (\<forall>cl p. input = Cdp (FrameAttached cl p) \<longrightarrow> frameId_fa p \<noteq> context)"
    using Cons.prems(1) by simp
  have inv1: "progress1 \<in> {AwaitingCloseTarget True, Resolved} \<longrightarrow> context \<notin> fst ` set (contexts w1)"
    by (rule closeStep_removed [OF env1 Cons.prems(2) step])
  have env: "\<forall>input \<in> set inputs.
             (\<forall>cl p. input = Cdp (AttachedToTarget cl p) \<longrightarrow> targetId_ti (targetInfo p) \<noteq> context)
           \<and> (\<forall>cl p. input = Cdp (FrameAttached cl p) \<longrightarrow> frameId_fa p \<noteq> context)"
    using Cons.prems(1) by simp
  have run: "closeRun selfTargetId context inputs (progress1, w1) = (progress', w')"
    using Cons.prems(3) by (simp add: step)
  from Cons.IH [OF env inv1 run] show ?case .
qed

text \<open>
  C8. After \<^verbatim>\<open>browsingContext.close\<close> has started on a stored top-level context, the
  command has returned its result only if the reply to \<^verbatim>\<open>Target.closeTarget\<close> has
  arrived and a \<^verbatim>\<open>Target.detachedFromTarget\<close> event for the target id has been seen
  on the browser client, and it returns when both have happened, in either order.
  Provided the browser does not, in between, attach a target or a frame with the id
  of the context being closed, the context is then no longer stored, and no
  \<^verbatim>\<open>browsingContext.getTree\<close> lists it.
\<close>

theorem close_resolves_after_both:
  assumes "close_start context w = Inr w0"
  shows "(closeRun selfTargetId context inputs (AwaitingCloseTarget False, w0) = (Resolved, w') \<longrightarrow>
            CloseTargetSettled None \<in> set inputs
          \<and> Cdp (DetachedFromTarget BrowserClient \<lparr>targetId_dt = Some context\<rparr>) \<in> set inputs
          \<and> ((\<forall>input \<in> set inputs.
                 (\<forall>cl p. input = Cdp (AttachedToTarget cl p) \<longrightarrow>
                    targetId_ti (targetInfo p) \<noteq> context)
               \<and> (\<forall>cl p. input = Cdp (FrameAttached cl p) \<longrightarrow> frameId_fa p \<noteq> context)) \<longrightarrow>
               context \<notin> fst ` set (contexts w')
               \<and> (\<forall>q infos. process_browsingContext_getTree q w' = Inr infos \<longrightarrow>
                     context \<notin> \<Union> (listed ` set infos))))
       \<and> fst (closeRun selfTargetId context
                 [CloseTargetSettled None,
                  Cdp (DetachedFromTarget BrowserClient \<lparr>targetId_dt = Some context\<rparr>)]
                 (AwaitingCloseTarget False, w0)) = Resolved
       \<and> fst (closeRun selfTargetId context
                 [Cdp (DetachedFromTarget BrowserClient \<lparr>targetId_dt = Some context\<rparr>),
                  CloseTargetSettled None]
                 (AwaitingCloseTarget False, w0)) = Resolved
       \<and> context \<in> fst ` set (contexts w0)"
proof (intro conjI impI)
  assume run: "closeRun selfTargetId context inputs (AwaitingCloseTarget False, w0) = (Resolved, w')"
  then have "fst (closeRun selfTargetId context inputs (AwaitingCloseTarget False, w0)) = Resolved"
    by simp
  from closeRun_resolved [OF this]
  show "CloseTargetSettled None \<in> set inputs"
    and "Cdp (DetachedFromTarget BrowserClient \<lparr>targetId_dt = Some context\<rparr>) \<in> set inputs"
    by auto
  assume env: "\<forall>input \<in> set inputs.
                 (\<forall>cl p. input = Cdp (AttachedToTarget cl p) \<longrightarrow>
                    targetId_ti (targetInfo p) \<noteq> context)
               \<and> (\<forall>cl p. input = Cdp (FrameAttached cl p) \<longrightarrow> frameId_fa p \<noteq> context)"
  have start: "AwaitingCloseTarget False \<in> {AwaitingCloseTarget True, Resolved} \<longrightarrow>
      context \<notin> fst ` set (contexts w0)"
    by simp
  have "Resolved \<in> {AwaitingCloseTarget True, Resolved} \<longrightarrow> context \<notin> fst ` set (contexts w')"
    by (rule closeRun_removed [OF env start run])
  then show gone: "context \<notin> fst ` set (contexts w')"
    by simp
  show "\<forall>q infos. process_browsingContext_getTree q w' = Inr infos \<longrightarrow>
                     context \<notin> \<Union> (listed ` set infos)"
    using getTree_listed [of _ w'] gone by blast
next
  show "fst (closeRun selfTargetId context
                 [CloseTargetSettled None,
                  Cdp (DetachedFromTarget BrowserClient \<lparr>targetId_dt = Some context\<rparr>)]
                 (AwaitingCloseTarget False, w0)) = Resolved"
    by simp
  show "fst (closeRun selfTargetId context
                 [Cdp (DetachedFromTarget BrowserClient \<lparr>targetId_dt = Some context\<rparr>),
                  CloseTargetSettled None]
                 (AwaitingCloseTarget False, w0)) = Resolved"
    by simp
  show "context \<in> fst ` set (contexts w0)"
    using assms findContext_ids [of "contexts w" "context"]
    by (auto simp: close_start_def getContext_def split: option.splits if_splits)
qed

lemma exampleEvents_run: "onCdpEvents ''SELF'' exampleEvents initialWorld = exampleProcessorWorld"
  by (simp add: exampleEvents_def exampleProcessorWorld_def initialWorld_def onCdpEvent_def
      hasListeners_def handleAttachedToTargetEvent_def isValidTarget_def findContext_def
      CdpTarget_create_def BrowsingContextImpl_create_def handleFrameAttachedEvent_def Let_def)

theorem handleAttachedToTargetEvent_oopif_witness:
  "findContext (contexts exampleProcessorWorld) ''F1''
     = Some \<lparr>parentId = Some ''C1'', navigableId_bc = None,
              cdpTarget = \<lparr>targetId = ''C1'', parentTargetId = None, cdpSessionId_t = ''S1''\<rparr>\<rparr>
   \<and> isValidTarget ''SELF'' \<lparr>targetId_ti = ''F1'', type_ti = ''iframe''\<rparr>
   \<and> map fst (contexts (handleAttachedToTargetEvent ''SELF''
         \<lparr>sessionId = ''S2'', targetInfo = \<lparr>targetId_ti = ''F1'', type_ti = ''iframe''\<rparr>, waitingForDebugger = True\<rparr>
         (SessionClient ''S1'') exampleProcessorWorld))
       = [''C1'', ''F1'']
   \<and> findContext (contexts (handleAttachedToTargetEvent ''SELF''
         \<lparr>sessionId = ''S2'', targetInfo = \<lparr>targetId_ti = ''F1'', type_ti = ''iframe''\<rparr>, waitingForDebugger = True\<rparr>
         (SessionClient ''S1'') exampleProcessorWorld)) ''F1''
       = Some \<lparr>parentId = Some ''C1'', navigableId_bc = None,
                cdpTarget = \<lparr>targetId = ''F1'', parentTargetId = Some ''C1'',
                              cdpSessionId_t = ''S2''\<rparr>\<rparr>
   \<and> findContext (contexts exampleProcessorWorld) ''C2'' = None
   \<and> fst ` set (contexts (handleAttachedToTargetEvent ''SELF''
         \<lparr>sessionId = ''S3'', targetInfo = \<lparr>targetId_ti = ''C2'', type_ti = ''page''\<rparr>, waitingForDebugger = True\<rparr>
         BrowserClient exampleProcessorWorld))
       = {''C1'', ''F1'', ''C2''}"
proof -
  have a: "findContext (contexts exampleProcessorWorld) ''F1''
     = Some \<lparr>parentId = Some ''C1'', navigableId_bc = None,
              cdpTarget = \<lparr>targetId = ''C1'', parentTargetId = None, cdpSessionId_t = ''S1''\<rparr>\<rparr>"
    by (simp add: exampleProcessorWorld_def findContext_def)
  have b: "isValidTarget ''SELF'' \<lparr>targetId_ti = ''F1'', type_ti = ''iframe''\<rparr>"
    by (simp add: isValidTarget_def)
  have c1: "''C2'' \<in> fst ` set (contexts (handleAttachedToTargetEvent ''SELF''
         \<lparr>sessionId = ''S3'', targetInfo = \<lparr>targetId_ti = ''C2'', type_ti = ''page''\<rparr>, waitingForDebugger = True\<rparr>
         BrowserClient exampleProcessorWorld))"
    by (simp add: exampleProcessorWorld_def handleAttachedToTargetEvent_def isValidTarget_def
        findContext_def CdpTarget_create_def BrowsingContextImpl_create_def Let_def)
  have c2: "''C2'' \<notin> fst ` set (contexts exampleProcessorWorld)"
    by (simp add: exampleProcessorWorld_def)
  from c1 c2 have c: "fst ` set (contexts (handleAttachedToTargetEvent ''SELF''
         \<lparr>sessionId = ''S3'', targetInfo = \<lparr>targetId_ti = ''C2'', type_ti = ''page''\<rparr>, waitingForDebugger = True\<rparr>
         BrowserClient exampleProcessorWorld))
       \<noteq> fst ` set (contexts exampleProcessorWorld)"
    by blast
  from handleAttachedToTargetEvent_oopif
         [where w = exampleProcessorWorld and selfTargetId = "''SELF''"
            and params = "\<lparr>sessionId = ''S2'', targetInfo = \<lparr>targetId_ti = ''F1'', type_ti = ''iframe''\<rparr>, waitingForDebugger = True\<rparr>"
            and parentClient = "SessionClient ''S1''"
            and c = "\<lparr>parentId = Some ''C1'', navigableId_bc = None,
              cdpTarget = \<lparr>targetId = ''C1'', parentTargetId = None, cdpSessionId_t = ''S1''\<rparr>\<rparr>"]
       handleAttachedToTargetEvent_oopif
         [where w = exampleProcessorWorld and selfTargetId = "''SELF''"
            and params = "\<lparr>sessionId = ''S3'', targetInfo = \<lparr>targetId_ti = ''C2'', type_ti = ''page''\<rparr>, waitingForDebugger = True\<rparr>"
            and parentClient = BrowserClient]
       a b c
  show ?thesis
    by (simp add: exampleProcessorWorld_def insert_commute)
qed

theorem selfTarget_never_listed_witness:
  "handleAttachedToTargetEvent ''SELF''
       \<lparr>sessionId = ''S0'', targetInfo = \<lparr>targetId_ti = ''SELF'', type_ti = ''page''\<rparr>,
         waitingForDebugger = True\<rparr>
       BrowserClient initialWorld
     = initialWorld\<lparr>commands :=
         [\<lparr>client_cmd = SessionClient ''S0'',
           method_cmd = ''Runtime.runIfWaitingForDebugger'', params_cmd = []\<rparr>]\<rparr>
   \<and> invalidTargetSettled True
       \<lparr>sessionId = ''S0'', targetInfo = \<lparr>targetId_ti = ''SELF'', type_ti = ''page''\<rparr>,
         waitingForDebugger = True\<rparr>
       BrowserClient None initialWorld
     = initialWorld\<lparr>commands :=
         [\<lparr>client_cmd = BrowserClient, method_cmd = ''Target.detachFromTarget'',
           params_cmd =
             [(''sessionId'', JStr ''S0''),
              (''targetInfo'', JObj [(''targetId'', JStr ''SELF''), (''type'', JStr ''page'')]),
              (''waitingForDebugger'', JBool True)]\<rparr>]\<rparr>
   \<and> processorRun ''SELF'' True (map CdpEventReceived exampleEvents) initialWorld
       = exampleProcessorWorld
   \<and> ''SELF'' \<notin> fst ` set (contexts exampleProcessorWorld)
   \<and> ''SELF'' \<notin> targetId ` set (cdpTargets exampleProcessorWorld)
   \<and> ''SELF'' \<notin> snd ` set (registeredEvents exampleProcessorWorld)
   \<and> process_browsingContext_getTree \<lparr>root = None, maxDepth = None\<rparr> exampleProcessorWorld
       = Inr [Info ''C1'' (Some [Info ''F1'' (Some [])])]
   \<and> ''SELF'' \<notin> \<Union> (listed ` set [Info ''C1'' (Some [Info ''F1'' (Some [])])])"
proof -
  have env: "\<forall>input \<in> set (map CdpEventReceived exampleEvents). \<forall>cl p.
          input = CdpEventReceived (FrameAttached cl p) \<longrightarrow> frameId_fa p \<noteq> ''SELF''"
    by (simp add: exampleEvents_def)
  have tree: "process_browsingContext_getTree \<lparr>root = None, maxDepth = None\<rparr> exampleProcessorWorld
       = Inr [Info ''C1'' (Some [Info ''F1'' (Some [])])]"
    by (simp add: process_browsingContext_getTree_def exampleProcessorWorld_def
        getTopLevelContexts_def Let_def numeral_2_eq_2)
  have run: "processorRun ''SELF'' True (map CdpEventReceived exampleEvents) initialWorld
       = exampleProcessorWorld"
    by (simp add: processorRun_events exampleEvents_run)
  from selfTarget_never_listed
         [where selfTargetId = "''SELF''" and inputs = "map CdpEventReceived exampleEvents"
            and w = initialWorld and hasLogger = True
            and parentClient = BrowserClient
            and params = "\<lparr>sessionId = ''S0'', targetInfo = \<lparr>targetId_ti = ''SELF'', type_ti = ''page''\<rparr>,
                            waitingForDebugger = True\<rparr>"]
       env tree run
  show ?thesis
    by (simp add: initialWorld_def)
qed

text \<open>
  C9 as stated fails: after the events of the example, with the self target \<^verbatim>\<open>SELF\<close>
  attached and filtered, \<^verbatim>\<open>cdp.sendCommand\<close> of \<^verbatim>\<open>Target.getTargets\<close> answers with the
  list of targets the browser gives, and that list names \<^verbatim>\<open>SELF\<close>.
\<close>

theorem selfTarget_sendCommand_counterexample:
  "processorRun ''SELF'' True (map CdpEventReceived exampleEvents) initialWorld
     = exampleProcessorWorld
   \<and> fst (process_cdp_sendCommand
          \<lparr>cdpMethod = ''Target.getTargets'', cdpParams = [], cdpSession = None\<rparr>
          (Inr (JObj [(''targetInfos'',
                  JArr [JObj [(''targetId'', JStr ''SELF''), (''type'', JStr ''page'')],
                        JObj [(''targetId'', JStr ''C1''), (''type'', JStr ''page'')]])]))
          exampleProcessorWorld)
     = Inr \<lparr>result_sc =
              JObj [(''targetInfos'',
                  JArr [JObj [(''targetId'', JStr ''SELF''), (''type'', JStr ''page'')],
                        JObj [(''targetId'', JStr ''C1''), (''type'', JStr ''page'')]])],
            cdpSession_sc = None\<rparr>"
  by (simp add: processorRun_events exampleEvents_run process_cdp_sendCommand_def Let_def)

theorem close_resolves_after_both_witness:
  "close_start ''C1'' exampleProcessorWorld
     = Inr (exampleProcessorWorld\<lparr>commands := commands exampleProcessorWorld @
              [\<lparr>client_cmd = BrowserClient, method_cmd = ''Target.closeTarget'',
                params_cmd = [(''targetId'', JStr ''C1'')]\<rparr>]\<rparr>)
   \<and> closeRun ''SELF'' ''C1''
        [Cdp (DetachedFromTarget BrowserClient \<lparr>targetId_dt = Some ''C1''\<rparr>),
         CloseTargetSettled None]
        (AwaitingCloseTarget False,
         exampleProcessorWorld\<lparr>commands := commands exampleProcessorWorld @
              [\<lparr>client_cmd = BrowserClient, method_cmd = ''Target.closeTarget'',
                params_cmd = [(''targetId'', JStr ''C1'')]\<rparr>]\<rparr>)
     = (Resolved,
        exampleProcessorWorld\<lparr>commands := commands exampleProcessorWorld @
              [\<lparr>client_cmd = BrowserClient, method_cmd = ''Target.closeTarget'',
                params_cmd = [(''targetId'', JStr ''C1'')]\<rparr>],
           contexts := []\<rparr>)
   \<and> process_browsingContext_getTree \<lparr>root = None, maxDepth = None\<rparr>
        (exampleProcessorWorld\<lparr>commands := commands exampleProcessorWorld @
              [\<lparr>client_cmd = BrowserClient, method_cmd = ''Target.closeTarget'',
                params_cmd = [(''targetId'', JStr ''C1'')]\<rparr>],
           contexts := []\<rparr>) = Inr []
   \<and> ''C1'' \<in> fst ` set (contexts exampleProcessorWorld)"
proof -
  have start: "close_start ''C1'' exampleProcessorWorld
     = Inr (exampleProcessorWorld\<lparr>commands := commands exampleProcessorWorld @
              [\<lparr>client_cmd = BrowserClient, method_cmd = ''Target.closeTarget'',
                params_cmd = [(''targetId'', JStr ''C1'')]\<rparr>]\<rparr>)"
    by (simp add: close_start_def getContext_def findContext_def exampleProcessorWorld_def)
  have run: "closeRun ''SELF'' ''C1''
        [Cdp (DetachedFromTarget BrowserClient \<lparr>targetId_dt = Some ''C1''\<rparr>),
         CloseTargetSettled None]
        (AwaitingCloseTarget False,
         exampleProcessorWorld\<lparr>commands := commands exampleProcessorWorld @
              [\<lparr>client_cmd = BrowserClient, method_cmd = ''Target.closeTarget'',
                params_cmd = [(''targetId'', JStr ''C1'')]\<rparr>]\<rparr>)
     = (Resolved,
        exampleProcessorWorld\<lparr>commands := commands exampleProcessorWorld @
              [\<lparr>client_cmd = BrowserClient, method_cmd = ''Target.closeTarget'',
                params_cmd = [(''targetId'', JStr ''C1'')]\<rparr>],
           contexts := []\<rparr>)"
    by (simp add: onCdpEvent_def hasListeners_def handleDetachedFromTargetEvent_def
        findContext_def deleteContext_def exampleProcessorWorld_def Let_def numeral_2_eq_2)
  have tree: "process_browsingContext_getTree \<lparr>root = None, maxDepth = None\<rparr>
        (exampleProcessorWorld\<lparr>commands := commands exampleProcessorWorld @
              [\<lparr>client_cmd = BrowserClient, method_cmd = ''Target.closeTarget'',
                params_cmd = [(''targetId'', JStr ''C1'')]\<rparr>],
           contexts := []\<rparr>) = Inr []"
    by (simp add: process_browsingContext_getTree_def getTopLevelContexts_def)
  from close_resolves_after_both [OF start, where selfTargetId = "''SELF''"
         and inputs = "[Cdp (DetachedFromTarget BrowserClient \<lparr>targetId_dt = Some ''C1''\<rparr>),
                        CloseTargetSettled None]"]
       start run tree
  show ?thesis
    by simp
qed

section \<open>Properties of releaseActions\<close>





end
